theory Spec2Isabelle
  imports Complex_Main "HOL-Library.AList" "HOL-Library.Sublist"
begin

section \<open>Values shared by the services\<close>

text \<open>
  A JavaScript value as the services see it in JSON columns and rule conditions.
  A JS number is a finite double here, read as the rational it denotes; a bigint is
  an unbounded integer.
\<close>

datatype jsval =
    JUndefined
  | JNull
  | JBool bool
  | JNum rat
  | JStr string
  | JBigInt int
  | JArr "jsval list"
  | JObj "(string \<times> jsval) list"

type_synonym Currency = string

text \<open>Decimal rendering, as template strings print an index or a bigint.\<close>

definition digitChar :: "nat \<Rightarrow> char" where
  "digitChar d = char_of (48 + d)"

fun showNat :: "nat \<Rightarrow> string" where
  "showNat n = (if n < 10 then [digitChar n] else showNat (n div 10) @ [digitChar (n mod 10)])"

declare showNat.simps [simp del]

definition showInt :: "int \<Rightarrow> string" where
  "showInt i = (if i < 0 then CHR ''-'' # showNat (nat (- i)) else showNat (nat i))"

text \<open>
  The \<open>Transaction\<close> row of the store, with the fields the services read and write
  (prefix \<open>tx_\<close>). Times are clock readings.
\<close>

datatype TransactionStatus = PENDING | PROCESSING | COMPLETED | FAILED | REFUNDED | CANCELLED

datatype TransactionType = PAYMENT | REFUND | PAYOUT | TRANSFER

fun statusName :: "TransactionStatus \<Rightarrow> string" where
  "statusName PENDING = ''PENDING''"
| "statusName PROCESSING = ''PROCESSING''"
| "statusName COMPLETED = ''COMPLETED''"
| "statusName FAILED = ''FAILED''"
| "statusName REFUNDED = ''REFUNDED''"
| "statusName CANCELLED = ''CANCELLED''"

record Transaction =
  tx_id :: string
  tx_merchantId :: string
  tx_customerId :: "string option"
  tx_providerId :: "string option"
  tx_paymentMethodId :: "string option"
  tx_parentTransactionId :: "string option"
  tx_type :: TransactionType
  tx_status :: TransactionStatus
  tx_amount :: int
  tx_currency :: Currency
  tx_convertedAmount :: "int option"
  tx_convertedCurrency :: "Currency option"
  tx_fxRateId :: "string option"
  tx_providerTransactionId :: "string option"
  tx_providerResponse :: "jsval option"
  tx_description :: "string option"
  tx_failureReason :: "string option"
  tx_metadata :: "(string \<times> jsval) list"
  tx_idempotencyKey :: "string option"
  tx_capturedAt :: "nat option"
  tx_cancelledAt :: "nat option"
  tx_refundedAt :: "nat option"
  tx_createdAt :: nat
  tx_updatedAt :: nat

section \<open>Ledger (ledger.service.ts, ledger.types.ts, ledger.schemas.ts)\<close>

datatype LedgerEntryType = DEBIT | CREDIT

text \<open>\<open>CreateLedgerEntryRequest\<close> of ledger.types.ts; the fields carry the prefix \<open>le_\<close>.\<close>

record CreateLedgerEntryRequest =
  le_transactionId :: string
  le_accountCode :: string
  le_entryType :: LedgerEntryType
  le_amount :: int
  le_currency :: Currency
  le_description :: "string option"
  le_metadata :: "(string \<times> jsval) list option"

text \<open>
  A row of the \<open>ledgerEntry\<close> table, which is also the shape of \<open>LedgerEntryResponse\<close>
  (\<open>toLedgerEntryResponse\<close> copies every field). The id and the creation time are
  given by the store: the id is the row's position, the time is the clock's.
\<close>

record LedgerEntryResponse =
  lr_id :: nat
  lr_transactionId :: string
  lr_accountCode :: string
  lr_entryType :: LedgerEntryType
  lr_amount :: int
  lr_currency :: Currency
  lr_balance :: "int option"
  lr_description :: "string option"
  lr_metadata :: "(string \<times> jsval) list"
  lr_createdAt :: nat

datatype LedgerError =
    UNBALANCED_ENTRY string
  | INVALID_ACCOUNT_CODE string
  | TRANSACTION_NOT_FOUND string
  | DUPLICATE_ENTRY string

text \<open>The part of the store the ledger service reads and writes.\<close>

record LedgerDb =
  ld_transactions :: "string list"
  ld_entries :: "LedgerEntryResponse list"

text \<open>
  \<open>currencyTotals\<close> is a JS \<open>Map\<close>: an association list in insertion order, where
  \<open>set\<close> on a present key replaces the value in place (\<open>AList.update\<close>).
  One iteration of the first loop of \<open>validateBalance\<close>:
\<close>

definition addToTotals ::
  "(Currency \<times> int \<times> int) list \<Rightarrow> CreateLedgerEntryRequest \<Rightarrow> (Currency \<times> int \<times> int) list" where
  "addToTotals currencyTotals entry =
     (let m = (if map_of currencyTotals (le_currency entry) = None
               then AList.update (le_currency entry) (0, 0) currencyTotals
               else currencyTotals);
          totals = (case map_of m (le_currency entry) of Some t \<Rightarrow> t | None \<Rightarrow> (0, 0))
      in if le_entryType entry = DEBIT
         then AList.update (le_currency entry) (fst totals + le_amount entry, snd totals) m
         else AList.update (le_currency entry) (fst totals, snd totals + le_amount entry) m)"

text \<open>The second loop of \<open>validateBalance\<close>: the first unbalanced currency throws.\<close>

fun checkTotals :: "string \<Rightarrow> (Currency \<times> int \<times> int) list \<Rightarrow> LedgerError + unit" where
  "checkTotals transactionId [] = Inr ()"
| "checkTotals transactionId ((c, totals) # rest) =
     (if fst totals \<noteq> snd totals then Inl (UNBALANCED_ENTRY transactionId)
      else checkTotals transactionId rest)"

definition validateBalance :: "string \<Rightarrow> CreateLedgerEntryRequest list \<Rightarrow> LedgerError + unit" where
  "validateBalance transactionId entries = checkTotals transactionId (foldl addToTotals [] entries)"

text \<open>\<open>prisma.ledgerEntry.create\<close> for the \<open>i\<close>-th entry of the batch.\<close>

definition createRow :: "nat \<Rightarrow> nat \<Rightarrow> CreateLedgerEntryRequest \<Rightarrow> LedgerEntryResponse" where
  "createRow now rowId entry =
     \<lparr> lr_id = rowId,
       lr_transactionId = le_transactionId entry,
       lr_accountCode = le_accountCode entry,
       lr_entryType = le_entryType entry,
       lr_amount = le_amount entry,
       lr_currency = le_currency entry,
       lr_balance = None,
       lr_description = le_description entry,
       lr_metadata = (case le_metadata entry of None \<Rightarrow> [] | Some m \<Rightarrow> m),
       lr_createdAt = now \<rparr>"

fun createRows :: "nat \<Rightarrow> nat \<Rightarrow> CreateLedgerEntryRequest list \<Rightarrow> LedgerEntryResponse list" where
  "createRows now rowId [] = []"
| "createRows now rowId (entry # rest) = createRow now rowId entry # createRows now (Suc rowId) rest"

text \<open>
  \<open>recordEntries\<close>: the result (an error or the created rows) and the store after
  the call. The batch of \<open>prisma.$transaction\<close> is written whole.
\<close>

definition recordEntries ::
  "nat \<Rightarrow> LedgerDb \<Rightarrow> string \<Rightarrow> CreateLedgerEntryRequest list
     \<Rightarrow> (LedgerError + LedgerEntryResponse list) \<times> LedgerDb" where
  "recordEntries now db transactionId entries =
     (if transactionId \<notin> set (ld_transactions db)
      then (Inl (TRANSACTION_NOT_FOUND transactionId), db)
      else case validateBalance transactionId entries of
             Inl e \<Rightarrow> (Inl e, db)
           | Inr _ \<Rightarrow>
               (let created = createRows now (length (ld_entries db)) entries
                in (Inr created, db\<lparr>ld_entries := ld_entries db @ created\<rparr>)))"

text \<open>
  The \<open>entries\<close> array of \<open>createLedgerEntriesBodySchema\<close> (ledger.schemas.ts), which the
  route checks before \<open>LedgerController.createEntries\<close> calls \<open>recordEntries\<close>.
\<close>

definition currencyEnum :: "string list" where
  "currencyEnum = [''USD'', ''EUR'', ''GBP'', ''SGD'', ''JPY'', ''AUD'', ''CAD'', ''CHF'', ''CNY'', ''HKD'']"

definition entrySchema :: "CreateLedgerEntryRequest \<Rightarrow> bool" where
  "entrySchema e =
     (1 \<le> length (le_accountCode e) \<and> length (le_accountCode e) \<le> 20 \<and>
      0 < le_amount e \<and>
      le_currency e \<in> set currencyEnum \<and>
      (case le_description e of None \<Rightarrow> True | Some d \<Rightarrow> length d \<le> 500))"

definition entriesSchema :: "CreateLedgerEntryRequest list \<Rightarrow> bool" where
  "entriesSchema entries = (list_all entrySchema entries \<and> 2 \<le> length entries)"

text \<open>The sums the specification speaks of, over the submitted entry set.\<close>

definition debitSum :: "Currency \<Rightarrow> CreateLedgerEntryRequest list \<Rightarrow> int" where
  "debitSum c entries =
     sum_list (map le_amount (filter (\<lambda>e. le_currency e = c \<and> le_entryType e = DEBIT) entries))"

definition creditSum :: "Currency \<Rightarrow> CreateLedgerEntryRequest list \<Rightarrow> int" where
  "creditSum c entries =
     sum_list (map le_amount (filter (\<lambda>e. le_currency e = c \<and> le_entryType e \<noteq> DEBIT) entries))"

definition unbalancedCurrencies :: "CreateLedgerEntryRequest list \<Rightarrow> Currency list" where
  "unbalancedCurrencies entries =
     filter (\<lambda>c. debitSum c entries \<noteq> creditSum c entries) (map le_currency entries)"

definition lookupTotals :: "(Currency \<times> int \<times> int) list \<Rightarrow> Currency \<Rightarrow> int \<times> int" where
  "lookupTotals m c = (case map_of m c of Some t \<Rightarrow> t | None \<Rightarrow> (0, 0))"

text \<open>The entry sets of the service's unit tests, and a store that knows their transaction.\<close>

definition exampleLedgerDb :: LedgerDb where
  "exampleLedgerDb = \<lparr> ld_transactions = [''txn-123''], ld_entries = [] \<rparr>"

definition exampleEntry :: "string \<Rightarrow> LedgerEntryType \<Rightarrow> int \<Rightarrow> CreateLedgerEntryRequest" where
  "exampleEntry code ty amt =
     \<lparr> le_transactionId = ''txn-123'', le_accountCode = code, le_entryType = ty,
       le_amount = amt, le_currency = ''USD'', le_description = None, le_metadata = None \<rparr>"

definition unbalancedExample :: "CreateLedgerEntryRequest list" where
  "unbalancedExample = [exampleEntry ''1000'' DEBIT 1000, exampleEntry ''2100'' CREDIT 500]"

definition balancedExample :: "CreateLedgerEntryRequest list" where
  "balancedExample = [exampleEntry ''1000'' DEBIT 1000, exampleEntry ''2100'' CREDIT 1000]"

section \<open>Reconciliation (reconciliation.service.ts, reconciliation.types.ts)\<close>

datatype DiscrepancyType = MISSING_IN_DB | MISSING_IN_PROVIDER | AMOUNT_MISMATCH | STATUS_MISMATCH

datatype DiscrepancyResolution = force_match | refund | ignore

datatype ReconciliationStatus = R_PENDING | R_IN_PROGRESS | R_COMPLETED | R_FAILED | R_REQUIRES_REVIEW

text \<open>
  \<open>SettlementRecord\<close>: the amount is a JS number, an integer by the request schema
  (\<open>z.number().int()\<close>).
\<close>

record SettlementRecord =
  sr_transactionId :: string
  sr_amount :: int
  sr_currency :: string
  sr_status :: string
  sr_providerRef :: "string option"
  sr_settledAt :: "string option"

record Discrepancy =
  d_id :: string
  d_transactionId :: string
  d_type :: DiscrepancyType
  d_providerAmount :: "int option"
  d_localAmount :: "int option"
  d_providerStatus :: "string option"
  d_localStatus :: "string option"
  d_description :: string
  d_resolution :: "DiscrepancyResolution option"
  d_resolvedAt :: "nat option"
  d_resolvedBy :: "string option"

record ReconcileRequest =
  rq_merchantId :: string
  rq_providerId :: string
  rq_fromDate :: nat
  rq_toDate :: nat
  rq_settlementData :: "SettlementRecord list"

text \<open>
  A row of the \<open>reconciliationReport\<close> table. Of the \<open>summary\<close> column the counts by
  type are kept; the reconciliation rate, a rounded floating-point quotient, is not.
\<close>

record ReconciliationReport =
  rp_id :: string
  rp_merchantId :: string
  rp_status :: ReconciliationStatus
  rp_periodStart :: nat
  rp_periodEnd :: nat
  rp_totalTransactions :: nat
  rp_matchedTransactions :: nat
  rp_unmatchedTransactions :: nat
  rp_discrepancies :: "Discrepancy list"
  rp_byType :: "(DiscrepancyType \<times> nat) list"
  rp_generatedAt :: nat
  rp_reviewedAt :: "nat option"
  rp_reviewedBy :: "string option"
  rp_createdAt :: nat

text \<open>\<open>ReconciliationReportDetail\<close>, what \<open>reconcile\<close> and \<open>resolveDiscrepancy\<close> return.\<close>

record ReconciliationReportDetail =
  rd_id :: string
  rd_merchantId :: string
  rd_status :: ReconciliationStatus
  rd_periodStart :: nat
  rd_periodEnd :: nat
  rd_totalTransactions :: nat
  rd_matchedTransactions :: nat
  rd_unmatchedTransactions :: nat
  rd_discrepancyCount :: nat
  rd_discrepancies :: "Discrepancy list"
  rd_byType :: "(DiscrepancyType \<times> nat) list"
  rd_createdAt :: nat

record ReconDb =
  rdb_transactions :: "Transaction list"
  rdb_reports :: "ReconciliationReport list"

datatype ReconError = NOT_FOUND string

text \<open>The four discrepancy objects \<open>reconcile\<close> pushes.\<close>

definition missingInDb :: "nat \<Rightarrow> SettlementRecord \<Rightarrow> Discrepancy" where
  "missingInDb discrepancyIdx providerRecord =
     \<lparr> d_id = ''disc_'' @ showNat discrepancyIdx,
       d_transactionId = sr_transactionId providerRecord,
       d_type = MISSING_IN_DB,
       d_providerAmount = Some (sr_amount providerRecord),
       d_localAmount = None,
       d_providerStatus = Some (sr_status providerRecord),
       d_localStatus = None,
       d_description = ''Transaction '' @ sr_transactionId providerRecord
          @ '' exists in provider settlement but not in local DB'',
       d_resolution = None, d_resolvedAt = None, d_resolvedBy = None \<rparr>"

definition amountMismatch :: "(int \<Rightarrow> int) \<Rightarrow> nat \<Rightarrow> SettlementRecord \<Rightarrow> Transaction \<Rightarrow> Discrepancy" where
  "amountMismatch num discrepancyIdx providerRecord localTxn =
     \<lparr> d_id = ''disc_'' @ showNat discrepancyIdx,
       d_transactionId = sr_transactionId providerRecord,
       d_type = AMOUNT_MISMATCH,
       d_providerAmount = Some (sr_amount providerRecord),
       d_localAmount = Some (num (tx_amount localTxn)),
       d_providerStatus = None,
       d_localStatus = None,
       d_description = ''Amount mismatch: provider='' @ showInt (sr_amount providerRecord)
          @ '', local='' @ showInt (tx_amount localTxn),
       d_resolution = None, d_resolvedAt = None, d_resolvedBy = None \<rparr>"

definition statusMismatch :: "nat \<Rightarrow> SettlementRecord \<Rightarrow> Transaction \<Rightarrow> Discrepancy" where
  "statusMismatch discrepancyIdx providerRecord localTxn =
     \<lparr> d_id = ''disc_'' @ showNat discrepancyIdx,
       d_transactionId = sr_transactionId providerRecord,
       d_type = STATUS_MISMATCH,
       d_providerAmount = None,
       d_localAmount = None,
       d_providerStatus = Some (sr_status providerRecord),
       d_localStatus = Some (statusName (tx_status localTxn)),
       d_description = ''Status mismatch: provider='' @ sr_status providerRecord
          @ '', local='' @ statusName (tx_status localTxn),
       d_resolution = None, d_resolvedAt = None, d_resolvedBy = None \<rparr>"

definition missingInProvider :: "(int \<Rightarrow> int) \<Rightarrow> nat \<Rightarrow> Transaction \<Rightarrow> Discrepancy" where
  "missingInProvider num discrepancyIdx localTxn =
     \<lparr> d_id = ''disc_'' @ showNat discrepancyIdx,
       d_transactionId = tx_id localTxn,
       d_type = MISSING_IN_PROVIDER,
       d_providerAmount = None,
       d_localAmount = Some (num (tx_amount localTxn)),
       d_providerStatus = None,
       d_localStatus = Some (statusName (tx_status localTxn)),
       d_description = ''Transaction '' @ tx_id localTxn
          @ '' exists in local DB but not in provider settlement'',
       d_resolution = None, d_resolvedAt = None, d_resolvedBy = None \<rparr>"

text \<open>
  \<open>new Map(localTransactions.map((t) => [t.id, t]))\<close>: a later pair replaces an earlier
  one with the same key.
\<close>

definition localMapOf :: "Transaction list \<Rightarrow> string \<Rightarrow> Transaction option" where
  "localMapOf localTransactions = map_of (rev (map (\<lambda>t. (tx_id t, t)) localTransactions))"

text \<open>
  One iteration of the loop over the provider records. The state is
  \<open>(discrepancies, matched, discrepancyIdx)\<close>. \<open>num\<close> is JavaScript's \<open>Number\<close> on a
  bigint (the nearest double; the identity below \<open>2^53\<close>).
\<close>

definition providerStep ::
  "(int \<Rightarrow> int) \<Rightarrow> (string \<Rightarrow> Transaction option) \<Rightarrow> Discrepancy list \<times> nat \<times> nat
     \<Rightarrow> SettlementRecord \<Rightarrow> Discrepancy list \<times> nat \<times> nat" where
  "providerStep num localMap acc providerRecord =
     (case acc of (discrepancies, matched, discrepancyIdx) \<Rightarrow>
        (case localMap (sr_transactionId providerRecord) of
           None \<Rightarrow>
             (discrepancies @ [missingInDb discrepancyIdx providerRecord], matched, discrepancyIdx + 1)
         | Some localTxn \<Rightarrow>
             (let (ds1, idx1, has1) =
                    (if num (tx_amount localTxn) \<noteq> sr_amount providerRecord
                     then (discrepancies @ [amountMismatch num discrepancyIdx providerRecord localTxn],
                           discrepancyIdx + 1, True)
                     else (discrepancies, discrepancyIdx, False));
                  (ds2, idx2, has2) =
                    (if statusName (tx_status localTxn) \<noteq> sr_status providerRecord
                     then (ds1 @ [statusMismatch idx1 providerRecord localTxn], idx1 + 1, True)
                     else (ds1, idx1, has1))
              in (ds2, (if \<not> has2 then matched + 1 else matched), idx2))))"

text \<open>One iteration of the loop over the local transactions; the state is
  \<open>(discrepancies, discrepancyIdx)\<close>.\<close>

definition localStep ::
  "(int \<Rightarrow> int) \<Rightarrow> SettlementRecord list \<Rightarrow> Discrepancy list \<times> nat \<Rightarrow> Transaction
     \<Rightarrow> Discrepancy list \<times> nat" where
  "localStep num settlementData acc localTxn =
     (case acc of (discrepancies, discrepancyIdx) \<Rightarrow>
        if tx_id localTxn \<notin> set (map sr_transactionId settlementData)
        then (discrepancies @ [missingInProvider num discrepancyIdx localTxn], discrepancyIdx + 1)
        else (discrepancies, discrepancyIdx))"

text \<open>\<open>countByType\<close>: a JS object used as a map from type to count.\<close>

definition countByType :: "Discrepancy list \<Rightarrow> (DiscrepancyType \<times> nat) list" where
  "countByType discrepancies =
     foldl (\<lambda>counts d. AList.update (d_type d)
              ((case map_of counts (d_type d) of None \<Rightarrow> 0 | Some n \<Rightarrow> n) + 1) counts)
       [] discrepancies"

definition findLocalTransactions :: "ReconDb \<Rightarrow> ReconcileRequest \<Rightarrow> Transaction list" where
  "findLocalTransactions db request =
     filter (\<lambda>t. tx_merchantId t = rq_merchantId request
                \<and> tx_providerId t = Some (rq_providerId request)
                \<and> rq_fromDate request \<le> tx_createdAt t
                \<and> tx_createdAt t \<le> rq_toDate request)
       (rdb_transactions db)"

definition toReportDetail :: "ReconciliationReport \<Rightarrow> Discrepancy list \<Rightarrow> ReconciliationReportDetail" where
  "toReportDetail report discrepancies =
     \<lparr> rd_id = rp_id report,
       rd_merchantId = rp_merchantId report,
       rd_status = rp_status report,
       rd_periodStart = rp_periodStart report,
       rd_periodEnd = rp_periodEnd report,
       rd_totalTransactions = rp_totalTransactions report,
       rd_matchedTransactions = rp_matchedTransactions report,
       rd_unmatchedTransactions = rp_unmatchedTransactions report,
       rd_discrepancyCount = length discrepancies,
       rd_discrepancies = discrepancies,
       rd_byType = rp_byType report,
       rd_createdAt = rp_createdAt report \<rparr>"

text \<open>
  \<open>reconcile\<close>. \<open>newId\<close> is the id the store gives the new report, \<open>now\<close> the clock.
  The result is the returned detail and the store with the report added.
\<close>

definition reconcile ::
  "(int \<Rightarrow> int) \<Rightarrow> nat \<Rightarrow> string \<Rightarrow> ReconDb \<Rightarrow> ReconcileRequest
     \<Rightarrow> ReconciliationReportDetail \<times> ReconDb" where
  "reconcile num now newId db request =
     (let localTransactions = findLocalTransactions db request;
          localMap = localMapOf localTransactions;
          (ds1, matched, idx1) =
             foldl (providerStep num localMap) ([], 0, 0) (rq_settlementData request);
          (discrepancies, idx2) =
             foldl (localStep num (rq_settlementData request)) (ds1, idx1) localTransactions;
          totalTransactions =
             length (remdups (map sr_transactionId (rq_settlementData request)
                              @ map tx_id localTransactions));
          report =
            \<lparr> rp_id = newId,
              rp_merchantId = rq_merchantId request,
              rp_status = (if length discrepancies > 0 then R_REQUIRES_REVIEW else R_COMPLETED),
              rp_periodStart = rq_fromDate request,
              rp_periodEnd = rq_toDate request,
              rp_totalTransactions = totalTransactions,
              rp_matchedTransactions = matched,
              rp_unmatchedTransactions = length discrepancies,
              rp_discrepancies = discrepancies,
              rp_byType = countByType discrepancies,
              rp_generatedAt = now,
              rp_reviewedAt = None,
              rp_reviewedBy = None,
              rp_createdAt = now \<rparr>
      in (toReportDetail report discrepancies, db\<lparr>rdb_reports := rdb_reports db @ [report]\<rparr>))"

text \<open>\<open>Array.prototype.findIndex\<close>: the first position whose element passes, if any.\<close>

fun findIndex :: "('a \<Rightarrow> bool) \<Rightarrow> 'a list \<Rightarrow> nat option" where
  "findIndex p [] = None"
| "findIndex p (x # xs) =
     (if p x then Some 0 else (case findIndex p xs of None \<Rightarrow> None | Some i \<Rightarrow> Some (Suc i)))"

text \<open>The test \<open>(d) => d.resolution\<close>: a resolution, once set, is a non-empty string.\<close>

definition resolved :: "Discrepancy \<Rightarrow> bool" where
  "resolved d = (d_resolution d \<noteq> None)"

text \<open>
  \<open>resolveDiscrepancy\<close>. In the update, a field given as \<open>undefined\<close> is left as it is:
  \<open>reviewedAt\<close> when not all are resolved, \<open>reviewedBy\<close> also when no resolver is named.
\<close>

definition resolveDiscrepancy ::
  "nat \<Rightarrow> ReconDb \<Rightarrow> string \<Rightarrow> string \<Rightarrow> DiscrepancyResolution \<Rightarrow> string option
     \<Rightarrow> (ReconError + ReconciliationReportDetail) \<times> ReconDb" where
  "resolveDiscrepancy now db reportId discrepancyId resolution resolvedBy =
     (case find (\<lambda>r. rp_id r = reportId) (rdb_reports db) of
        None \<Rightarrow> (Inl (NOT_FOUND (''Reconciliation report '' @ reportId @ '' not found'')), db)
      | Some report \<Rightarrow>
          (case findIndex (\<lambda>d. d_id d = discrepancyId) (rp_discrepancies report) of
             None \<Rightarrow>
               (Inl (NOT_FOUND (''Discrepancy '' @ discrepancyId @ '' not found in report '' @ reportId)), db)
           | Some discIdx \<Rightarrow>
               (let existing = rp_discrepancies report ! discIdx;
                    discrepancies = (rp_discrepancies report)
                      [discIdx := existing\<lparr> d_resolution := Some resolution,
                                             d_resolvedAt := Some now,
                                             d_resolvedBy := resolvedBy \<rparr>];
                    allResolved = list_all resolved discrepancies;
                    newStatus = (if allResolved then R_COMPLETED else R_REQUIRES_REVIEW);
                    updated = report\<lparr> rp_discrepancies := discrepancies,
                                      rp_status := newStatus,
                                      rp_reviewedAt := (if allResolved then Some now else rp_reviewedAt report),
                                      rp_reviewedBy := (if allResolved \<and> resolvedBy \<noteq> None then resolvedBy
                                                        else rp_reviewedBy report) \<rparr>
                in (Inr (toReportDetail updated discrepancies),
                    db\<lparr>rdb_reports := map (\<lambda>r. if rp_id r = reportId then updated else r)
                                           (rdb_reports db)\<rparr>))))"

text \<open>What the specification counts: the ids on either side, and the ids the provider
  loop counts as matched (one per provider record that reaches \<open>matched++\<close>).\<close>

definition providerIds :: "ReconcileRequest \<Rightarrow> string set" where
  "providerIds request = set (map sr_transactionId (rq_settlementData request))"

definition localIds :: "ReconDb \<Rightarrow> ReconcileRequest \<Rightarrow> string set" where
  "localIds db request = set (map tx_id (findLocalTransactions db request))"

definition isMatch :: "(int \<Rightarrow> int) \<Rightarrow> (string \<Rightarrow> Transaction option) \<Rightarrow> SettlementRecord \<Rightarrow> bool" where
  "isMatch num localMap r =
     (case localMap (sr_transactionId r) of
        None \<Rightarrow> False
      | Some t \<Rightarrow> num (tx_amount t) = sr_amount r \<and> statusName (tx_status t) = sr_status r)"

definition countedMatched :: "(int \<Rightarrow> int) \<Rightarrow> ReconDb \<Rightarrow> ReconcileRequest \<Rightarrow> string list" where
  "countedMatched num db request =
     map sr_transactionId
       (filter (isMatch num (localMapOf (findLocalTransactions db request))) (rq_settlementData request))"

definition doubleMismatch :: "(int \<Rightarrow> int) \<Rightarrow> (string \<Rightarrow> Transaction option) \<Rightarrow> SettlementRecord \<Rightarrow> bool" where
  "doubleMismatch num localMap r =
     (case localMap (sr_transactionId r) of
        None \<Rightarrow> False
      | Some t \<Rightarrow> num (tx_amount t) \<noteq> sr_amount r \<and> statusName (tx_status t) \<noteq> sr_status r)"

definition reportInvariant :: "ReconciliationReport \<Rightarrow> bool" where
  "reportInvariant r = ((rp_status r = R_COMPLETED) = list_all resolved (rp_discrepancies r))"

text \<open>The two loops of \<open>reconcile\<close>, named for the proofs.\<close>

definition loop1 :: "(int \<Rightarrow> int) \<Rightarrow> ReconDb \<Rightarrow> ReconcileRequest \<Rightarrow> Discrepancy list \<times> nat \<times> nat" where
  "loop1 num db request =
     foldl (providerStep num (localMapOf (findLocalTransactions db request))) ([], 0, 0)
       (rq_settlementData request)"

definition loop2 :: "(int \<Rightarrow> int) \<Rightarrow> ReconDb \<Rightarrow> ReconcileRequest \<Rightarrow> Discrepancy list \<times> nat" where
  "loop2 num db request =
     foldl (localStep num (rq_settlementData request))
       (fst (loop1 num db request), snd (snd (loop1 num db request)))
       (findLocalTransactions db request)"

text \<open>Example data: one merchant, one provider, local transactions and settlement lines.\<close>

definition exampleTxn :: "string \<Rightarrow> int \<Rightarrow> TransactionStatus \<Rightarrow> Transaction" where
  "exampleTxn i amt st =
     \<lparr> tx_id = i, tx_merchantId = ''m1'', tx_customerId = None, tx_providerId = Some ''p1'',
       tx_paymentMethodId = None, tx_parentTransactionId = None, tx_type = PAYMENT,
       tx_status = st, tx_amount = amt, tx_currency = ''USD'', tx_convertedAmount = None,
       tx_convertedCurrency = None, tx_fxRateId = None, tx_providerTransactionId = None,
       tx_providerResponse = None, tx_description = None, tx_failureReason = None,
       tx_metadata = [], tx_idempotencyKey = None, tx_capturedAt = None, tx_cancelledAt = None,
       tx_refundedAt = None, tx_createdAt = 5, tx_updatedAt = 5 \<rparr>"

definition exampleRecord :: "string \<Rightarrow> int \<Rightarrow> string \<Rightarrow> SettlementRecord" where
  "exampleRecord i amt st =
     \<lparr> sr_transactionId = i, sr_amount = amt, sr_currency = ''USD'', sr_status = st,
       sr_providerRef = None, sr_settledAt = None \<rparr>"

definition exampleRequest :: "SettlementRecord list \<Rightarrow> ReconcileRequest" where
  "exampleRequest sd =
     \<lparr> rq_merchantId = ''m1'', rq_providerId = ''p1'', rq_fromDate = 0, rq_toDate = 10,
       rq_settlementData = sd \<rparr>"

definition exampleReconDb :: ReconDb where
  "exampleReconDb =
     \<lparr> rdb_transactions = [exampleTxn ''t1'' 900 COMPLETED, exampleTxn ''t3'' 700 COMPLETED],
       rdb_reports = [] \<rparr>"

text \<open>Settlement data naming \<open>t1\<close> twice, once with a wrong amount.\<close>

definition duplicateSettlement :: "SettlementRecord list" where
  "duplicateSettlement = [exampleRecord ''t1'' 1000 ''COMPLETED'', exampleRecord ''t1'' 900 ''COMPLETED'']"

text \<open>Settlement data naming each id once: \<open>t1\<close> agrees, \<open>t2\<close> is unknown locally.\<close>

definition distinctSettlement :: "SettlementRecord list" where
  "distinctSettlement = [exampleRecord ''t1'' 900 ''COMPLETED'', exampleRecord ''t2'' 500 ''COMPLETED'']"

text \<open>One line whose amount and status both differ from the local transaction.\<close>

definition doubleSettlement :: "SettlementRecord list" where
  "doubleSettlement = [exampleRecord ''t1'' 1000 ''FAILED'']"

text \<open>
  A review: the report \<open>r1\<close> created at time 1 for the settlement data that names \<open>t1\<close>
  twice (discrepancies \<open>disc_0\<close> for \<open>t1\<close> and \<open>disc_1\<close> for \<open>t3\<close>), then \<open>disc_0\<close> resolved
  at time 2 and \<open>disc_1\<close> at time 3.
\<close>

definition createdDb :: ReconDb where
  "createdDb = snd (reconcile id 1 ''r1'' exampleReconDb (exampleRequest duplicateSettlement))"

definition firstResolvedDb :: ReconDb where
  "firstResolvedDb = snd (resolveDiscrepancy 2 createdDb ''r1'' ''disc_0'' ignore (Some ''ann''))"

definition allResolvedDb :: ReconDb where
  "allResolvedDb = snd (resolveDiscrepancy 3 firstResolvedDb ''r1'' ''disc_1'' ignore (Some ''ann''))"

section \<open>Routing: rule conditions (condition.evaluator.ts, routing.types.ts)\<close>

type_synonym PaymentMethodType = string

record RoutingContext =
  rc_merchantId :: string
  rc_amount :: int
  rc_currency :: Currency
  rc_paymentMethodType :: PaymentMethodType
  rc_cardBrand :: "string option"
  rc_country :: "string option"
  rc_region :: "string option"
  rc_customerId :: "string option"
  rc_metadata :: "(string \<times> jsval) list option"

text \<open>
  \<open>RuleCondition\<close>. The operator is the string stored with the rule: the \<open>switch\<close> of
  \<open>compareValues\<close> has a \<open>default\<close> branch for any other text.
\<close>

record RuleCondition =
  cond_field :: string
  cond_operator :: string
  cond_value :: jsval

text \<open>
  \<open>RoutingRuleConditions\<close> as the evaluator reads it from the rule's JSON column: the
  \<open>all\<close> and \<open>any\<close> groups, the six named fields (each a \<open>RuleCondition\<close> object or, in
  the legacy format, any simple value), and the legacy \<open>amountMin\<close>/\<open>amountMax\<close> bounds.
  \<open>None\<close> is an absent key.
\<close>

record RoutingRuleConditions =
  rcs_all :: "RuleCondition list option"
  rcs_any :: "RuleCondition list option"
  rcs_currency :: "jsval option"
  rcs_amount :: "jsval option"
  rcs_paymentMethodType :: "jsval option"
  rcs_cardBrand :: "jsval option"
  rcs_country :: "jsval option"
  rcs_region :: "jsval option"
  rcs_amountMin :: "jsval option"
  rcs_amountMax :: "jsval option"

datatype JsError = TypeError | RangeError | SyntaxError | Error string

text \<open>
  The operations of the JavaScript runtime the evaluator calls, taken as given:
  \<open>Number\<close> on a bigint and on any value (\<open>None\<close> is NaN), \<open>parseFloat\<close> (\<open>None\<close> is
  NaN), the parse of a string as a bigint (\<open>None\<close> is a \<open>SyntaxError\<close>), the string an
  array or object converts to, and \<open>toLowerCase\<close>.
\<close>

record JsRuntime =
  js_NumberOfBigInt :: "int \<Rightarrow> rat"
  js_Number :: "jsval \<Rightarrow> rat option"
  js_parseFloat :: "string \<Rightarrow> rat option"
  js_StringToBigInt :: "string \<Rightarrow> int option"
  js_objectToString :: "jsval \<Rightarrow> string"
  js_toLowerCase :: "string \<Rightarrow> string"

text \<open>Truthiness, as an \<open>if (v)\<close> tests it.\<close>

fun truthy :: "jsval \<Rightarrow> bool" where
  "truthy JUndefined = False"
| "truthy JNull = False"
| "truthy (JBool b) = b"
| "truthy (JNum r) = (r \<noteq> 0)"
| "truthy (JStr s) = (s \<noteq> [])"
| "truthy (JBigInt i) = (i \<noteq> 0)"
| "truthy (JArr xs) = True"
| "truthy (JObj kvs) = True"

text \<open>
  \<open>a === b\<close>, which is also how \<open>Array.prototype.includes\<close> compares these values:
  primitives by type and value; an array or object only with itself, and a value of
  the context is never the same object as a value of the rule.
\<close>

fun strictEq :: "jsval \<Rightarrow> jsval \<Rightarrow> bool" where
  "strictEq JUndefined JUndefined = True"
| "strictEq JNull JNull = True"
| "strictEq (JBool a) (JBool b) = (a = b)"
| "strictEq (JNum a) (JNum b) = (a = b)"
| "strictEq (JStr a) (JStr b) = (a = b)"
| "strictEq (JBigInt a) (JBigInt b) = (a = b)"
| "strictEq a b = False"

text \<open>\<open>BigInt(v)\<close>: a number must be an integer, a string must parse, and \<open>undefined\<close>
  and \<open>null\<close> do not convert.\<close>

fun toBigInt :: "JsRuntime \<Rightarrow> jsval \<Rightarrow> JsError + int" where
  "toBigInt js (JBigInt i) = Inr i"
| "toBigInt js (JNum r) = (if r = of_int \<lfloor>r\<rfloor> then Inr \<lfloor>r\<rfloor> else Inl RangeError)"
| "toBigInt js (JStr s) = (case js_StringToBigInt js s of None \<Rightarrow> Inl SyntaxError | Some i \<Rightarrow> Inr i)"
| "toBigInt js (JBool b) = Inr (if b then 1 else 0)"
| "toBigInt js JUndefined = Inl TypeError"
| "toBigInt js JNull = Inl TypeError"
| "toBigInt js v = (case js_StringToBigInt js (js_objectToString js v) of
                       None \<Rightarrow> Inl SyntaxError | Some i \<Rightarrow> Inr i)"

fun isBigInt :: "jsval \<Rightarrow> bool" where
  "isBigInt (JBigInt i) = True"
| "isBigInt v = False"

definition isEqual :: "JsRuntime \<Rightarrow> jsval \<Rightarrow> jsval \<Rightarrow> JsError + bool" where
  "isEqual js a b =
     (if isBigInt a \<or> isBigInt b
      then (case toBigInt js a of
              Inl e \<Rightarrow> Inl e
            | Inr x \<Rightarrow> (case toBigInt js b of Inl e \<Rightarrow> Inl e | Inr y \<Rightarrow> Inr (x = y)))
      else Inr (strictEq a b))"

fun toNumber :: "JsRuntime \<Rightarrow> jsval \<Rightarrow> JsError + rat" where
  "toNumber js (JBigInt i) = Inr (js_NumberOfBigInt js i)"
| "toNumber js (JNum r) = Inr r"
| "toNumber js (JStr s) =
     (case js_parseFloat js s of
        Some parsed \<Rightarrow> Inr parsed
      | None \<Rightarrow> Inl (Error (''Cannot convert '' @ s @ '' to number'')))"
| "toNumber js v = Inl (Error (''Cannot convert '' @ js_objectToString js v @ '' to number''))"

definition optStr :: "string option \<Rightarrow> jsval" where
  "optStr v = (case v of None \<Rightarrow> JUndefined | Some s \<Rightarrow> JStr s)"

definition getFieldValue :: "string \<Rightarrow> RoutingContext \<Rightarrow> jsval" where
  "getFieldValue field context =
     (if field = ''currency'' then JStr (rc_currency context)
      else if field = ''amount'' then JBigInt (rc_amount context)
      else if field = ''paymentMethodType'' then JStr (rc_paymentMethodType context)
      else if field = ''cardBrand'' then optStr (rc_cardBrand context)
      else if field = ''country'' then optStr (rc_country context)
      else if field = ''region'' then optStr (rc_region context)
      else if field = ''merchantId'' then JStr (rc_merchantId context)
      else if field = ''customerId'' then optStr (rc_customerId context)
      else (case rc_metadata context of
              Some metadata \<Rightarrow>
                if prefix ''metadata.'' field
                then (case map_of metadata (drop 9 field) of Some v \<Rightarrow> v | None \<Rightarrow> JUndefined)
                else JUndefined
            | None \<Rightarrow> JUndefined))"

text \<open>Two operands converted left to right, then compared.\<close>

definition compareNumbers ::
  "JsRuntime \<Rightarrow> (rat \<Rightarrow> rat \<Rightarrow> bool) \<Rightarrow> jsval \<Rightarrow> jsval \<Rightarrow> JsError + bool" where
  "compareNumbers js rel a b =
     (case toNumber js a of
        Inl e \<Rightarrow> Inl e
      | Inr x \<Rightarrow> (case toNumber js b of Inl e \<Rightarrow> Inl e | Inr y \<Rightarrow> Inr (rel x y)))"

definition compareValues :: "JsRuntime \<Rightarrow> jsval \<Rightarrow> string \<Rightarrow> jsval \<Rightarrow> JsError + bool" where
  "compareValues js fieldValue operator conditionValue =
     (if operator = ''equals'' then isEqual js fieldValue conditionValue
      else if operator = ''not_equals''
        then (case isEqual js fieldValue conditionValue of Inl e \<Rightarrow> Inl e | Inr b \<Rightarrow> Inr (\<not> b))
      else if operator = ''in''
        then Inr (case conditionValue of JArr xs \<Rightarrow> list_ex (strictEq fieldValue) xs | _ \<Rightarrow> False)
      else if operator = ''not_in''
        then Inr (case conditionValue of JArr xs \<Rightarrow> \<not> list_ex (strictEq fieldValue) xs | _ \<Rightarrow> False)
      else if operator = ''greater_than''
        then compareNumbers js (\<lambda>x y. x > y) fieldValue conditionValue
      else if operator = ''less_than''
        then compareNumbers js (\<lambda>x y. x < y) fieldValue conditionValue
      else if operator = ''greater_than_or_equals''
        then compareNumbers js (\<lambda>x y. x \<ge> y) fieldValue conditionValue
      else if operator = ''less_than_or_equals''
        then compareNumbers js (\<lambda>x y. x \<le> y) fieldValue conditionValue
      else if operator = ''between''
        then (case conditionValue of
                JArr [lo, hi] \<Rightarrow>
                  (case toNumber js fieldValue of
                     Inl e \<Rightarrow> Inl e
                   | Inr numValue \<Rightarrow>
                       (case toNumber js lo of
                          Inl e \<Rightarrow> Inl e
                        | Inr minValue \<Rightarrow>
                            (case toNumber js hi of
                               Inl e \<Rightarrow> Inl e
                             | Inr maxValue \<Rightarrow> Inr (numValue \<ge> minValue \<and> numValue \<le> maxValue))))
              | _ \<Rightarrow> Inr False)
      else if operator = ''contains''
        then Inr (case (fieldValue, conditionValue) of
                    (JStr f, JStr c) \<Rightarrow> sublist (js_toLowerCase js c) (js_toLowerCase js f)
                  | _ \<Rightarrow> False)
      else if operator = ''starts_with''
        then Inr (case (fieldValue, conditionValue) of
                    (JStr f, JStr c) \<Rightarrow> prefix (js_toLowerCase js c) (js_toLowerCase js f)
                  | _ \<Rightarrow> False)
      else if operator = ''ends_with''
        then Inr (case (fieldValue, conditionValue) of
                    (JStr f, JStr c) \<Rightarrow> suffix (js_toLowerCase js c) (js_toLowerCase js f)
                  | _ \<Rightarrow> False)
      else Inr False)"

text \<open>\<open>evaluateCondition\<close>: the \<open>try\<close>/\<open>catch\<close> turns an error of \<open>compareValues\<close> into
  \<open>false\<close>.\<close>

definition evaluateCondition :: "JsRuntime \<Rightarrow> RuleCondition \<Rightarrow> RoutingContext \<Rightarrow> bool" where
  "evaluateCondition js condition context =
     (case compareValues js (getFieldValue (cond_field condition) context)
             (cond_operator condition) (cond_value condition) of
        Inl error \<Rightarrow> False
      | Inr b \<Rightarrow> b)"

text \<open>
  The cast \<open>condition as RuleCondition\<close> of an object that has a \<open>field\<close> key. A field
  that is not a string has no \<open>startsWith\<close>, and \<open>getFieldValue\<close> throws a \<open>TypeError\<close>
  (\<open>None\<close> here); an operator that is not a string matches no case of the \<open>switch\<close>,
  as the empty string does.
\<close>

definition asRuleCondition :: "(string \<times> jsval) list \<Rightarrow> RuleCondition option" where
  "asRuleCondition kvs =
     (case map_of kvs ''field'' of
        Some (JStr f) \<Rightarrow>
          Some \<lparr> cond_field = f,
                 cond_operator = (case map_of kvs ''operator'' of Some (JStr operator) \<Rightarrow> operator | _ \<Rightarrow> []),
                 cond_value = (case map_of kvs ''value'' of Some v \<Rightarrow> v | None \<Rightarrow> JUndefined) \<rparr>
      | _ \<Rightarrow> None)"

text \<open>\<open>evaluateFieldCondition\<close>: a value that is not an object with a \<open>field\<close> key is the
  legacy format and is compared directly, outside any \<open>try\<close>.\<close>

definition legacyCompare :: "JsRuntime \<Rightarrow> string \<Rightarrow> jsval \<Rightarrow> RoutingContext \<Rightarrow> JsError + bool" where
  "legacyCompare js fieldName condition context =
     isEqual js (getFieldValue fieldName context) condition"

definition evaluateFieldCondition ::
  "JsRuntime \<Rightarrow> string \<Rightarrow> jsval \<Rightarrow> RoutingContext \<Rightarrow> JsError + bool" where
  "evaluateFieldCondition js fieldName condition context =
     (case condition of
        JObj kvs \<Rightarrow>
          if map_of kvs ''field'' = None
          then legacyCompare js fieldName condition context
          else (case asRuleCondition kvs of
                  None \<Rightarrow> Inl TypeError
                | Some c \<Rightarrow> Inr (evaluateCondition js c context))
      | _ \<Rightarrow> legacyCompare js fieldName condition context)"

text \<open>One of the six \<open>if (conditions.f) { if (!evaluateFieldCondition(...)) return false; }\<close>
  blocks: \<open>Inr True\<close> goes on to the next block, \<open>Inr False\<close> is \<open>return false\<close>.\<close>

definition checkField ::
  "JsRuntime \<Rightarrow> string \<Rightarrow> jsval option \<Rightarrow> RoutingContext \<Rightarrow> JsError + bool" where
  "checkField js fieldName condition context =
     (case condition of
        None \<Rightarrow> Inr True
      | Some c \<Rightarrow> if truthy c then evaluateFieldCondition js fieldName c context else Inr True)"

definition andThen :: "JsError + bool \<Rightarrow> JsError + bool \<Rightarrow> JsError + bool" where
  "andThen r rest = (case r of Inl e \<Rightarrow> Inl e | Inr b \<Rightarrow> if b then rest else Inr False)"

text \<open>The legacy \<open>amountMin\<close>/\<open>amountMax\<close> block; a comparison with NaN is false.\<close>

definition legacyRange :: "JsRuntime \<Rightarrow> RoutingRuleConditions \<Rightarrow> RoutingContext \<Rightarrow> bool" where
  "legacyRange js conditions context =
     (let amount = js_NumberOfBigInt js (rc_amount context)
      in \<not> (case rcs_amountMin conditions of
                None \<Rightarrow> False
              | Some lo \<Rightarrow> (case js_Number js lo of None \<Rightarrow> False | Some m \<Rightarrow> amount < m))
         \<and> \<not> (case rcs_amountMax conditions of
                  None \<Rightarrow> False
                | Some hi \<Rightarrow> (case js_Number js hi of None \<Rightarrow> False | Some m \<Rightarrow> amount > m)))"

definition evaluate :: "JsRuntime \<Rightarrow> RoutingRuleConditions \<Rightarrow> RoutingContext \<Rightarrow> JsError + bool" where
  "evaluate js conditions context =
     andThen (Inr (case rcs_all conditions of
                     Some cs \<Rightarrow> cs = [] \<or> list_all (\<lambda>c. evaluateCondition js c context) cs
                   | None \<Rightarrow> True))
    (andThen (Inr (case rcs_any conditions of
                     Some cs \<Rightarrow> cs = [] \<or> list_ex (\<lambda>c. evaluateCondition js c context) cs
                   | None \<Rightarrow> True))
    (andThen (checkField js ''currency'' (rcs_currency conditions) context)
    (andThen (checkField js ''amount'' (rcs_amount conditions) context)
    (andThen (checkField js ''paymentMethodType'' (rcs_paymentMethodType conditions) context)
    (andThen (checkField js ''cardBrand'' (rcs_cardBrand conditions) context)
    (andThen (checkField js ''country'' (rcs_country conditions) context)
    (andThen (checkField js ''region'' (rcs_region conditions) context)
    (Inr (legacyRange js conditions context)))))))))"

text \<open>A runtime for the examples: values below \<open>2^53\<close>, strings of decimal digits.\<close>

definition digitsToNat :: "string \<Rightarrow> nat option" where
  "digitsToNat s =
     (if s \<noteq> [] \<and> list_all (\<lambda>c. (48 :: nat) \<le> of_char c \<and> of_char c \<le> (57 :: nat)) s
      then Some (foldl (\<lambda>n c. 10 * n + (of_char c - 48)) 0 s)
      else None)"

definition exampleRuntime :: JsRuntime where
  "exampleRuntime =
     \<lparr> js_NumberOfBigInt = of_int,
       js_Number = (\<lambda>v. case v of JNum r \<Rightarrow> Some r | JBigInt i \<Rightarrow> Some (of_int i) | _ \<Rightarrow> None),
       js_parseFloat = (\<lambda>s. map_option of_nat (digitsToNat s)),
       js_StringToBigInt = (\<lambda>s. map_option int (digitsToNat s)),
       js_objectToString = (\<lambda>v. ''[object Object]''),
       js_toLowerCase = (\<lambda>s. s) \<rparr>"

definition exampleContext :: "int \<Rightarrow> Currency \<Rightarrow> RoutingContext" where
  "exampleContext amt cur =
     \<lparr> rc_merchantId = ''m1'', rc_amount = amt, rc_currency = cur,
       rc_paymentMethodType = ''CARD'', rc_cardBrand = None, rc_country = None,
       rc_region = None, rc_customerId = None, rc_metadata = None \<rparr>"

definition noConditions :: RoutingRuleConditions where
  "noConditions =
     \<lparr> rcs_all = None, rcs_any = None, rcs_currency = None, rcs_amount = None,
       rcs_paymentMethodType = None, rcs_cardBrand = None, rcs_country = None,
       rcs_region = None, rcs_amountMin = None, rcs_amountMax = None \<rparr>"

text \<open>A legacy rule whose amount is the simple value \<open>10.5\<close>; the seeded rule for USD.\<close>

definition fractionalAmountRule :: RoutingRuleConditions where
  "fractionalAmountRule = noConditions\<lparr> rcs_amount := Some (JNum (21 / 2)) \<rparr>"

definition seededUsdRule :: RoutingRuleConditions where
  "seededUsdRule = noConditions\<lparr> rcs_currency := Some (JStr ''USD''),
       rcs_amountMin := Some (JNum 0), rcs_amountMax := Some (JNum 1000000) \<rparr>"

section \<open>Routing: scoring and selection (provider-score.evaluator.ts, routing.service.ts)\<close>

datatype ProviderStatus = ACTIVE | INACTIVE | MAINTENANCE | DEGRADED

fun providerStatusName :: "ProviderStatus \<Rightarrow> string" where
  "providerStatusName ACTIVE = ''ACTIVE''"
| "providerStatusName INACTIVE = ''INACTIVE''"
| "providerStatusName MAINTENANCE = ''MAINTENANCE''"
| "providerStatusName DEGRADED = ''DEGRADED''"

record RoutingProviderInfo =
  pi_id :: string
  pi_code :: string
  pi_name :: string
  pi_status :: ProviderStatus
  pi_supportedCurrencies :: "Currency list"
  pi_supportedMethods :: "PaymentMethodType list"
  pi_priority :: int
  pi_successRate :: "rat option"
  pi_averageLatency :: "rat option"
  pi_costPerTransaction :: "rat option"
  pi_isActive :: bool

record ScoringWeights =
  w_successRate :: rat
  w_availability :: rat
  w_latency :: rat
  w_cost :: rat
  w_priority :: rat

definition DEFAULT_SCORING_WEIGHTS :: ScoringWeights where
  "DEFAULT_SCORING_WEIGHTS =
     \<lparr> w_successRate = 2 / 5, w_availability = 1 / 4, w_latency = 3 / 20,
       w_cost = 1 / 10, w_priority = 1 / 10 \<rparr>"

record ProviderScore =
  ps_providerId :: string
  ps_providerCode :: string
  ps_totalScore :: rat
  ps_successRate :: rat
  ps_availability :: rat
  ps_latency :: rat
  ps_cost :: rat
  ps_priority :: rat
  ps_eligible :: bool
  ps_disqualificationReason :: "string option"

record RoutingRule =
  rr_id :: string
  rr_merchantId :: string
  rr_name :: string
  rr_conditions :: RoutingRuleConditions
  rr_providerId :: string
  rr_priority :: int
  rr_isActive :: bool

record RoutingDecision =
  dec_selectedProviderId :: string
  dec_selectedProviderCode :: string
  dec_fallbackProviderIds :: "string list"
  dec_matchedRuleId :: "string option"
  dec_score :: rat
  dec_reason :: string
  dec_evaluatedAt :: nat

datatype RoutingError = Thrown JsError | Failure string

definition checkEligibility :: "RoutingProviderInfo \<Rightarrow> RoutingContext \<Rightarrow> bool \<times> string option" where
  "checkEligibility provider context =
     (if \<not> pi_isActive provider then (False, Some ''Provider is inactive'')
      else if pi_status provider = INACTIVE \<or> pi_status provider = MAINTENANCE
        then (False, Some (''Provider status is '' @ providerStatusName (pi_status provider)))
      else if rc_currency context \<notin> set (pi_supportedCurrencies provider)
        then (False, Some (''Currency '' @ rc_currency context @ '' not supported''))
      else if rc_paymentMethodType context \<notin> set (pi_supportedMethods provider)
        then (False, Some (''Payment method '' @ rc_paymentMethodType context @ '' not supported''))
      else (True, None))"

text \<open>
  The five sub-scores. The source computes them in double-precision arithmetic; here
  the arithmetic is exact.
\<close>

definition calculateSuccessRateScore :: "rat \<Rightarrow> rat" where
  "calculateSuccessRateScore successRate = min 100 (max 0 (successRate * 100))"

fun calculateAvailabilityScore :: "ProviderStatus \<Rightarrow> rat" where
  "calculateAvailabilityScore ACTIVE = 100"
| "calculateAvailabilityScore DEGRADED = 50"
| "calculateAvailabilityScore INACTIVE = 0"
| "calculateAvailabilityScore MAINTENANCE = 0"

definition calculateLatencyScore :: "rat \<Rightarrow> rat" where
  "calculateLatencyScore latencyMs =
     (if latencyMs < 100 then 100
      else if latencyMs < 300 then 100 - ((latencyMs - 100) / 200) * 25
      else if latencyMs < 500 then 75 - ((latencyMs - 300) / 200) * 25
      else if latencyMs < 1000 then 50 - ((latencyMs - 500) / 500) * 50
      else 0)"

definition calculateCostScore :: "rat \<Rightarrow> rat" where
  "calculateCostScore cost =
     (if cost \<le> 0 then 100
      else if cost \<le> 1 / 100 then 100 - cost * 1000
      else if cost \<le> 3 / 100 then 90 - (cost - 1 / 100) * 2000
      else if cost \<le> 5 / 100 then 50 - (cost - 3 / 100) * 1000
      else max 0 (30 - (cost - 5 / 100) * 500))"

definition calculatePriorityScore :: "int \<Rightarrow> rat" where
  "calculatePriorityScore priority = max 0 (100 - (of_int priority - 1) * 10)"

text \<open>
  \<open>evaluateProvider\<close>. \<open>metrics\<close> is \<open>getProviderMetrics\<close>: the rolling success rate and
  average latency of a provider, either of which may be missing.
\<close>

definition evaluateProvider ::
  "ScoringWeights \<Rightarrow> (string \<Rightarrow> rat option \<times> rat option) \<Rightarrow> RoutingProviderInfo \<Rightarrow> RoutingContext
     \<Rightarrow> ProviderScore" where
  "evaluateProvider weights metrics provider context =
     (let eligibility = checkEligibility provider context
      in if \<not> fst eligibility
         then \<lparr> ps_providerId = pi_id provider, ps_providerCode = pi_code provider,
                ps_totalScore = 0, ps_successRate = 0, ps_availability = 0, ps_latency = 0,
                ps_cost = 0, ps_priority = 0, ps_eligible = False,
                ps_disqualificationReason = snd eligibility \<rparr>
         else
           (let m = metrics (pi_id provider);
                successRateScore = calculateSuccessRateScore
                  (case fst m of Some r \<Rightarrow> r
                   | None \<Rightarrow> (case pi_successRate provider of Some r \<Rightarrow> r | None \<Rightarrow> 95 / 100));
                availabilityScore = calculateAvailabilityScore (pi_status provider);
                latencyScore = calculateLatencyScore
                  (case snd m of Some l \<Rightarrow> l
                   | None \<Rightarrow> (case pi_averageLatency provider of Some l \<Rightarrow> l | None \<Rightarrow> 200));
                costScore = calculateCostScore
                  (case pi_costPerTransaction provider of Some c \<Rightarrow> c | None \<Rightarrow> 0);
                priorityScore = calculatePriorityScore (pi_priority provider);
                totalScore = successRateScore * w_successRate weights
                  + availabilityScore * w_availability weights
                  + latencyScore * w_latency weights
                  + costScore * w_cost weights
                  + priorityScore * w_priority weights
            in \<lparr> ps_providerId = pi_id provider, ps_providerCode = pi_code provider,
                 ps_totalScore = totalScore, ps_successRate = successRateScore,
                 ps_availability = availabilityScore, ps_latency = latencyScore,
                 ps_cost = costScore, ps_priority = priorityScore, ps_eligible = True,
                 ps_disqualificationReason = None \<rparr>))"

text \<open>\<open>evaluateProviders\<close>: the scores in provider order, then a stable sort by total
  score, highest first.\<close>

definition evaluateProviders ::
  "ScoringWeights \<Rightarrow> (string \<Rightarrow> rat option \<times> rat option) \<Rightarrow> RoutingProviderInfo list
     \<Rightarrow> RoutingContext \<Rightarrow> ProviderScore list" where
  "evaluateProviders weights metrics providers context =
     sort_key (\<lambda>s. - ps_totalScore s) (map (\<lambda>p. evaluateProvider weights metrics p context) providers)"

text \<open>The loop over the rules: the first rule whose conditions evaluate to true; an
  error thrown by \<open>evaluate\<close> leaves the loop and \<open>selectProvider\<close>.\<close>

fun findMatchedRule ::
  "JsRuntime \<Rightarrow> RoutingRule list \<Rightarrow> RoutingContext \<Rightarrow> JsError + RoutingRule option" where
  "findMatchedRule js [] context = Inr None"
| "findMatchedRule js (rule # rules) context =
     (case evaluate js (rr_conditions rule) context of
        Inl e \<Rightarrow> Inl e
      | Inr b \<Rightarrow> if b then Inr (Some rule) else findMatchedRule js rules context)"

text \<open>The score-based selection, step 5 of \<open>selectProvider\<close>.\<close>

definition selectByScore ::
  "ScoringWeights \<Rightarrow> (string \<Rightarrow> rat option \<times> rat option) \<Rightarrow> nat \<Rightarrow> RoutingProviderInfo list
     \<Rightarrow> RoutingContext \<Rightarrow> RoutingError + RoutingDecision" where
  "selectByScore weights metrics now providers context =
     (let scores = evaluateProviders weights metrics providers context;
          eligibleProviders = filter ps_eligible scores
      in case eligibleProviders of
           [] \<Rightarrow> Inl (Failure ''No eligible providers for this transaction'')
         | selected # rest \<Rightarrow>
             Inr \<lparr> dec_selectedProviderId = ps_providerId selected,
                   dec_selectedProviderCode = ps_providerCode selected,
                   dec_fallbackProviderIds = map ps_providerId (take 2 rest),
                   dec_matchedRuleId = None,
                   dec_score = ps_totalScore selected,
                   dec_reason = ''Selected by scoring algorithm'',
                   dec_evaluatedAt = now \<rparr>)"

text \<open>
  \<open>selectProvider\<close>. \<open>rules\<close> is what \<open>getRulesForMerchant\<close> returned (the merchant's
  active rules by priority) and \<open>providers\<close> what \<open>getAvailableProviders\<close> returned (the
  providers of the merchant's active configurations).
\<close>

definition selectProvider ::
  "JsRuntime \<Rightarrow> ScoringWeights \<Rightarrow> (string \<Rightarrow> rat option \<times> rat option) \<Rightarrow> nat
     \<Rightarrow> RoutingRule list \<Rightarrow> RoutingProviderInfo list \<Rightarrow> RoutingContext
     \<Rightarrow> RoutingError + RoutingDecision" where
  "selectProvider js weights metrics now rules providers context =
     (case findMatchedRule js rules context of
        Inl e \<Rightarrow> Inl (Thrown e)
      | Inr matchedRule \<Rightarrow>
          if providers = [] then Inl (Failure ''No providers available for this merchant'')
          else
            (case (case matchedRule of
                     None \<Rightarrow> None
                   | Some rule \<Rightarrow>
                       map_option (Pair rule) (find (\<lambda>p. pi_id p = rr_providerId rule) providers)) of
               Some (rule, ruleProvider) \<Rightarrow>
                 (let scores = evaluateProviders weights metrics providers context;
                      eligibleProviders =
                        filter (\<lambda>s. ps_eligible s \<and> ps_providerId s \<noteq> rr_providerId rule) scores
                  in Inr \<lparr> dec_selectedProviderId = pi_id ruleProvider,
                           dec_selectedProviderCode = pi_code ruleProvider,
                           dec_fallbackProviderIds = map ps_providerId (take 2 eligibleProviders),
                           dec_matchedRuleId = Some (rr_id rule),
                           dec_score = 100,
                           dec_reason = ''Matched routing rule: '' @ rr_name rule,
                           dec_evaluatedAt = now \<rparr>)
             | None \<Rightarrow> selectByScore weights metrics now providers context))"

text \<open>A merchant with two configured providers, of which \<open>pA\<close> does not take euros, and
  a rule that sends euro payments to \<open>pA\<close>.\<close>

definition exampleProvider :: "string \<Rightarrow> Currency list \<Rightarrow> int \<Rightarrow> RoutingProviderInfo" where
  "exampleProvider i currencies prio =
     \<lparr> pi_id = i, pi_code = i, pi_name = i, pi_status = ACTIVE,
       pi_supportedCurrencies = currencies, pi_supportedMethods = [''CARD''],
       pi_priority = prio, pi_successRate = None, pi_averageLatency = None,
       pi_costPerTransaction = None, pi_isActive = True \<rparr>"

definition exampleProviders :: "RoutingProviderInfo list" where
  "exampleProviders = [exampleProvider ''pA'' [''USD''] 1, exampleProvider ''pB'' [''USD'', ''EUR''] 2]"

definition euroRule :: RoutingRule where
  "euroRule =
     \<lparr> rr_id = ''rule_eur'', rr_merchantId = ''m1'', rr_name = ''EUR to pA'',
       rr_conditions = noConditions\<lparr> rcs_currency := Some (JStr ''EUR'') \<rparr>,
       rr_providerId = ''pA'', rr_priority = 1, rr_isActive = True \<rparr>"

definition noMetrics :: "string \<Rightarrow> rat option \<times> rat option" where
  "noMetrics providerId = (None, None)"

section \<open>Payment orchestration (payment.service.ts, payment.types.ts, provider.types.ts)\<close>

record PaymentMethod =
  pm_type :: PaymentMethodType
  pm_token :: "string option"
  pm_cardNumber :: "string option"
  pm_expiryMonth :: "int option"
  pm_expiryYear :: "int option"
  pm_cvv :: "string option"
  pm_holderName :: "string option"

record CreatePaymentRequest =
  cp_merchantId :: string
  cp_customerId :: "string option"
  cp_amount :: int
  cp_currency :: Currency
  cp_targetCurrency :: "Currency option"
  cp_paymentMethod :: PaymentMethod
  cp_capture :: "bool option"
  cp_description :: "string option"
  cp_metadata :: "(string \<times> jsval) list option"
  cp_idempotencyKey :: "string option"

record PaymentResponse =
  resp_id :: string
  resp_merchantId :: string
  resp_customerId :: "string option"
  resp_providerId :: "string option"
  resp_providerTransactionId :: "string option"
  resp_type :: TransactionType
  resp_status :: TransactionStatus
  resp_amount :: int
  resp_currency :: Currency
  resp_convertedAmount :: "int option"
  resp_convertedCurrency :: "Currency option"
  resp_description :: "string option"
  resp_failureReason :: "string option"
  resp_metadata :: "(string \<times> jsval) list"
  resp_createdAt :: nat
  resp_updatedAt :: nat

text \<open>The requests and responses of the provider adapter, with the fields the
  orchestrator writes and reads.\<close>

record AuthorizeRequest =
  ar_merchantId :: string
  ar_amount :: int
  ar_currency :: Currency
  ar_paymentMethod :: PaymentMethod
  ar_description :: "string option"
  ar_metadata :: "(string \<times> jsval) list option"
  ar_idempotencyKey :: "string option"
  ar_capture :: bool
  ar_customerId :: "string option"

datatype AuthorizeStatus = authorized | captured | declined | pending

record AuthorizeResponse =
  au_success :: bool
  au_providerTransactionId :: string
  au_status :: AuthorizeStatus
  au_amount :: int
  au_currency :: Currency
  au_declineReason :: "string option"
  au_rawResponse :: "jsval option"

record CaptureRequest =
  cr_providerTransactionId :: string
  cr_amount :: "int option"
  cr_currency :: "Currency option"

record CaptureResponse =
  ca_success :: bool
  ca_providerTransactionId :: string
  ca_capturedAmount :: int
  ca_currency :: Currency
  ca_rawResponse :: "jsval option"

record CancelRequest =
  cn_providerTransactionId :: string
  cn_reason :: "string option"

record RefundRequest =
  rf_providerTransactionId :: string
  rf_amount :: "int option"
  rf_currency :: "Currency option"
  rf_reason :: "string option"

datatype RefundStatus = refund_pending | refund_completed | refund_failed

record RefundResponse =
  rfr_success :: bool
  rfr_providerRefundId :: string
  rfr_refundedAmount :: int
  rfr_currency :: Currency
  rfr_status :: RefundStatus
  rfr_rawResponse :: "jsval option"

text \<open>
  What can be thrown: a \<open>ProviderError\<close> (message, code, \<open>isRetryable\<close>), a \<open>PaymentError\<close>
  (message, code, transaction id) or any other \<open>Error\<close> (message).
\<close>

datatype Thrown =
    ProviderError string string bool
  | PaymentError string string "string option"
  | OtherError string

fun message :: "Thrown \<Rightarrow> string" where
  "message (ProviderError m c r) = m"
| "message (PaymentError m c t) = m"
| "message (OtherError m) = m"

text \<open>\<open>error instanceof ProviderError && error.isRetryable\<close>\<close>

fun isRetryableError :: "Thrown \<Rightarrow> bool" where
  "isRetryableError (ProviderError m c r) = r"
| "isRetryableError e = False"





definition allProvidersFailed :: "string \<Rightarrow> Thrown" where
  "allProvidersFailed transactionId =
     PaymentError ''All payment providers failed'' ''ALL_PROVIDERS_FAILED'' (Some transactionId)"

text \<open>
  The collaborators of the orchestrator, each a function that returns or throws: FX
  conversion (target amount and rate id), routing, the adapter factory (\<open>None\<close>: an
  adapter is returned), the adapter's four calls and \<open>providerService.updateMetrics\<close>
  (\<open>None\<close>: it returns; it writes to Redis and catches nothing). \<open>authorize\<close> is given the
  number of the attempt, so that one provider may answer differently each time;
  \<open>updateMetrics\<close> is given the number of the attempt and whether the call is the one in
  the \<open>catch\<close> block, then the provider id and the success flag, so that each of its calls
  may return or throw on its own.
\<close>

record PaymentEnv =
  env_fxConvert :: "int \<Rightarrow> Currency \<Rightarrow> Currency \<Rightarrow> Thrown + int \<times> string"
  env_selectProvider :: "RoutingContext \<Rightarrow> Thrown + RoutingDecision"
  env_getAdapter :: "string \<Rightarrow> string \<Rightarrow> Thrown option"
  env_authorize :: "nat \<Rightarrow> string \<Rightarrow> AuthorizeRequest \<Rightarrow> Thrown + AuthorizeResponse"
  env_capture :: "string \<Rightarrow> CaptureRequest \<Rightarrow> Thrown + CaptureResponse"
  env_cancel :: "string \<Rightarrow> CancelRequest \<Rightarrow> Thrown option"
  env_refund :: "string \<Rightarrow> RefundRequest \<Rightarrow> Thrown + RefundResponse"
  env_updateMetrics :: "nat \<Rightarrow> bool \<Rightarrow> string \<Rightarrow> bool \<Rightarrow> Thrown option"

text \<open>
  The calls made to the collaborators, in order, and the two log lines that close an
  attempt of \<open>createPayment\<close>: the warning for a failed attempt (provider id, attempt
  number, \<open>isRetryable\<close>, message) and the information that an attempt was processed
  (provider id, new status).
\<close>

datatype Event =
    FxConvert int Currency Currency
  | SelectProvider RoutingContext
  | Authorize string AuthorizeRequest
  | UpdateMetrics string bool
  | AttemptFailed string nat bool string
  | Processed string TransactionStatus
  | Capture string CaptureRequest
  | Cancel string CancelRequest
  | Refund string RefundRequest

record StatusHistory =
  sh_transactionId :: string
  sh_fromStatus :: "TransactionStatus option"
  sh_toStatus :: TransactionStatus
  sh_reason :: "string option"

record PaymentProvider =
  pp_id :: string
  pp_code :: string

text \<open>
  The store: the Transaction rows, the status history and the providers. The store
  answers every call; it refuses an insert that repeats a unique key and an update of a
  row that does not exist.
  \<open>pdb_statusWrites\<close> is not a table of the application: it is the log of the updates the
  Transaction rows received, each as the transaction id, the status the row held and the
  status written, kept so that the transitions performed can be stated.
\<close>

record PaymentDb =
  pdb_transactions :: "Transaction list"
  pdb_history :: "StatusHistory list"
  pdb_providers :: "PaymentProvider list"
  pdb_statusWrites :: "(string \<times> TransactionStatus \<times> TransactionStatus) list"

definition MAX_PROVIDER_RETRIES :: nat where
  "MAX_PROVIDER_RETRIES = 3"

definition toPaymentResponse :: "Transaction \<Rightarrow> PaymentResponse" where
  "toPaymentResponse transaction =
     \<lparr> resp_id = tx_id transaction,
       resp_merchantId = tx_merchantId transaction,
       resp_customerId = tx_customerId transaction,
       resp_providerId = tx_providerId transaction,
       resp_providerTransactionId = tx_providerTransactionId transaction,
       resp_type = tx_type transaction,
       resp_status = tx_status transaction,
       resp_amount = tx_amount transaction,
       resp_currency = tx_currency transaction,
       resp_convertedAmount = tx_convertedAmount transaction,
       resp_convertedCurrency = tx_convertedCurrency transaction,
       resp_description = tx_description transaction,
       resp_failureReason = tx_failureReason transaction,
       resp_metadata = tx_metadata transaction,
       resp_createdAt = tx_createdAt transaction,
       resp_updatedAt = tx_updatedAt transaction \<rparr>"

text \<open>\<open>prisma.transaction.findUnique\<close> by id, \<open>update\<close> by id, and \<open>recordStatusChange\<close>.
  Every update the service makes writes the status, so each is logged as a status write.\<close>

definition findTransaction :: "PaymentDb \<Rightarrow> string \<Rightarrow> Transaction option" where
  "findTransaction db transactionId = find (\<lambda>t. tx_id t = transactionId) (pdb_transactions db)"

definition updateTransaction ::
  "nat \<Rightarrow> PaymentDb \<Rightarrow> string \<Rightarrow> (Transaction \<Rightarrow> Transaction) \<Rightarrow> PaymentDb" where
  "updateTransaction now db transactionId f =
     db\<lparr> pdb_transactions :=
            map (\<lambda>t. if tx_id t = transactionId then (f t)\<lparr> tx_updatedAt := now \<rparr> else t)
              (pdb_transactions db),
         pdb_statusWrites :=
            pdb_statusWrites db
            @ (case findTransaction db transactionId of
                 None \<Rightarrow> []
               | Some t \<Rightarrow> [(transactionId, tx_status t, tx_status (f t))]) \<rparr>"

definition recordStatusChange ::
  "PaymentDb \<Rightarrow> string \<Rightarrow> TransactionStatus option \<Rightarrow> TransactionStatus \<Rightarrow> string option \<Rightarrow> PaymentDb" where
  "recordStatusChange db transactionId fromStatus toStatus reason =
     db\<lparr> pdb_history := pdb_history db @
            [\<lparr> sh_transactionId = transactionId, sh_fromStatus = fromStatus,
               sh_toStatus = toStatus, sh_reason = reason \<rparr>] \<rparr>"

text \<open>A field given as \<open>undefined\<close> in the data of an update is left as it is.\<close>

definition orKeep :: "'a option \<Rightarrow> 'a option \<Rightarrow> 'a option" where
  "orKeep given current = (case given of None \<Rightarrow> current | Some v \<Rightarrow> Some v)"

definition updateTransactionStatus ::
  "nat \<Rightarrow> PaymentDb \<Rightarrow> string \<Rightarrow> TransactionStatus \<Rightarrow> string option \<Rightarrow> PaymentDb" where
  "updateTransactionStatus now db transactionId status failureReason =
     (let current = findTransaction db transactionId;
          db1 = updateTransaction now db transactionId
                  (\<lambda>t. t\<lparr> tx_status := status,
                          tx_failureReason := orKeep failureReason (tx_failureReason t) \<rparr>)
      in recordStatusChange db1 transactionId (map_option tx_status current) status failureReason)"

text \<open>The status an authorize result maps to.\<close>

fun newStatusOf :: "AuthorizeStatus \<Rightarrow> TransactionStatus" where
  "newStatusOf captured = COMPLETED"
| "newStatusOf authorized = PENDING"
| "newStatusOf declined = FAILED"
| "newStatusOf pending = FAILED"

text \<open>
  \<open>executePaymentWithProvider\<close> for attempt number \<open>attempt\<close>: the result or the error
  thrown, the store afterwards and the events of the call. An \<open>update\<close> of a row that
  does not exist throws. The adapter is fetched outside the \<open>try\<close>; \<open>authorize\<close>, the
  update of the row and the metrics update are inside it. \<open>rethrow\<close> is the \<open>catch\<close> block:
  the failure is reported to the metrics and the error thrown again, and if that metrics
  update rejects, its error is thrown instead.
\<close>

definition markProcessing :: "string \<Rightarrow> Transaction \<Rightarrow> Transaction" where
  "markProcessing providerId t = t\<lparr> tx_providerId := Some providerId, tx_status := PROCESSING \<rparr>"

definition applyAuthorizeResult :: "nat \<Rightarrow> AuthorizeResponse \<Rightarrow> Transaction \<Rightarrow> Transaction" where
  "applyAuthorizeResult now result t =
     t\<lparr> tx_status := newStatusOf (au_status result),
        tx_providerTransactionId := Some (au_providerTransactionId result),
        tx_providerResponse := orKeep (au_rawResponse result) (tx_providerResponse t),
        tx_capturedAt := (if au_status result = captured then Some now else None),
        tx_failureReason := orKeep (au_declineReason result) (tx_failureReason t) \<rparr>"

definition rethrow ::
  "PaymentEnv \<Rightarrow> nat \<Rightarrow> string \<Rightarrow> Thrown \<Rightarrow> PaymentDb \<Rightarrow> Event list
     \<Rightarrow> (Thrown + PaymentResponse) \<times> PaymentDb \<times> Event list" where
  "rethrow env attempt providerId error db events =
     (case env_updateMetrics env attempt True providerId False of
        None \<Rightarrow> (Inl error, db, events @ [UpdateMetrics providerId False])
      | Some metricsError \<Rightarrow> (Inl metricsError, db, events @ [UpdateMetrics providerId False]))"

definition executePaymentWithProvider ::
  "PaymentEnv \<Rightarrow> nat \<Rightarrow> nat \<Rightarrow> PaymentDb \<Rightarrow> string \<Rightarrow> string \<Rightarrow> CreatePaymentRequest \<Rightarrow> int \<Rightarrow> Currency
     \<Rightarrow> (Thrown + PaymentResponse) \<times> PaymentDb \<times> Event list" where
  "executePaymentWithProvider env now attempt db transactionId providerId request amount currency =
     (case find (\<lambda>p. pp_id p = providerId) (pdb_providers db) of
        None \<Rightarrow> (Inl (OtherError (''Provider '' @ providerId @ '' not found'')), db, [])
      | Some provider \<Rightarrow>
          (case findTransaction db transactionId of
             None \<Rightarrow> (Inl (OtherError ''Record to update not found''), db, [])
           | Some transaction \<Rightarrow>
               (let db1 = updateTransaction now db transactionId (markProcessing providerId);
                    db2 = recordStatusChange db1 transactionId (Some PENDING) PROCESSING None
                in case env_getAdapter env (pp_code provider) (cp_merchantId request) of
                     Some e \<Rightarrow> (Inl e, db2, [])
                   | None \<Rightarrow>
                       (let authorizeRequest =
                              \<lparr> ar_merchantId = cp_merchantId request,
                                ar_amount = amount,
                                ar_currency = currency,
                                ar_paymentMethod = cp_paymentMethod request,
                                ar_description = cp_description request,
                                ar_metadata = cp_metadata request,
                                ar_idempotencyKey = cp_idempotencyKey request,
                                ar_capture = (case cp_capture request of None \<Rightarrow> True | Some c \<Rightarrow> c),
                                ar_customerId = cp_customerId request \<rparr>
                        in case env_authorize env attempt (pp_code provider) authorizeRequest of
                             Inr result \<Rightarrow>
                               (let newStatus = newStatusOf (au_status result);
                                    db3 = updateTransaction now db2 transactionId (applyAuthorizeResult now result);
                                    updated = (applyAuthorizeResult now result
                                                 ((markProcessing providerId transaction)\<lparr> tx_updatedAt := now \<rparr>))
                                              \<lparr> tx_updatedAt := now \<rparr>;
                                    db4 = recordStatusChange db3 transactionId (Some PROCESSING) newStatus None
                                in case env_updateMetrics env attempt False providerId (au_success result) of
                                     None \<Rightarrow>
                                       (Inr (toPaymentResponse updated), db4,
                                        [Authorize providerId authorizeRequest,
                                         UpdateMetrics providerId (au_success result),
                                         Processed providerId newStatus])
                                   | Some error \<Rightarrow>
                                       rethrow env attempt providerId error db4
                                         [Authorize providerId authorizeRequest,
                                          UpdateMetrics providerId (au_success result)])
                           | Inl error \<Rightarrow>
                               rethrow env attempt providerId error db2
                                 [Authorize providerId authorizeRequest]))))"

text \<open>
  The loop over the candidates of \<open>createPayment\<close>: the response of the first attempt
  that returns, or none; the last error; the store and the events so far.
\<close>

fun attemptLoop ::
  "PaymentEnv \<Rightarrow> nat \<Rightarrow> string \<Rightarrow> CreatePaymentRequest \<Rightarrow> int \<Rightarrow> Currency
     \<Rightarrow> nat \<Rightarrow> string list \<Rightarrow> Thrown option \<Rightarrow> PaymentDb \<Rightarrow> Event list
     \<Rightarrow> PaymentResponse option \<times> Thrown option \<times> PaymentDb \<times> Event list" where
  "attemptLoop env now transactionId request amount currency attempt [] lastError db events =
     (None, lastError, db, events)"
| "attemptLoop env now transactionId request amount currency attempt (providerId # rest) lastError db events =
     (case executePaymentWithProvider env now attempt db transactionId providerId request amount currency of
        (Inr result, db1, events1) \<Rightarrow> (Some result, lastError, db1, events @ events1)
      | (Inl error, db1, events1) \<Rightarrow>
          (let isRetryable = isRetryableError error;
               events2 = events @ events1
                 @ [AttemptFailed providerId (attempt + 1) isRetryable (message error)]
           in if \<not> isRetryable then (None, Some error, db1, events2)
              else attemptLoop env now transactionId request amount currency (attempt + 1) rest
                     (Some error) db1 events2))"

text \<open>
  \<open>prisma.transaction.create\<close> for the new payment. The store refuses a second row with
  the same id or the same idempotency key: \<open>createPayment\<close> looks payments up with
  \<open>findUnique\<close> on \<open>idempotencyKey\<close>, which is a unique column.
\<close>

definition createTransaction ::
  "nat \<Rightarrow> string \<Rightarrow> PaymentDb \<Rightarrow> CreatePaymentRequest \<Rightarrow> int option \<Rightarrow> Currency option \<Rightarrow> string option
     \<Rightarrow> Thrown + Transaction \<times> PaymentDb" where
  "createTransaction now newId db request convertedAmount convertedCurrency fxRateId =
     (if (\<exists>t \<in> set (pdb_transactions db). tx_id t = newId)
         \<or> (case cp_idempotencyKey request of
               None \<Rightarrow> False
             | Some k \<Rightarrow> \<exists>t \<in> set (pdb_transactions db). tx_idempotencyKey t = Some k)
      then Inl (OtherError ''Unique constraint failed'')
      else
        (let transaction =
               \<lparr> tx_id = newId,
                 tx_merchantId = cp_merchantId request,
                 tx_customerId = cp_customerId request,
                 tx_providerId = None,
                 tx_paymentMethodId = None,
                 tx_parentTransactionId = None,
                 tx_type = PAYMENT,
                 tx_status = PENDING,
                 tx_amount = cp_amount request,
                 tx_currency = cp_currency request,
                 tx_convertedAmount = convertedAmount,
                 tx_convertedCurrency = convertedCurrency,
                 tx_fxRateId = fxRateId,
                 tx_providerTransactionId = None,
                 tx_providerResponse = None,
                 tx_description = cp_description request,
                 tx_failureReason = None,
                 tx_metadata = (case cp_metadata request of None \<Rightarrow> [] | Some m \<Rightarrow> m),
                 tx_idempotencyKey = cp_idempotencyKey request,
                 tx_capturedAt = None,
                 tx_cancelledAt = None,
                 tx_refundedAt = None,
                 tx_createdAt = now,
                 tx_updatedAt = now \<rparr>
         in Inr (transaction, db\<lparr> pdb_transactions := pdb_transactions db @ [transaction] \<rparr>)))"

text \<open>The idempotency check: \<open>if (request.idempotencyKey)\<close> is false for an absent key and
  for the empty string.\<close>

definition findExisting :: "PaymentDb \<Rightarrow> CreatePaymentRequest \<Rightarrow> Transaction option" where
  "findExisting db request =
     (case cp_idempotencyKey request of
        None \<Rightarrow> None
      | Some k \<Rightarrow>
          if k \<noteq> [] then find (\<lambda>t. tx_idempotencyKey t = Some k) (pdb_transactions db) else None)"

text \<open>The part of \<open>createPayment\<close> after the routing decision.\<close>

definition runAttempts ::
  "PaymentEnv \<Rightarrow> nat \<Rightarrow> string \<Rightarrow> PaymentDb \<Rightarrow> CreatePaymentRequest \<Rightarrow> int option \<Rightarrow> Currency option
     \<Rightarrow> string option \<Rightarrow> RoutingDecision \<Rightarrow> Event list
     \<Rightarrow> (Thrown + PaymentResponse) \<times> PaymentDb \<times> Event list" where
  "runAttempts env now newId db request convertedAmount convertedCurrency fxRateId routingDecision events =
     (case createTransaction now newId db request convertedAmount convertedCurrency fxRateId of
        Inl e \<Rightarrow> (Inl e, db, events)
      | Inr (transaction, db1) \<Rightarrow>
          (let db2 = recordStatusChange db1 (tx_id transaction) None PENDING None;
               allProviderIds = dec_selectedProviderId routingDecision
                                  # dec_fallbackProviderIds routingDecision
           in case attemptLoop env now (tx_id transaction) request
                     (case convertedAmount of Some a \<Rightarrow> a | None \<Rightarrow> cp_amount request)
                     (case convertedCurrency of Some c \<Rightarrow> c | None \<Rightarrow> cp_currency request)
                     0 (take (min (length allProviderIds) MAX_PROVIDER_RETRIES) allProviderIds)
                     None db2 events of
                (Some result, lastError, db3, events3) \<Rightarrow> (Inr result, db3, events3)
              | (None, lastError, db3, events3) \<Rightarrow>
                  (Inl (allProvidersFailed (tx_id transaction)),
                   updateTransactionStatus now db3 (tx_id transaction) FAILED
                     (Some (case lastError of
                              Some e \<Rightarrow> message e
                            | None \<Rightarrow> ''All payment providers failed'')),
                   events3)))"

text \<open>The FX block of \<open>createPayment\<close>: the converted amount, currency and rate id
  (all absent when no conversion is needed), or the error \<open>convert\<close> threw.\<close>

definition convertIfNeeded ::
  "PaymentEnv \<Rightarrow> CreatePaymentRequest
     \<Rightarrow> (Thrown + int option \<times> Currency option \<times> string option) \<times> Event list" where
  "convertIfNeeded env request =
     (case cp_targetCurrency request of
        None \<Rightarrow> (Inr (None, None, None), [])
      | Some targetCurrency \<Rightarrow>
          if targetCurrency \<noteq> [] \<and> targetCurrency \<noteq> cp_currency request
          then (case env_fxConvert env (cp_amount request) (cp_currency request) targetCurrency of
                  Inl e \<Rightarrow> (Inl e, [FxConvert (cp_amount request) (cp_currency request) targetCurrency])
                | Inr (targetAmount, fxRateId) \<Rightarrow>
                    (Inr (Some targetAmount, Some targetCurrency, Some fxRateId),
                     [FxConvert (cp_amount request) (cp_currency request) targetCurrency]))
          else (Inr (None, None, None), []))"

definition buildRoutingContext ::
  "CreatePaymentRequest \<Rightarrow> int option \<Rightarrow> Currency option \<Rightarrow> RoutingContext" where
  "buildRoutingContext request convertedAmount convertedCurrency =
     \<lparr> rc_merchantId = cp_merchantId request,
       rc_amount = (case convertedAmount of Some a \<Rightarrow> a | None \<Rightarrow> cp_amount request),
       rc_currency = (case convertedCurrency of Some c \<Rightarrow> c | None \<Rightarrow> cp_currency request),
       rc_paymentMethodType = pm_type (cp_paymentMethod request),
       rc_cardBrand = None,
       rc_country = None,
       rc_region = None,
       rc_customerId = cp_customerId request,
       rc_metadata = cp_metadata request \<rparr>"

definition createPayment ::
  "PaymentEnv \<Rightarrow> nat \<Rightarrow> string \<Rightarrow> PaymentDb \<Rightarrow> CreatePaymentRequest
     \<Rightarrow> (Thrown + PaymentResponse) \<times> PaymentDb \<times> Event list" where
  "createPayment env now newId db request =
     (case findExisting db request of
        Some existing \<Rightarrow> (Inr (toPaymentResponse existing), db, [])
      | None \<Rightarrow>
          (case convertIfNeeded env request of
             (Inl e, events1) \<Rightarrow> (Inl e, db, events1)
           | (Inr (convertedAmount, convertedCurrency, fxRateId), events1) \<Rightarrow>
               (let routingContext = buildRoutingContext request convertedAmount convertedCurrency;
                    events2 = events1 @ [SelectProvider routingContext]
                in case env_selectProvider env routingContext of
                     Inl e \<Rightarrow> (Inl e, db, events2)
                   | Inr routingDecision \<Rightarrow>
                       runAttempts env now newId db request convertedAmount convertedCurrency fxRateId
                         routingDecision events2)))"










text \<open>All status writes made between two stores are writes to the transaction
  \<open>transactionId\<close> along edges of \<open>graph\<close>.\<close>

definition writesIn ::
  "(TransactionStatus \<times> TransactionStatus) list \<Rightarrow> string \<Rightarrow> PaymentDb \<Rightarrow> PaymentDb \<Rightarrow> bool" where
  "writesIn graph transactionId db db' =
     (\<exists>writes. pdb_statusWrites db' = pdb_statusWrites db @ writes
               \<and> list_all (\<lambda>w. fst w = transactionId \<and> snd w \<in> set graph) writes)"


text \<open>Readings of the event list: the providers whose \<open>authorize\<close> was called, the
  providers of the attempts made, and the failed attempts.\<close>

fun authorizedProviders :: "Event list \<Rightarrow> string list" where
  "authorizedProviders [] = []"
| "authorizedProviders (Authorize p r # es) = p # authorizedProviders es"
| "authorizedProviders (e # es) = authorizedProviders es"

fun attemptedProviders :: "Event list \<Rightarrow> string list" where
  "attemptedProviders [] = []"
| "attemptedProviders (AttemptFailed p n r m # es) = p # attemptedProviders es"
| "attemptedProviders (Processed p s # es) = p # attemptedProviders es"
| "attemptedProviders (e # es) = attemptedProviders es"

text \<open>After a failed attempt that is not retryable, no provider is attempted and no
  \<open>authorize\<close> is called.\<close>

fun noAttemptAfterFatal :: "Event list \<Rightarrow> bool" where
  "noAttemptAfterFatal [] = True"
| "noAttemptAfterFatal (AttemptFailed p n r m # es) =
     ((r \<or> (attemptedProviders es = [] \<and> authorizedProviders es = [])) \<and> noAttemptAfterFatal es)"
| "noAttemptAfterFatal (e # es) = noAttemptAfterFatal es"

fun processedEvents :: "Event list \<Rightarrow> (string \<times> TransactionStatus) list" where
  "processedEvents [] = []"
| "processedEvents (Processed p s # es) = (p, s) # processedEvents es"
| "processedEvents (e # es) = processedEvents es"

fun failedAttempts :: "Event list \<Rightarrow> (string \<times> bool \<times> string) list" where
  "failedAttempts [] = []"
| "failedAttempts (AttemptFailed p n r m # es) = (p, r, m) # failedAttempts es"
| "failedAttempts (e # es) = failedAttempts es"

definition statusOf :: "PaymentDb \<Rightarrow> string \<Rightarrow> TransactionStatus option" where
  "statusOf db i = map_option tx_status (findTransaction db i)"

text \<open>
  Example collaborators. \<open>flakyEnv\<close>: the first two authorize attempts fail with a
  retryable network error and the third captures. \<open>decliningEnv\<close>: every authorize is
  declined, which is not retryable. \<open>metricsDownEnv\<close>: every authorize captures and every
  metrics update rejects. Routing selects \<open>pA\<close> with fallbacks \<open>pB\<close>, \<open>pC\<close>; in the first
  two the metrics updates return.
\<close>

definition exampleDecision :: RoutingDecision where
  "exampleDecision =
     \<lparr> dec_selectedProviderId = ''pA'', dec_selectedProviderCode = ''pA'',
       dec_fallbackProviderIds = [''pB'', ''pC''], dec_matchedRuleId = None,
       dec_score = 90, dec_reason = ''Selected by scoring algorithm'', dec_evaluatedAt = 0 \<rparr>"

definition capturedResponse :: "AuthorizeRequest \<Rightarrow> AuthorizeResponse" where
  "capturedResponse r =
     \<lparr> au_success = True, au_providerTransactionId = ''pt_1'', au_status = captured,
       au_amount = ar_amount r, au_currency = ar_currency r, au_declineReason = None,
       au_rawResponse = None \<rparr>"

definition flakyEnv :: PaymentEnv where
  "flakyEnv =
     \<lparr> env_fxConvert = (\<lambda>amount source target. Inr (amount, ''rate_1'')),
       env_selectProvider = (\<lambda>context. Inr exampleDecision),
       env_getAdapter = (\<lambda>code merchantId. None),
       env_authorize = (\<lambda>attempt code r.
          if attempt < 2
          then Inl (ProviderError ''Could not connect to payment network'' ''NETWORK_ERROR'' True)
          else Inr (capturedResponse r)),
       env_capture = (\<lambda>code r.
          Inr \<lparr> ca_success = True, ca_providerTransactionId = cr_providerTransactionId r,
                ca_capturedAmount = 1000, ca_currency = ''USD'', ca_rawResponse = None \<rparr>),
       env_cancel = (\<lambda>code r. None),
       env_refund = (\<lambda>code r.
          Inr \<lparr> rfr_success = True, rfr_providerRefundId = ''re_1'', rfr_refundedAmount = 1000,
                rfr_currency = ''USD'', rfr_status = refund_completed, rfr_rawResponse = None \<rparr>),
       env_updateMetrics = (\<lambda>attempt inCatch providerId success. None) \<rparr>"

definition decliningEnv :: PaymentEnv where
  "decliningEnv =
     flakyEnv\<lparr> env_authorize := (\<lambda>attempt code r.
        Inl (ProviderError ''Your card was declined'' ''CARD_DECLINED'' False)) \<rparr>"

definition metricsDownEnv :: PaymentEnv where
  "metricsDownEnv =
     flakyEnv\<lparr> env_authorize := (\<lambda>attempt code r. Inr (capturedResponse r)),
               env_updateMetrics := (\<lambda>attempt inCatch providerId success.
                  Some (OtherError ''Connection is closed.'')) \<rparr>"

definition examplePaymentRequest :: "string option \<Rightarrow> Currency option \<Rightarrow> CreatePaymentRequest" where
  "examplePaymentRequest key target =
     \<lparr> cp_merchantId = ''m1'', cp_customerId = None, cp_amount = 1000, cp_currency = ''USD'',
       cp_targetCurrency = target,
       cp_paymentMethod = \<lparr> pm_type = ''CARD'', pm_token = None, pm_cardNumber = None,
          pm_expiryMonth = None, pm_expiryYear = None, pm_cvv = None, pm_holderName = None \<rparr>,
       cp_capture = None, cp_description = None, cp_metadata = None, cp_idempotencyKey = key \<rparr>"

text \<open>A store with the three providers and one earlier payment, stored under the
  idempotency key \<open>key\<close> and authorized at \<open>pA\<close> (so PENDING).\<close>

definition earlierPayment :: "string option \<Rightarrow> Transaction" where
  "earlierPayment key =
     (exampleTxn ''tx0'' 1000 PENDING)\<lparr> tx_idempotencyKey := key, tx_providerId := Some ''pA'',
        tx_providerTransactionId := Some ''pt_0'' \<rparr>"

definition examplePaymentDb :: "string option \<Rightarrow> PaymentDb" where
  "examplePaymentDb key =
     \<lparr> pdb_transactions = [earlierPayment key],
       pdb_history = [],
       pdb_providers = [\<lparr> pp_id = ''pA'', pp_code = ''pA'' \<rparr>, \<lparr> pp_id = ''pB'', pp_code = ''pB'' \<rparr>,
                        \<lparr> pp_id = ''pC'', pp_code = ''pC'' \<rparr>],
       pdb_statusWrites = [] \<rparr>"

text \<open>The outcomes of one attempt.\<close>

definition attemptOk :: "string \<Rightarrow> Event list \<Rightarrow> bool" where
  "attemptOk p evs =
     (attemptedProviders evs = [p] \<and> authorizedProviders evs = [p] \<and> failedAttempts evs = []
      \<and> map fst (processedEvents evs) = [p] \<and> noAttemptAfterFatal evs)"

definition attemptThrew :: "string \<Rightarrow> Event list \<Rightarrow> bool" where
  "attemptThrew p evs =
     (attemptedProviders evs = [] \<and> (authorizedProviders evs = [] \<or> authorizedProviders evs = [p])
      \<and> failedAttempts evs = [] \<and> processedEvents evs = [] \<and> noAttemptAfterFatal evs)"

definition extends :: "PaymentDb \<Rightarrow> PaymentDb \<Rightarrow> bool" where
  "extends db db' =
     (pdb_providers db' = pdb_providers db
      \<and> (\<forall>j. findTransaction db j \<noteq> None \<longrightarrow> findTransaction db' j \<noteq> None))"

text \<open>What the loop over the candidates \<open>ps\<close> guarantees about its result.\<close>

definition loopSpec ::
  "string \<Rightarrow> string list \<Rightarrow> Thrown option \<Rightarrow> PaymentDb
     \<Rightarrow> PaymentResponse option \<times> Thrown option \<times> PaymentDb \<times> Event list \<Rightarrow> bool" where
  "loopSpec txid ps le db out =
     (case out of (res, le', db', new) \<Rightarrow>
        prefix (attemptedProviders new) ps
        \<and> subseq (authorizedProviders new) (attemptedProviders new)
        \<and> noAttemptAfterFatal new
        \<and> extends db db'
        \<and> (ps \<noteq> [] \<longrightarrow> attemptedProviders new \<noteq> [])
        \<and> map fst (failedAttempts new) @ map fst (processedEvents new) = attemptedProviders new
        \<and> length (processedEvents new) \<le> 1
        \<and> (case res of
              Some r \<Rightarrow> processedEvents new \<noteq> []
            | None \<Rightarrow>
                processedEvents new = []
                \<and> (if ps = [] then new = [] \<and> le' = le
                    else failedAttempts new \<noteq> []
                         \<and> map_option message le' = Some (snd (snd (last (failedAttempts new))))
                         \<and> (\<not> fst (snd (last (failedAttempts new))) \<or> attemptedProviders new = ps))))"

text \<open>The routing contexts for which a decision was asked.\<close>

fun selectCalls :: "Event list \<Rightarrow> RoutingContext list" where
  "selectCalls [] = []"
| "selectCalls (SelectProvider c # es) = c # selectCalls es"
| "selectCalls (e # es) = selectCalls es"

text \<open>The store accepts the new row of \<open>createPayment\<close>: no stored transaction has the id
  \<open>newId\<close> or the idempotency key of the request.\<close>

definition insertAccepted :: "PaymentDb \<Rightarrow> string \<Rightarrow> CreatePaymentRequest \<Rightarrow> bool" where
  "insertAccepted db newId request =
     (\<forall>t \<in> set (pdb_transactions db).
        tx_id t \<noteq> newId
        \<and> (cp_idempotencyKey request = None \<or> tx_idempotencyKey t \<noteq> cp_idempotencyKey request))"

text \<open>What the attempts of one \<open>createPayment\<close> call guarantee, read from its new events
  \<open>new\<close>, for the candidate list \<open>candidates\<close> of the routing decision; \<open>accepted\<close> tells
  whether the store accepted the new row.\<close>

definition attemptsSpec ::
  "string \<Rightarrow> string list \<Rightarrow> bool \<Rightarrow> PaymentDb \<Rightarrow> Thrown + PaymentResponse \<Rightarrow> PaymentDb
     \<Rightarrow> Event list \<Rightarrow> bool" where
  "attemptsSpec newId candidates accepted db result db' new =
     (prefix (attemptedProviders new) (take 3 candidates)
      \<and> (accepted \<longrightarrow> attemptedProviders new \<noteq> [])
      \<and> map fst (failedAttempts new) @ map fst (processedEvents new) = attemptedProviders new
      \<and> length (processedEvents new) \<le> 1
      \<and> subseq (authorizedProviders new) (attemptedProviders new)
      \<and> noAttemptAfterFatal new
      \<and> selectCalls new = []
      \<and> extends db db'
      \<and> (processedEvents new \<noteq> [] \<longrightarrow> (\<exists>r. result = Inr r))
      \<and> (failedAttempts new \<noteq> [] \<and> processedEvents new = [] \<longrightarrow>
            result = Inl (allProvidersFailed newId)
            \<and> (\<exists>t. findTransaction db' newId = Some t \<and> tx_status t = FAILED
                   \<and> tx_failureReason t = Some (snd (snd (last (failedAttempts new)))))
            \<and> (\<not> fst (snd (last (failedAttempts new)))
                 \<or> attemptedProviders new = take 3 candidates)))"

text \<open>The shapes a \<open>createPayment\<close> call can take: it stops before any attempt, leaving
  the store as it was and with no routing decision made, or it asks routing once and
  runs the attempts.\<close>

definition stoppedEarly :: "PaymentEnv \<Rightarrow> PaymentDb \<Rightarrow> PaymentDb \<Rightarrow> Event list \<Rightarrow> bool" where
  "stoppedEarly env db db' events =
     (db' = db \<and> attemptedProviders events = [] \<and> authorizedProviders events = []
      \<and> failedAttempts events = [] \<and> processedEvents events = [] \<and> noAttemptAfterFatal events
      \<and> list_all (\<lambda>context. isl (env_selectProvider env context)) (selectCalls events))"

definition ranAttempts ::
  "PaymentEnv \<Rightarrow> string \<Rightarrow> CreatePaymentRequest \<Rightarrow> PaymentDb \<Rightarrow> Thrown + PaymentResponse \<Rightarrow> PaymentDb
     \<Rightarrow> Event list \<Rightarrow> bool" where
  "ranAttempts env newId request db result db' events =
     (\<exists>pre new context decision.
        events = pre @ new
        \<and> selectCalls pre = [context]
        \<and> env_selectProvider env context = Inr decision
        \<and> attemptedProviders pre = [] \<and> authorizedProviders pre = [] \<and> failedAttempts pre = []
        \<and> processedEvents pre = [] \<and> noAttemptAfterFatal pre
        \<and> attemptsSpec newId (dec_selectedProviderId decision # dec_fallbackProviderIds decision)
             (insertAccepted db newId request) db result db' new)"


section \<open>Ledger: the balance check\<close>

lemma update_fst_set: "fst ` set (AList.update k v m) = insert k (fst ` set m)"
  by (induction m) auto

lemma addToTotals_keys:
  "fst ` set (addToTotals m e) = insert (le_currency e) (fst ` set m)"
  unfolding addToTotals_def Let_def
  by (simp add: update_fst_set) 

lemma addToTotals_distinct: "distinct (map fst m) \<Longrightarrow> distinct (map fst (addToTotals m e))"
  unfolding addToTotals_def Let_def
  by (simp add: AList.distinct_update)

lemma lookup_addToTotals:
  "lookupTotals (addToTotals m e) c =
     (if c = le_currency e
      then (if le_entryType e = DEBIT
            then (fst (lookupTotals m c) + le_amount e, snd (lookupTotals m c))
            else (fst (lookupTotals m c), snd (lookupTotals m c) + le_amount e))
      else lookupTotals m c)"
  unfolding addToTotals_def Let_def lookupTotals_def
  by (auto simp: AList.update_conv' split: option.splits)

lemma foldl_keys: "fst ` set (foldl addToTotals m es) = fst ` set m \<union> le_currency ` set es"
  by (induction es arbitrary: m) (auto simp: addToTotals_keys)

lemma foldl_distinct: "distinct (map fst m) \<Longrightarrow> distinct (map fst (foldl addToTotals m es))"
  by (induction es arbitrary: m) (auto simp: addToTotals_distinct)

lemma foldl_lookup:
  "lookupTotals (foldl addToTotals m es) c =
     (fst (lookupTotals m c) + debitSum c es, snd (lookupTotals m c) + creditSum c es)"
proof (induction es arbitrary: m)
  case Nil
  show ?case by (simp add: debitSum_def creditSum_def)
next
  case (Cons e es)
  show ?case
    by (simp add: Cons.IH lookup_addToTotals debitSum_def creditSum_def)
qed

lemma checkTotals_ok_iff:
  "checkTotals tid m = Inr () \<longleftrightarrow> (\<forall>(c, t) \<in> set m. fst t = snd t)"
  by (induction tid m rule: checkTotals.induct) auto

lemma checkTotals_cases:
  "checkTotals tid m = Inr () \<or> checkTotals tid m = Inl (UNBALANCED_ENTRY tid)"
  by (induction tid m rule: checkTotals.induct) auto

lemma distinct_lookup:
  "distinct (map fst m) \<Longrightarrow> (c, t) \<in> set m \<Longrightarrow> lookupTotals m c = t"
  by (simp add: lookupTotals_def)

lemma validateBalance_ok_iff:
  "validateBalance tid es = Inr () \<longleftrightarrow> (\<forall>c \<in> le_currency ` set es. debitSum c es = creditSum c es)"
proof -
  let ?m = "foldl addToTotals [] es"
  have d: "distinct (map fst ?m)" by (rule foldl_distinct) simp
  have k: "fst ` set ?m = le_currency ` set es" by (simp add: foldl_keys)
  have e: "\<And>c. lookupTotals [] c = (0, 0)" by (simp add: lookupTotals_def)
  have l: "\<And>c. lookupTotals ?m c = (debitSum c es, creditSum c es)"
    by (simp add: foldl_lookup e)
  show ?thesis
  proof
    assume "validateBalance tid es = Inr ()"
    then have a: "\<forall>(c, t) \<in> set ?m. fst t = snd t"
      by (simp add: validateBalance_def checkTotals_ok_iff)
    show "\<forall>c \<in> le_currency ` set es. debitSum c es = creditSum c es"
    proof
      fix c assume "c \<in> le_currency ` set es"
      then have "c \<in> fst ` set ?m" by (simp add: k)
      then obtain t where t: "(c, t) \<in> set ?m" by auto
      then have "lookupTotals ?m c = t" using d by (rule distinct_lookup[rotated])
      then have "t = (debitSum c es, creditSum c es)" by (simp add: l)
      moreover have "fst t = snd t" using a t by auto
      ultimately show "debitSum c es = creditSum c es" by simp
    qed
  next
    assume b: "\<forall>c \<in> le_currency ` set es. debitSum c es = creditSum c es"
    have "\<forall>(c, t) \<in> set ?m. fst t = snd t"
    proof (clarify)
      fix c d cr assume t: "(c, d, cr) \<in> set ?m"
      then have "lookupTotals ?m c = (d, cr)" using d by (rule distinct_lookup[rotated])
      then have "(d, cr) = (debitSum c es, creditSum c es)" by (simp add: l)
      moreover have "c \<in> le_currency ` set es" using t k by force
      ultimately show "fst (d, cr) = snd (d, cr)" using b by simp
    qed
    then show "validateBalance tid es = Inr ()"
      by (simp add: validateBalance_def checkTotals_ok_iff)
  qed
qed

lemma validateBalance_cases:
  "validateBalance tid es = Inr () \<or> validateBalance tid es = Inl (UNBALANCED_ENTRY tid)"
  by (simp add: validateBalance_def checkTotals_cases)

lemma validateBalance_error_iff:
  "validateBalance tid es = Inl (UNBALANCED_ENTRY tid)
     \<longleftrightarrow> (\<exists>c \<in> le_currency ` set es. debitSum c es \<noteq> creditSum c es)"
  using validateBalance_ok_iff[of tid es] validateBalance_cases[of tid es] by auto

text \<open>
  C1. For a known transaction id, \<open>recordEntries\<close> throws \<open>UnbalancedEntry\<close> exactly when
  some currency present in the submitted entries has a debit sum different from its
  credit sum; when it throws, the store is the one it started from (no ledger entry is
  written); and when it accepts, every currency present is balanced and the rows
  written are the batch made from the submitted entries.
\<close>

theorem recordEntries_unbalanced_iff:
  assumes "transactionId \<in> set (ld_transactions db)"
  shows "(fst (recordEntries now db transactionId entries) = Inl (UNBALANCED_ENTRY transactionId)
            \<longleftrightarrow> (\<exists>c \<in> le_currency ` set entries. debitSum c entries \<noteq> creditSum c entries))
       \<and> (fst (recordEntries now db transactionId entries) = Inl (UNBALANCED_ENTRY transactionId)
            \<longrightarrow> snd (recordEntries now db transactionId entries) = db)
       \<and> (\<forall>created. fst (recordEntries now db transactionId entries) = Inr created
            \<longrightarrow> (\<forall>c \<in> le_currency ` set entries. debitSum c entries = creditSum c entries)
                \<and> created = createRows now (length (ld_entries db)) entries
                \<and> ld_entries (snd (recordEntries now db transactionId entries)) = ld_entries db @ created)"
proof (cases "validateBalance transactionId entries = Inr ()")
  case True
  then have bal: "\<forall>c \<in> le_currency ` set entries. debitSum c entries = creditSum c entries"
    by (simp add: validateBalance_ok_iff)
  from True assms show ?thesis
    using bal by (simp add: recordEntries_def Let_def)
next
  case False
  then have err: "validateBalance transactionId entries = Inl (UNBALANCED_ENTRY transactionId)"
    using validateBalance_cases[of transactionId entries] by simp
  then have "\<exists>c \<in> le_currency ` set entries. debitSum c entries \<noteq> creditSum c entries"
    by (simp add: validateBalance_error_iff)
  with err assms show ?thesis
    by (simp add: recordEntries_def)
qed

theorem recordEntries_unbalanced_iff_witness:
  "''txn-123'' \<in> set (ld_transactions exampleLedgerDb)
   \<and> debitSum ''USD'' unbalancedExample = 1000 \<and> creditSum ''USD'' unbalancedExample = 500
   \<and> fst (recordEntries 0 exampleLedgerDb ''txn-123'' unbalancedExample) = Inl (UNBALANCED_ENTRY ''txn-123'')
   \<and> snd (recordEntries 0 exampleLedgerDb ''txn-123'' unbalancedExample) = exampleLedgerDb"
proof -
  have k: "''txn-123'' \<in> set (ld_transactions exampleLedgerDb)"
    by (simp add: exampleLedgerDb_def)
  have d: "debitSum ''USD'' unbalancedExample = 1000"
    by (simp add: debitSum_def unbalancedExample_def exampleEntry_def)
  have c: "creditSum ''USD'' unbalancedExample = 500"
    by (simp add: creditSum_def unbalancedExample_def exampleEntry_def)
  have u: "\<exists>c \<in> le_currency ` set unbalancedExample.
             debitSum c unbalancedExample \<noteq> creditSum c unbalancedExample"
    using d c by (simp add: unbalancedExample_def exampleEntry_def)
  from recordEntries_unbalanced_iff[OF k, of 0 unbalancedExample] u k d c
  show ?thesis by blast
qed

text \<open>
  C9, as the specification states it, fails: for a known transaction id the empty
  entry list passes the balance check (no currency is present) and is accepted.
\<close>

theorem recordEntries_empty_list_accepted:
  "length ([] :: CreateLedgerEntryRequest list) < 2
   \<and> recordEntries 0 exampleLedgerDb ''txn-123'' [] = (Inr [], exampleLedgerDb)"
  by (simp add: recordEntries_def validateBalance_def exampleLedgerDb_def)

text \<open>
  C9, amended. \<open>recordEntries\<close> rejects with \<open>UnbalancedEntry\<close>, writing nothing, every
  single-entry set whose amount is not zero; the minimum of two entries is a check of
  the route's body schema (\<open>entries.min(2)\<close>), which no list shorter than two passes;
  \<open>recordEntries\<close> itself accepts the empty list for a known transaction and writes
  nothing.
\<close>

theorem recordEntries_fewer_than_two:
  "(length entries < 2 \<longrightarrow> \<not> entriesSchema entries)
   \<and> (transactionId \<in> set (ld_transactions db) \<and> le_amount e \<noteq> 0
        \<longrightarrow> recordEntries now db transactionId [e] = (Inl (UNBALANCED_ENTRY transactionId), db))
   \<and> (transactionId \<in> set (ld_transactions db)
        \<longrightarrow> recordEntries now db transactionId [] = (Inr [], db))"
proof -
  have one: "le_amount e \<noteq> 0 \<Longrightarrow> validateBalance transactionId [e] = Inl (UNBALANCED_ENTRY transactionId)"
    by (simp add: validateBalance_error_iff debitSum_def creditSum_def)
  show ?thesis
    using one by (simp add: recordEntries_def entriesSchema_def validateBalance_def)
qed

theorem recordEntries_fewer_than_two_witness:
  "length [exampleEntry ''1000'' DEBIT 1000] < 2
   \<and> \<not> entriesSchema [exampleEntry ''1000'' DEBIT 1000]
   \<and> recordEntries 0 exampleLedgerDb ''txn-123'' [exampleEntry ''1000'' DEBIT 1000]
       = (Inl (UNBALANCED_ENTRY ''txn-123''), exampleLedgerDb)
   \<and> recordEntries 0 exampleLedgerDb ''txn-123'' [] = (Inr [], exampleLedgerDb)"
proof -
  have k: "''txn-123'' \<in> set (ld_transactions exampleLedgerDb)"
    by (simp add: exampleLedgerDb_def)
  have a: "le_amount (exampleEntry ''1000'' DEBIT 1000) \<noteq> 0"
    by (simp add: exampleEntry_def)
  from recordEntries_fewer_than_two[of "[exampleEntry ''1000'' DEBIT 1000]" "''txn-123''"
      exampleLedgerDb "exampleEntry ''1000'' DEBIT 1000" 0] k a
  show ?thesis by simp
qed

section \<open>Reconciliation: counting and report status\<close>



lemma providerStep_unfold:
  "providerStep num lm (ds, m, i) r =
     (case lm (sr_transactionId r) of
        None \<Rightarrow> (ds @ [missingInDb i r], m, i + 1)
      | Some t \<Rightarrow>
          if num (tx_amount t) \<noteq> sr_amount r
          then (if statusName (tx_status t) \<noteq> sr_status r
                then (ds @ [amountMismatch num i r t, statusMismatch (i + 1) r t], m, i + 2)
                else (ds @ [amountMismatch num i r t], m, i + 1))
          else (if statusName (tx_status t) \<noteq> sr_status r
                then (ds @ [statusMismatch i r t], m, i + 1)
                else (ds, m + 1, i)))"
  by (simp add: providerStep_def split: option.splits)

lemma disc_tid [simp]:
  "d_transactionId (missingInDb i r) = sr_transactionId r"
  "d_transactionId (amountMismatch num i r t) = sr_transactionId r"
  "d_transactionId (statusMismatch i r t) = sr_transactionId r"
  "d_transactionId (missingInProvider num i t) = tx_id t"
  by (simp_all add: missingInDb_def amountMismatch_def statusMismatch_def missingInProvider_def)

lemma disc_unresolved [simp]:
  "d_resolution (missingInDb i r) = None"
  "d_resolution (amountMismatch num i r t) = None"
  "d_resolution (statusMismatch i r t) = None"
  "d_resolution (missingInProvider num i t) = None"
  by (simp_all add: missingInDb_def amountMismatch_def statusMismatch_def missingInProvider_def)



lemma providerStep_matched:
  "fst (snd (providerStep num lm (ds, m, i) r)) = m + (if isMatch num lm r then 1 else 0)"
  by (simp add: providerStep_unfold isMatch_def split: option.splits)

lemma providerStep_tids:
  "d_transactionId ` set (fst (providerStep num lm (ds, m, i) r))
     = d_transactionId ` set ds \<union> (if isMatch num lm r then {} else {sr_transactionId r})"
  by (auto simp: providerStep_unfold isMatch_def split: option.splits)

lemma providerStep_length:
  "length (fst (providerStep num lm (ds, m, i) r))
     = length ds + (if isMatch num lm r then 0 else if doubleMismatch num lm r then 2 else 1)"
  by (simp add: providerStep_unfold isMatch_def doubleMismatch_def split: option.splits)

lemma providerStep_unresolved:
  "list_all (\<lambda>d. d_resolution d = None) ds
     \<Longrightarrow> list_all (\<lambda>d. d_resolution d = None) (fst (providerStep num lm (ds, m, i) r))"
  by (simp add: providerStep_unfold split: option.splits)

lemma providerLoop_matched:
  "fst (snd (foldl (providerStep num lm) (ds, m, i) sd)) = m + length (filter (isMatch num lm) sd)"
proof (induction sd arbitrary: ds m i)
  case Nil
  show ?case by simp
next
  case (Cons r sd)
  obtain ds' m' i' where s: "providerStep num lm (ds, m, i) r = (ds', m', i')"
    by (cases "providerStep num lm (ds, m, i) r") auto
  have "m' = m + (if isMatch num lm r then 1 else 0)"
    using providerStep_matched[of num lm ds m i r] s by simp
  then show ?case using Cons.IH[of ds' m' i'] s by simp
qed

lemma providerLoop_tids:
  "d_transactionId ` set (fst (foldl (providerStep num lm) (ds, m, i) sd))
     = d_transactionId ` set ds \<union> sr_transactionId ` {r \<in> set sd. \<not> isMatch num lm r}"
proof (induction sd arbitrary: ds m i)
  case Nil
  show ?case by simp
next
  case (Cons r sd)
  obtain ds' m' i' where s: "providerStep num lm (ds, m, i) r = (ds', m', i')"
    by (cases "providerStep num lm (ds, m, i) r") auto
  have "d_transactionId ` set ds'
     = d_transactionId ` set ds \<union> (if isMatch num lm r then {} else {sr_transactionId r})"
    using providerStep_tids[of num lm ds m i r] s by simp
  then show ?case using Cons.IH[of ds' m' i'] s by auto
qed

lemma providerLoop_length:
  "length (fst (foldl (providerStep num lm) (ds, m, i) sd))
     \<ge> length ds + length (filter (\<lambda>r. \<not> isMatch num lm r) sd)
         + (if \<exists>r \<in> set sd. doubleMismatch num lm r then 1 else 0)"
proof (induction sd arbitrary: ds m i)
  case Nil
  show ?case by simp
next
  case (Cons r sd)
  obtain ds' m' i' where s: "providerStep num lm (ds, m, i) r = (ds', m', i')"
    by (cases "providerStep num lm (ds, m, i) r") auto
  have l: "length ds' = length ds + (if isMatch num lm r then 0 else if doubleMismatch num lm r then 2 else 1)"
    using providerStep_length[of num lm ds m i r] s by simp
  have dm: "doubleMismatch num lm r \<Longrightarrow> \<not> isMatch num lm r"
    by (auto simp: doubleMismatch_def isMatch_def split: option.splits)
  show ?case using Cons.IH[of ds' m' i'] s l dm by (auto split: if_splits)
qed

lemma providerLoop_unresolved:
  "list_all (\<lambda>d. d_resolution d = None) ds
     \<Longrightarrow> list_all (\<lambda>d. d_resolution d = None) (fst (foldl (providerStep num lm) (ds, m, i) sd))"
proof (induction sd arbitrary: ds m i)
  case Nil
  then show ?case by simp
next
  case (Cons r sd)
  obtain ds' m' i' where s: "providerStep num lm (ds, m, i) r = (ds', m', i')"
    by (cases "providerStep num lm (ds, m, i) r") auto
  have "list_all (\<lambda>d. d_resolution d = None) ds'"
    using providerStep_unresolved[OF Cons.prems, of num lm m i r] s by simp
  then show ?case using Cons.IH[of ds' m' i'] s by simp
qed

lemma localLoop_tids:
  "d_transactionId ` set (fst (foldl (localStep num sd) (ds, i) ls))
     = d_transactionId ` set ds
       \<union> (tx_id ` set ls - sr_transactionId ` set sd)"
  by (induction ls arbitrary: ds i) (auto simp: localStep_def)

lemma localLoop_length:
  "length (fst (foldl (localStep num sd) (ds, i) ls))
     = length ds + length (filter (\<lambda>t. tx_id t \<notin> set (map sr_transactionId sd)) ls)"
  by (induction ls arbitrary: ds i) (auto simp: localStep_def)

lemma localLoop_unresolved:
  "list_all (\<lambda>d. d_resolution d = None) ds
     \<Longrightarrow> list_all (\<lambda>d. d_resolution d = None) (fst (foldl (localStep num sd) (ds, i) ls))"
  by (induction ls arbitrary: ds i) (auto simp: localStep_def)



lemma reconcile_discrepancies:
  "rd_discrepancies (fst (reconcile num now newId db request)) = fst (loop2 num db request)"
  by (simp add: reconcile_def Let_def toReportDetail_def loop1_def loop2_def split: prod.splits)

lemma reconcile_matched:
  "rd_matchedTransactions (fst (reconcile num now newId db request))
     = length (countedMatched num db request)"
proof -
  have "rd_matchedTransactions (fst (reconcile num now newId db request))
          = fst (snd (loop1 num db request))"
    by (simp add: reconcile_def Let_def toReportDetail_def loop1_def split: prod.splits)
  then show ?thesis
    by (simp add: loop1_def providerLoop_matched countedMatched_def)
qed

lemma reconcile_unmatched:
  "rd_unmatchedTransactions (fst (reconcile num now newId db request))
     = length (rd_discrepancies (fst (reconcile num now newId db request)))"
  by (simp add: reconcile_def Let_def toReportDetail_def split: prod.splits)

lemma reconcile_total:
  "rd_totalTransactions (fst (reconcile num now newId db request))
     = card (providerIds request \<union> localIds db request)"
  by (simp add: reconcile_def Let_def toReportDetail_def providerIds_def localIds_def
      length_remdups_card_conv split: prod.splits)

lemma reconcile_status:
  "rd_status (fst (reconcile num now newId db request))
     = (if rd_discrepancies (fst (reconcile num now newId db request)) = []
        then R_COMPLETED else R_REQUIRES_REVIEW)"
  by (simp add: reconcile_def Let_def toReportDetail_def split: prod.splits)

lemma reconcile_tids:
  "d_transactionId ` set (rd_discrepancies (fst (reconcile num now newId db request)))
     = sr_transactionId ` {r \<in> set (rq_settlementData request).
            \<not> isMatch num (localMapOf (findLocalTransactions db request)) r}
       \<union> (localIds db request - providerIds request)"
proof -
  obtain ds m i where l1: "loop1 num db request = (ds, m, i)"
    by (cases "loop1 num db request") auto
  have "d_transactionId ` set ds
      = sr_transactionId ` {r \<in> set (rq_settlementData request).
            \<not> isMatch num (localMapOf (findLocalTransactions db request)) r}"
    using providerLoop_tids[of num "localMapOf (findLocalTransactions db request)" "[]" 0 0
        "rq_settlementData request"] l1
    by (simp add: loop1_def)
  then show ?thesis
    unfolding reconcile_discrepancies loop2_def l1
    by (auto simp: localLoop_tids localIds_def providerIds_def)
qed

lemma reconcile_unresolved:
  "list_all (\<lambda>d. d_resolution d = None) (rd_discrepancies (fst (reconcile num now newId db request)))"
proof -
  obtain ds m i where l1: "loop1 num db request = (ds, m, i)"
    by (cases "loop1 num db request") auto
  have "list_all (\<lambda>d. d_resolution d = None) ds"
    using providerLoop_unresolved[of "[]" num "localMapOf (findLocalTransactions db request)" 0 0
        "rq_settlementData request"] l1
    by (simp add: loop1_def)
  then show ?thesis
    unfolding reconcile_discrepancies loop2_def l1
    by (simp add: localLoop_unresolved)
qed

lemma reconcile_length_ge:
  "length (rd_discrepancies (fst (reconcile num now newId db request)))
     \<ge> length (filter (\<lambda>r. \<not> isMatch num (localMapOf (findLocalTransactions db request)) r)
            (rq_settlementData request))
       + (if \<exists>r \<in> set (rq_settlementData request).
               doubleMismatch num (localMapOf (findLocalTransactions db request)) r then 1 else 0)
       + length (filter (\<lambda>t. tx_id t \<notin> set (map sr_transactionId (rq_settlementData request)))
            (findLocalTransactions db request))"
proof -
  obtain ds m i where l1: "loop1 num db request = (ds, m, i)"
    by (cases "loop1 num db request") auto
  have "length ds \<ge> length (filter (\<lambda>r. \<not> isMatch num (localMapOf (findLocalTransactions db request)) r)
            (rq_settlementData request))
       + (if \<exists>r \<in> set (rq_settlementData request).
               doubleMismatch num (localMapOf (findLocalTransactions db request)) r then 1 else 0)"
    using providerLoop_length[of "[]" num "localMapOf (findLocalTransactions db request)"
        "rq_settlementData request" 0 0] l1
    by (simp add: loop1_def)
  then show ?thesis
    unfolding reconcile_discrepancies loop2_def l1
    by (simp add: localLoop_length)
qed

lemma reconcile_reports:
  "\<exists>report. rdb_reports (snd (reconcile num now newId db request)) = rdb_reports db @ [report]
      \<and> rdb_transactions (snd (reconcile num now newId db request)) = rdb_transactions db
      \<and> rp_status report = rd_status (fst (reconcile num now newId db request))
      \<and> rp_discrepancies report = rd_discrepancies (fst (reconcile num now newId db request))
      \<and> rp_reviewedAt report = None \<and> rp_reviewedBy report = None \<and> rp_id report = newId"
  by (simp add: reconcile_def Let_def toReportDetail_def split: prod.splits)

lemma example_locals:
  "findLocalTransactions exampleReconDb (exampleRequest sd)
     = [exampleTxn ''t1'' 900 COMPLETED, exampleTxn ''t3'' 700 COMPLETED]"
  by (simp add: findLocalTransactions_def exampleReconDb_def exampleRequest_def exampleTxn_def)

lemma example_localMap:
  "localMapOf [exampleTxn ''t1'' 900 COMPLETED, exampleTxn ''t3'' 700 COMPLETED] ''t1''
     = Some (exampleTxn ''t1'' 900 COMPLETED)"
  "localMapOf [exampleTxn ''t1'' 900 COMPLETED, exampleTxn ''t3'' 700 COMPLETED] ''t2'' = None"
  by (simp_all add: localMapOf_def exampleTxn_def)

lemma example_txn_fields [simp]:
  "tx_id (exampleTxn i a s) = i" "tx_amount (exampleTxn i a s) = a" "tx_status (exampleTxn i a s) = s"
  by (simp_all add: exampleTxn_def)

lemma example_record_fields [simp]:
  "sr_transactionId (exampleRecord i a s) = i" "sr_amount (exampleRecord i a s) = a"
  "sr_status (exampleRecord i a s) = s"
  by (simp_all add: exampleRecord_def)

lemma example_request_fields [simp]:
  "rq_settlementData (exampleRequest sd) = sd"
  by (simp add: exampleRequest_def)

lemma dup_loop1:
  "loop1 id exampleReconDb (exampleRequest duplicateSettlement)
     = ([amountMismatch id 0 (exampleRecord ''t1'' 1000 ''COMPLETED'') (exampleTxn ''t1'' 900 COMPLETED)], 1, 1)"
  by (simp add: loop1_def example_locals duplicateSettlement_def providerStep_unfold example_localMap)

lemma dup_loop2:
  "loop2 id exampleReconDb (exampleRequest duplicateSettlement)
     = ([amountMismatch id 0 (exampleRecord ''t1'' 1000 ''COMPLETED'') (exampleTxn ''t1'' 900 COMPLETED),
         missingInProvider id 1 (exampleTxn ''t3'' 700 COMPLETED)], 2)"
  unfolding loop2_def dup_loop1
  by (simp add: example_locals localStep_def duplicateSettlement_def)

lemma dup_matched:
  "rd_matchedTransactions (fst (reconcile id 0 ''r1'' exampleReconDb (exampleRequest duplicateSettlement))) = 1"
  by (simp add: reconcile_matched countedMatched_def example_locals duplicateSettlement_def
      isMatch_def example_localMap)

text \<open>
  C6, as the specification states it, fails when the settlement data names a
  transaction id twice: \<open>matched\<close> is counted per provider record. Here \<open>t1\<close> has an
  amount mismatch raised for it by its first line and is counted as matched by its
  second.
\<close>

theorem reconcile_duplicate_counted_matched:
  "rd_matchedTransactions (fst (reconcile id 0 ''r1'' exampleReconDb (exampleRequest duplicateSettlement))) = 1
   \<and> countedMatched id exampleReconDb (exampleRequest duplicateSettlement) = [''t1'']
   \<and> map (\<lambda>d. (d_transactionId d, d_type d))
         (rd_discrepancies (fst (reconcile id 0 ''r1'' exampleReconDb (exampleRequest duplicateSettlement))))
       = [(''t1'', AMOUNT_MISMATCH), (''t3'', MISSING_IN_PROVIDER)]
   \<and> {i \<in> providerIds (exampleRequest duplicateSettlement)
             \<union> localIds exampleReconDb (exampleRequest duplicateSettlement).
         \<not> (\<exists>d \<in> set (rd_discrepancies
                 (fst (reconcile id 0 ''r1'' exampleReconDb (exampleRequest duplicateSettlement)))).
               d_transactionId d = i)} = {}"
proof -
  have c: "countedMatched id exampleReconDb (exampleRequest duplicateSettlement) = [''t1'']"
    by (simp add: countedMatched_def example_locals duplicateSettlement_def isMatch_def example_localMap)
  have d: "rd_discrepancies (fst (reconcile id 0 ''r1'' exampleReconDb (exampleRequest duplicateSettlement)))
      = [amountMismatch id 0 (exampleRecord ''t1'' 1000 ''COMPLETED'') (exampleTxn ''t1'' 900 COMPLETED),
         missingInProvider id 1 (exampleTxn ''t3'' 700 COMPLETED)]"
    by (simp add: reconcile_discrepancies dup_loop2)
  have i: "providerIds (exampleRequest duplicateSettlement)
             \<union> localIds exampleReconDb (exampleRequest duplicateSettlement) = {''t1'', ''t3''}"
    by (auto simp: providerIds_def localIds_def example_locals duplicateSettlement_def)
  show ?thesis
    unfolding d i using dup_matched c
    by (auto simp: amountMismatch_def missingInProvider_def)
qed

lemma counted_set:
  "set (countedMatched num db request)
     = sr_transactionId ` {r \<in> set (rq_settlementData request).
          isMatch num (localMapOf (findLocalTransactions db request)) r}"
  by (auto simp: countedMatched_def)

lemma counted_distinct:
  "distinct (map sr_transactionId (rq_settlementData request))
     \<Longrightarrow> distinct (countedMatched num db request)"
  by (simp add: countedMatched_def distinct_map_filter)

lemma accounted_for:
  assumes "i \<in> providerIds request \<union> localIds db request"
  shows "i \<in> set (countedMatched num db request)
     \<or> (\<exists>d \<in> set (rd_discrepancies (fst (reconcile num now newId db request))). d_transactionId d = i)"
proof (cases "i \<in> providerIds request")
  case True
  then obtain r where r: "r \<in> set (rq_settlementData request)" "sr_transactionId r = i"
    by (auto simp: providerIds_def)
  show ?thesis
  proof (cases "isMatch num (localMapOf (findLocalTransactions db request)) r")
    case True
    then have "i \<in> set (countedMatched num db request)"
      using r unfolding counted_set by blast
    then show ?thesis by simp
  next
    case False
    then have "i \<in> d_transactionId ` set (rd_discrepancies (fst (reconcile num now newId db request)))"
      using r unfolding reconcile_tids by blast
    then show ?thesis by auto
  qed
next
  case False
  then have "i \<in> localIds db request - providerIds request" using assms by simp
  then have "i \<in> d_transactionId ` set (rd_discrepancies (fst (reconcile num now newId db request)))"
    unfolding reconcile_tids by blast
  then show ?thesis by auto
qed

lemma counted_iff:
  assumes "distinct (map sr_transactionId (rq_settlementData request))"
  shows "set (countedMatched num db request)
     = {i \<in> providerIds request \<union> localIds db request.
          \<not> (\<exists>d \<in> set (rd_discrepancies (fst (reconcile num now newId db request))).
                d_transactionId d = i)}"
proof (rule set_eqI, rule iffI)
  fix i assume a: "i \<in> set (countedMatched num db request)"
  then obtain r where r: "r \<in> set (rq_settlementData request)" "sr_transactionId r = i"
      "isMatch num (localMapOf (findLocalTransactions db request)) r"
    unfolding counted_set by blast
  have p: "i \<in> providerIds request" using r by (auto simp: providerIds_def)
  have "i \<notin> d_transactionId ` set (rd_discrepancies (fst (reconcile num now newId db request)))"
  proof
    assume "i \<in> d_transactionId ` set (rd_discrepancies (fst (reconcile num now newId db request)))"
    then have "i \<in> sr_transactionId ` {r \<in> set (rq_settlementData request).
            \<not> isMatch num (localMapOf (findLocalTransactions db request)) r}"
      using p unfolding reconcile_tids by blast
    then obtain r' where r': "r' \<in> set (rq_settlementData request)" "sr_transactionId r' = i"
      "\<not> isMatch num (localMapOf (findLocalTransactions db request)) r'"
      by blast
    have "inj_on sr_transactionId (set (rq_settlementData request))"
      using assms by (simp add: distinct_map)
    then have "r' = r" using r r' by (auto dest: inj_onD)
    then show False using r r' by simp
  qed
  then show "i \<in> {i \<in> providerIds request \<union> localIds db request.
          \<not> (\<exists>d \<in> set (rd_discrepancies (fst (reconcile num now newId db request))).
                d_transactionId d = i)}"
    using p by auto
next
  fix i assume "i \<in> {i \<in> providerIds request \<union> localIds db request.
          \<not> (\<exists>d \<in> set (rd_discrepancies (fst (reconcile num now newId db request))).
                d_transactionId d = i)}"
  then show "i \<in> set (countedMatched num db request)"
    using accounted_for[of i request db num now newId] by auto
qed

text \<open>
  C6, amended. For every reconcile run, \<open>totalTransactions\<close> is the size of the union of
  the provider and local id sets, and every id of the union is either counted as matched
  or named by a discrepancy. When the settlement data names each transaction id at most
  once, an id is counted in \<open>matchedTransactions\<close> exactly when no discrepancy of any
  type was raised for it, and \<open>matchedTransactions\<close> is the number of such ids.
\<close>

theorem reconcile_counts:
  "(let report = fst (reconcile num now newId db request);
        ids = providerIds request \<union> localIds db request;
        clean = {i \<in> ids. \<not> (\<exists>d \<in> set (rd_discrepancies report). d_transactionId d = i)}
    in rd_totalTransactions report = card ids
       \<and> rd_matchedTransactions report = length (countedMatched num db request)
       \<and> (\<forall>i \<in> ids. i \<in> set (countedMatched num db request)
              \<or> (\<exists>d \<in> set (rd_discrepancies report). d_transactionId d = i))
       \<and> (distinct (map sr_transactionId (rq_settlementData request))
            \<longrightarrow> set (countedMatched num db request) = clean
                \<and> distinct (countedMatched num db request)
                \<and> rd_matchedTransactions report = card clean))"
proof -
  let ?report = "fst (reconcile num now newId db request)"
  let ?ids = "providerIds request \<union> localIds db request"
  let ?clean = "{i \<in> ?ids. \<not> (\<exists>d \<in> set (rd_discrepancies ?report). d_transactionId d = i)}"
  let ?counted = "countedMatched num db request"
  have t: "rd_totalTransactions ?report = card ?ids" by (rule reconcile_total)
  have m: "rd_matchedTransactions ?report = length ?counted" by (rule reconcile_matched)
  have a: "\<forall>i \<in> ?ids. i \<in> set ?counted
              \<or> (\<exists>d \<in> set (rd_discrepancies ?report). d_transactionId d = i)"
    using accounted_for[of _ request db num now newId] by blast
  have d: "distinct (map sr_transactionId (rq_settlementData request))
            \<longrightarrow> set ?counted = ?clean \<and> distinct ?counted
                \<and> rd_matchedTransactions ?report = card ?clean"
  proof
    assume h: "distinct (map sr_transactionId (rq_settlementData request))"
    have s: "set ?counted = ?clean" using h by (rule counted_iff)
    have dc: "distinct ?counted" using h by (rule counted_distinct)
    have "length ?counted = card (set ?counted)" using dc by (simp add: distinct_card)
    then have "rd_matchedTransactions ?report = card ?clean" using m s by simp
    with s dc show "set ?counted = ?clean \<and> distinct ?counted
                \<and> rd_matchedTransactions ?report = card ?clean" by blast
  qed
  from t m a d show ?thesis unfolding Let_def by blast
qed

theorem reconcile_counts_witness:
  "distinct (map sr_transactionId (rq_settlementData (exampleRequest distinctSettlement)))
   \<and> providerIds (exampleRequest distinctSettlement)
        \<union> localIds exampleReconDb (exampleRequest distinctSettlement) = {''t1'', ''t2'', ''t3''}
   \<and> rd_totalTransactions (fst (reconcile id 0 ''r1'' exampleReconDb (exampleRequest distinctSettlement))) = 3
   \<and> countedMatched id exampleReconDb (exampleRequest distinctSettlement) = [''t1'']
   \<and> rd_matchedTransactions (fst (reconcile id 0 ''r1'' exampleReconDb (exampleRequest distinctSettlement))) = 1
   \<and> {i \<in> providerIds (exampleRequest distinctSettlement)
             \<union> localIds exampleReconDb (exampleRequest distinctSettlement).
         \<not> (\<exists>d \<in> set (rd_discrepancies
                 (fst (reconcile id 0 ''r1'' exampleReconDb (exampleRequest distinctSettlement)))).
               d_transactionId d = i)} = {''t1''}"
proof -
  have h: "distinct (map sr_transactionId (rq_settlementData (exampleRequest distinctSettlement)))"
    by (simp add: distinctSettlement_def)
  have i: "providerIds (exampleRequest distinctSettlement)
        \<union> localIds exampleReconDb (exampleRequest distinctSettlement) = {''t1'', ''t2'', ''t3''}"
    by (auto simp: providerIds_def localIds_def example_locals distinctSettlement_def)
  have c: "countedMatched id exampleReconDb (exampleRequest distinctSettlement) = [''t1'']"
    by (simp add: countedMatched_def example_locals distinctSettlement_def isMatch_def example_localMap)
  have n: "card {''t1'', ''t2'', ''t3''} = 3" by simp
  from reconcile_counts[of id 0 "''r1''" exampleReconDb "exampleRequest distinctSettlement"] h
  show ?thesis
    unfolding Let_def i c n by simp
qed

text \<open>
  C10. The report's \<open>unmatchedTransactions\<close> is the number of discrepancy records, one
  per discrepancy and not one per transaction id; so whenever some settlement line
  differs from its local transaction in both amount and status,
  \<open>matchedTransactions + unmatchedTransactions\<close> exceeds \<open>totalTransactions\<close>.
\<close>

theorem unmatched_counts_discrepancy_records:
  "(let report = fst (reconcile num now newId db request)
    in rd_unmatchedTransactions report = length (rd_discrepancies report)
       \<and> ((\<exists>r \<in> set (rq_settlementData request).
               doubleMismatch num (localMapOf (findLocalTransactions db request)) r)
            \<longrightarrow> rd_totalTransactions report
                  < rd_matchedTransactions report + rd_unmatchedTransactions report))"
proof -
  let ?report = "fst (reconcile num now newId db request)"
  let ?sd = "rq_settlementData request"
  let ?ls = "findLocalTransactions db request"
  let ?lm = "localMapOf ?ls"
  let ?rest = "filter (\<lambda>t. tx_id t \<notin> set (map sr_transactionId ?sd)) ?ls"
  have u: "rd_unmatchedTransactions ?report = length (rd_discrepancies ?report)"
    by (rule reconcile_unmatched)
  have gt: "rd_totalTransactions ?report < rd_matchedTransactions ?report + rd_unmatchedTransactions ?report"
    if dm: "\<exists>r \<in> set ?sd. doubleMismatch num ?lm r"
  proof -
    have split: "length (filter (isMatch num ?lm) ?sd) + length (filter (\<lambda>r. \<not> isMatch num ?lm r) ?sd)
                   = length ?sd"
      by (rule sum_length_filter_compl)
    have ge: "length (rd_discrepancies ?report)
                \<ge> length (filter (\<lambda>r. \<not> isMatch num ?lm r) ?sd) + 1 + length ?rest"
      using reconcile_length_ge[of num db request now newId] dm by simp
    have m: "rd_matchedTransactions ?report = length (filter (isMatch num ?lm) ?sd)"
      by (simp add: reconcile_matched countedMatched_def)
    have ids: "providerIds request \<union> localIds db request
                = set (map sr_transactionId ?sd) \<union> set (map tx_id ?rest)"
      by (auto simp: providerIds_def localIds_def)
    have "card (providerIds request \<union> localIds db request)
            \<le> card (set (map sr_transactionId ?sd)) + card (set (map tx_id ?rest))"
      unfolding ids by (rule card_Un_le)
    also have "\<dots> \<le> length (map sr_transactionId ?sd) + length (map tx_id ?rest)"
      by (intro add_mono card_length)
    finally have "rd_totalTransactions ?report \<le> length ?sd + length ?rest"
      by (simp add: reconcile_total)
    then show ?thesis using split ge m u by linarith
  qed
  from u gt show ?thesis unfolding Let_def by blast
qed

theorem unmatched_counts_discrepancy_records_witness:
  "doubleMismatch id (localMapOf (findLocalTransactions exampleReconDb (exampleRequest doubleSettlement)))
       (exampleRecord ''t1'' 1000 ''FAILED'')
   \<and> exampleRecord ''t1'' 1000 ''FAILED'' \<in> set (rq_settlementData (exampleRequest doubleSettlement))
   \<and> rd_totalTransactions (fst (reconcile id 0 ''r1'' exampleReconDb (exampleRequest doubleSettlement))) = 2
   \<and> rd_matchedTransactions (fst (reconcile id 0 ''r1'' exampleReconDb (exampleRequest doubleSettlement))) = 0
   \<and> rd_unmatchedTransactions (fst (reconcile id 0 ''r1'' exampleReconDb (exampleRequest doubleSettlement)))
        = length (rd_discrepancies (fst (reconcile id 0 ''r1'' exampleReconDb (exampleRequest doubleSettlement))))
   \<and> rd_totalTransactions (fst (reconcile id 0 ''r1'' exampleReconDb (exampleRequest doubleSettlement)))
        < rd_matchedTransactions (fst (reconcile id 0 ''r1'' exampleReconDb (exampleRequest doubleSettlement)))
          + rd_unmatchedTransactions (fst (reconcile id 0 ''r1'' exampleReconDb (exampleRequest doubleSettlement)))"
proof -
  have dm: "doubleMismatch id (localMapOf (findLocalTransactions exampleReconDb (exampleRequest doubleSettlement)))
       (exampleRecord ''t1'' 1000 ''FAILED'')"
    by (simp add: doubleMismatch_def example_locals example_localMap)
  have mem: "exampleRecord ''t1'' 1000 ''FAILED'' \<in> set (rq_settlementData (exampleRequest doubleSettlement))"
    by (simp add: doubleSettlement_def)
  have t: "rd_totalTransactions (fst (reconcile id 0 ''r1'' exampleReconDb (exampleRequest doubleSettlement))) = 2"
    by (simp add: reconcile_total providerIds_def localIds_def example_locals doubleSettlement_def
        card_insert_if)
  have m: "rd_matchedTransactions (fst (reconcile id 0 ''r1'' exampleReconDb (exampleRequest doubleSettlement))) = 0"
    by (simp add: reconcile_matched countedMatched_def example_locals doubleSettlement_def
        isMatch_def example_localMap)
  from unmatched_counts_discrepancy_records[of id 0 "''r1''" exampleReconDb "exampleRequest doubleSettlement"]
    dm mem t m
  show ?thesis unfolding Let_def by blast
qed

lemma findIndex_Some:
  "findIndex p xs = Some k \<Longrightarrow> k < length xs \<and> p (xs ! k)"
proof (induction xs arbitrary: k)
  case Nil
  then show ?case by simp
next
  case (Cons x xs)
  then show ?case
    by (cases "p x") (auto split: option.splits)
qed

lemma list_all_update_others:
  assumes "k < length xs" "resolved x"
  shows "list_all resolved (xs[k := x]) = (\<forall>j < length xs. j \<noteq> k \<longrightarrow> resolved (xs ! j))"
  using assms by (auto simp: list_all_length nth_list_update)

lemma find_map_updated:
  assumes "find (\<lambda>r. rp_id r = i) rs = Some r" "rp_id u = i"
  shows "find (\<lambda>r. rp_id r = i) (map (\<lambda>r. if rp_id r = i then u else r) rs) = Some u"
  using assms by (induction rs) (auto split: if_splits)

lemma reconcile_invariant:
  "reportInvariant r" if "rp_status r = rd_status (fst (reconcile num now newId db request))"
    "rp_discrepancies r = rd_discrepancies (fst (reconcile num now newId db request))"
proof -
  have u: "list_all (\<lambda>d. \<not> resolved d) (rd_discrepancies (fst (reconcile num now newId db request)))"
    using reconcile_unresolved[of num now newId db request] by (simp add: resolved_def)
  have "list_all resolved (rd_discrepancies (fst (reconcile num now newId db request)))
          = (rd_discrepancies (fst (reconcile num now newId db request)) = [])"
    using u by (cases "rd_discrepancies (fst (reconcile num now newId db request))") auto
  then show ?thesis
    using that by (simp add: reportInvariant_def reconcile_status)
qed



lemma resolve_result:
  assumes f: "find (\<lambda>r. rp_id r = reportId) (rdb_reports db) = Some report"
    and i: "findIndex (\<lambda>d. d_id d = discrepancyId) (rp_discrepancies report) = Some k"
  shows "resolveDiscrepancy now db reportId discrepancyId resolution resolvedBy
     = (let ds = (rp_discrepancies report)
                   [k := (rp_discrepancies report ! k)\<lparr> d_resolution := Some resolution,
                           d_resolvedAt := Some now, d_resolvedBy := resolvedBy \<rparr>];
            updated = report\<lparr> rp_discrepancies := ds,
               rp_status := (if list_all resolved ds then R_COMPLETED else R_REQUIRES_REVIEW),
               rp_reviewedAt := (if list_all resolved ds then Some now else rp_reviewedAt report),
               rp_reviewedBy := (if list_all resolved ds \<and> resolvedBy \<noteq> None then resolvedBy
                                 else rp_reviewedBy report) \<rparr>
        in (Inr (toReportDetail updated ds),
            db\<lparr>rdb_reports := map (\<lambda>r. if rp_id r = reportId then updated else r) (rdb_reports db)\<rparr>))"
  unfolding resolveDiscrepancy_def f i option.case Let_def
  by (rule refl)


lemma resolve_fields:
  assumes f: "find (\<lambda>r. rp_id r = reportId) (rdb_reports db) = Some report"
    and i: "findIndex (\<lambda>d. d_id d = discrepancyId) (rp_discrepancies report) = Some k"
  shows "\<exists>detail updated.
      fst (resolveDiscrepancy now db reportId discrepancyId resolution resolvedBy) = Inr detail
    \<and> rdb_reports (snd (resolveDiscrepancy now db reportId discrepancyId resolution resolvedBy))
        = map (\<lambda>r. if rp_id r = reportId then updated else r) (rdb_reports db)
    \<and> rp_id updated = reportId
    \<and> rd_discrepancies detail = (rp_discrepancies report)
          [k := (rp_discrepancies report ! k)\<lparr> d_resolution := Some resolution,
                  d_resolvedAt := Some now, d_resolvedBy := resolvedBy \<rparr>]
    \<and> rp_discrepancies updated = rd_discrepancies detail
    \<and> rd_status detail = rp_status updated
    \<and> rp_status updated = (if list_all resolved (rd_discrepancies detail)
                             then R_COMPLETED else R_REQUIRES_REVIEW)
    \<and> rp_reviewedAt updated = (if list_all resolved (rd_discrepancies detail)
                                 then Some now else rp_reviewedAt report)
    \<and> rp_reviewedBy updated = (if list_all resolved (rd_discrepancies detail) \<and> resolvedBy \<noteq> None
                                 then resolvedBy else rp_reviewedBy report)"
proof -
  define ds where "ds = (rp_discrepancies report)
          [k := (rp_discrepancies report ! k)\<lparr> d_resolution := Some resolution,
                  d_resolvedAt := Some now, d_resolvedBy := resolvedBy \<rparr>]"
  define updated where "updated = report\<lparr> rp_discrepancies := ds,
               rp_status := (if list_all resolved ds then R_COMPLETED else R_REQUIRES_REVIEW),
               rp_reviewedAt := (if list_all resolved ds then Some now else rp_reviewedAt report),
               rp_reviewedBy := (if list_all resolved ds \<and> resolvedBy \<noteq> None then resolvedBy
                                 else rp_reviewedBy report) \<rparr>"
  have r: "resolveDiscrepancy now db reportId discrepancyId resolution resolvedBy
     = (Inr (toReportDetail updated ds),
        db\<lparr>rdb_reports := map (\<lambda>r. if rp_id r = reportId then updated else r) (rdb_reports db)\<rparr>)"
    unfolding resolve_result[OF f i] Let_def ds_def updated_def by (rule refl)
  have id: "rp_id report = reportId"
    using f by (auto simp: find_Some_iff)
  have 1: "rp_id updated = reportId" by (simp add: updated_def id)
  have 2: "rd_discrepancies (toReportDetail updated ds) = ds" by (simp add: toReportDetail_def)
  have 3: "rp_discrepancies updated = ds" by (simp add: updated_def)
  have 4: "rd_status (toReportDetail updated ds) = rp_status updated" by (simp add: toReportDetail_def)
  have 5: "rp_status updated = (if list_all resolved ds then R_COMPLETED else R_REQUIRES_REVIEW)"
    by (simp add: updated_def)
  have 6: "rp_reviewedAt updated = (if list_all resolved ds then Some now else rp_reviewedAt report)"
    by (simp add: updated_def)
  have 7: "rp_reviewedBy updated = (if list_all resolved ds \<and> resolvedBy \<noteq> None then resolvedBy
                                    else rp_reviewedBy report)"
    by (simp add: updated_def)
  show ?thesis
    unfolding r fst_conv snd_conv
    apply (rule exI[of _ "toReportDetail updated ds"])
    apply (rule exI[of _ updated])
    unfolding 2 using 1 3 4 5 6 7 by (simp add: ds_def)
qed

lemma resolve_not_found:
  assumes "find (\<lambda>r. rp_id r = reportId) (rdb_reports db) = None
     \<or> (\<exists>report. find (\<lambda>r. rp_id r = reportId) (rdb_reports db) = Some report
           \<and> findIndex (\<lambda>d. d_id d = discrepancyId) (rp_discrepancies report) = None)"
  shows "snd (resolveDiscrepancy now db reportId discrepancyId resolution resolvedBy) = db"
  using assms unfolding resolveDiscrepancy_def by (auto split: option.splits)

lemma resolve_invariant:
  assumes "list_all reportInvariant (rdb_reports db)"
  shows "list_all reportInvariant
           (rdb_reports (snd (resolveDiscrepancy now db reportId discrepancyId resolution resolvedBy)))"
proof (cases "find (\<lambda>r. rp_id r = reportId) (rdb_reports db)")
  case None
  then show ?thesis using assms resolve_not_found[of reportId db] by simp
next
  case (Some report)
  show ?thesis
  proof (cases "findIndex (\<lambda>d. d_id d = discrepancyId) (rp_discrepancies report)")
    case None
    then show ?thesis using assms Some resolve_not_found[of reportId db discrepancyId] by simp
  next
    case (Some k)
    from resolve_fields[OF \<open>find (\<lambda>r. rp_id r = reportId) (rdb_reports db) = Some report\<close> Some,
        of now resolution resolvedBy]
    obtain detail updated where
      "fst (resolveDiscrepancy now db reportId discrepancyId resolution resolvedBy) = Inr detail"
      and m: "rdb_reports (snd (resolveDiscrepancy now db reportId discrepancyId resolution resolvedBy))
            = map (\<lambda>r. if rp_id r = reportId then updated else r) (rdb_reports db)"
      and d: "rp_discrepancies updated = rd_discrepancies detail"
      and s: "rp_status updated = (if list_all resolved (rd_discrepancies detail)
                             then R_COMPLETED else R_REQUIRES_REVIEW)"
      by blast
    have "reportInvariant updated" using d s by (simp add: reportInvariant_def)
    then show ?thesis unfolding m using assms by (auto simp: list_all_iff)
  qed
qed

text \<open>
  C7, as the specification states it, fails when a discrepancy is resolved again. In the
  review of report \<open>r1\<close> both discrepancies are resolved at time 3: the report is
  COMPLETED, reviewed at 3 by \<open>ann\<close>, and no discrepancy is unresolved. Resolving \<open>disc_0\<close>
  once more at time 7 overwrites its resolution and stamps \<open>reviewedAt\<close> again, with 7 and
  \<open>bob\<close> as \<open>reviewedBy\<close>, although the discrepancy resolved was not an unresolved one.
\<close>

theorem resolveDiscrepancy_restamps_completed:
  "map (\<lambda>r. (rp_id r, rp_status r, rp_reviewedAt r, rp_reviewedBy r,
              map (\<lambda>d. (d_id d, d_resolution d, d_resolvedAt d)) (rp_discrepancies r)))
     (rdb_reports allResolvedDb)
     = [(''r1'', R_COMPLETED, Some 3, Some ''ann'',
         [(''disc_0'', Some ignore, Some 2), (''disc_1'', Some ignore, Some 3)])]
   \<and> map (\<lambda>r. (rp_id r, rp_status r, rp_reviewedAt r, rp_reviewedBy r,
                map (\<lambda>d. (d_id d, d_resolution d, d_resolvedAt d)) (rp_discrepancies r)))
       (rdb_reports (snd (resolveDiscrepancy 7 allResolvedDb ''r1'' ''disc_0'' force_match (Some ''bob''))))
     = [(''r1'', R_COMPLETED, Some 7, Some ''bob'',
         [(''disc_0'', Some force_match, Some 7), (''disc_1'', Some ignore, Some 3)])]"
  by code_simp

text \<open>
  C7, amended. A report's status is COMPLETED exactly when every discrepancy in it has a
  resolution, and both operations keep this on every stored report. \<open>reconcile\<close> stores
  the report it returns, with no discrepancy resolved and no review stamp, REQUIRES_REVIEW
  when there is at least one discrepancy and COMPLETED otherwise. \<open>resolveDiscrepancy\<close>
  writes the resolution over the named discrepancy, whatever it held, and stores the
  report it returns: the report is COMPLETED, with \<open>reviewedAt\<close> set to the time of the call
  (and \<open>reviewedBy\<close> to the resolver, if one is named), exactly when every other discrepancy
  of the report has a resolution; otherwise it is REQUIRES_REVIEW and the review stamp is
  left as it was. So the stamp is set when the last unresolved discrepancy is resolved,
  and set again each time a discrepancy of a fully resolved report is resolved again.
\<close>

theorem report_completed_iff_all_resolved:
  "(let created = reconcile num now newId db request
    in (\<exists>report. rdb_reports (snd created) = rdb_reports db @ [report]
          \<and> rp_id report = newId
          \<and> rp_status report = rd_status (fst created)
          \<and> rp_discrepancies report = rd_discrepancies (fst created)
          \<and> rp_reviewedAt report = None \<and> rp_reviewedBy report = None
          \<and> reportInvariant report)
       \<and> (rd_status (fst created) = R_COMPLETED) = list_all resolved (rd_discrepancies (fst created))
       \<and> (rd_status (fst created) = R_REQUIRES_REVIEW) = (rd_discrepancies (fst created) \<noteq> [])
       \<and> list_all (\<lambda>d. \<not> resolved d) (rd_discrepancies (fst created))
       \<and> (list_all reportInvariant (rdb_reports db)
            \<longrightarrow> list_all reportInvariant (rdb_reports (snd created))))
   \<and> (list_all reportInvariant (rdb_reports db)
        \<longrightarrow> list_all reportInvariant
              (rdb_reports (snd (resolveDiscrepancy now db reportId discrepancyId resolution resolvedBy))))
   \<and> (\<forall>report k.
         find (\<lambda>r. rp_id r = reportId) (rdb_reports db) = Some report
         \<and> findIndex (\<lambda>d. d_id d = discrepancyId) (rp_discrepancies report) = Some k
         \<longrightarrow> (let others = (\<forall>j < length (rp_discrepancies report).
                                 j \<noteq> k \<longrightarrow> resolved (rp_discrepancies report ! j));
                  res = resolveDiscrepancy now db reportId discrepancyId resolution resolvedBy
              in \<exists>detail updated.
                   fst res = Inr detail
                   \<and> rdb_reports (snd res)
                       = map (\<lambda>r. if rp_id r = reportId then updated else r) (rdb_reports db)
                   \<and> find (\<lambda>r. rp_id r = reportId) (rdb_reports (snd res)) = Some updated
                   \<and> rd_discrepancies detail = (rp_discrepancies report)
                        [k := (rp_discrepancies report ! k)\<lparr> d_resolution := Some resolution,
                                d_resolvedAt := Some now, d_resolvedBy := resolvedBy \<rparr>]
                   \<and> rp_discrepancies updated = rd_discrepancies detail
                   \<and> rd_status detail = rp_status updated
                   \<and> (rp_status updated = R_COMPLETED) = others
                   \<and> (rp_status updated = R_REQUIRES_REVIEW) = (\<not> others)
                   \<and> rp_reviewedAt updated = (if others then Some now else rp_reviewedAt report)
                   \<and> rp_reviewedBy updated
                       = (if others \<and> resolvedBy \<noteq> None then resolvedBy else rp_reviewedBy report)))"
proof -
  let ?c = "reconcile num now newId db request"
  have u: "list_all (\<lambda>d. \<not> resolved d) (rd_discrepancies (fst ?c))"
    using reconcile_unresolved[of num now newId db request] by (simp add: resolved_def)
  have e: "list_all resolved (rd_discrepancies (fst ?c)) = (rd_discrepancies (fst ?c) = [])"
    using u by (cases "rd_discrepancies (fst ?c)") auto
  have a1: "(rd_status (fst ?c) = R_COMPLETED) = list_all resolved (rd_discrepancies (fst ?c))"
    unfolding e by (simp add: reconcile_status)
  have a2: "(rd_status (fst ?c) = R_REQUIRES_REVIEW) = (rd_discrepancies (fst ?c) \<noteq> [])"
    by (simp add: reconcile_status)
  obtain stored where r: "rdb_reports (snd ?c) = rdb_reports db @ [stored]"
    "rp_status stored = rd_status (fst ?c)" "rp_discrepancies stored = rd_discrepancies (fst ?c)"
    "rp_reviewedAt stored = None" "rp_reviewedBy stored = None" "rp_id stored = newId"
    using reconcile_reports[of num now newId db request] by blast
  have ri: "reportInvariant stored" using r(2,3) by (rule reconcile_invariant)
  have a0: "\<exists>report. rdb_reports (snd ?c) = rdb_reports db @ [report]
          \<and> rp_id report = newId
          \<and> rp_status report = rd_status (fst ?c)
          \<and> rp_discrepancies report = rd_discrepancies (fst ?c)
          \<and> rp_reviewedAt report = None \<and> rp_reviewedBy report = None
          \<and> reportInvariant report"
    using r ri by blast
  have a3: "list_all reportInvariant (rdb_reports db)
            \<longrightarrow> list_all reportInvariant (rdb_reports (snd ?c))"
    using r(1) ri by simp
  have b: "list_all reportInvariant (rdb_reports db)
        \<longrightarrow> list_all reportInvariant
              (rdb_reports (snd (resolveDiscrepancy now db reportId discrepancyId resolution resolvedBy)))"
    using resolve_invariant by blast
  have c: "\<exists>detail updated.
             fst (resolveDiscrepancy now db reportId discrepancyId resolution resolvedBy) = Inr detail
           \<and> rdb_reports (snd (resolveDiscrepancy now db reportId discrepancyId resolution resolvedBy))
               = map (\<lambda>r. if rp_id r = reportId then updated else r) (rdb_reports db)
           \<and> find (\<lambda>r. rp_id r = reportId)
                (rdb_reports (snd (resolveDiscrepancy now db reportId discrepancyId resolution resolvedBy)))
               = Some updated
           \<and> rd_discrepancies detail = (rp_discrepancies report)
                [k := (rp_discrepancies report ! k)\<lparr> d_resolution := Some resolution,
                        d_resolvedAt := Some now, d_resolvedBy := resolvedBy \<rparr>]
           \<and> rp_discrepancies updated = rd_discrepancies detail
           \<and> rd_status detail = rp_status updated
           \<and> (rp_status updated = R_COMPLETED)
               = (\<forall>j < length (rp_discrepancies report). j \<noteq> k \<longrightarrow> resolved (rp_discrepancies report ! j))
           \<and> (rp_status updated = R_REQUIRES_REVIEW)
               = (\<not> (\<forall>j < length (rp_discrepancies report). j \<noteq> k \<longrightarrow> resolved (rp_discrepancies report ! j)))
           \<and> rp_reviewedAt updated
               = (if (\<forall>j < length (rp_discrepancies report). j \<noteq> k \<longrightarrow> resolved (rp_discrepancies report ! j))
                  then Some now else rp_reviewedAt report)
           \<and> rp_reviewedBy updated
               = (if (\<forall>j < length (rp_discrepancies report). j \<noteq> k \<longrightarrow> resolved (rp_discrepancies report ! j))
                     \<and> resolvedBy \<noteq> None
                  then resolvedBy else rp_reviewedBy report)"
    if f: "find (\<lambda>r. rp_id r = reportId) (rdb_reports db) = Some report"
      and i: "findIndex (\<lambda>d. d_id d = discrepancyId) (rp_discrepancies report) = Some k"
    for report k
  proof -
    let ?others = "\<forall>j < length (rp_discrepancies report). j \<noteq> k \<longrightarrow> resolved (rp_discrepancies report ! j)"
    from resolve_fields[OF f i, of now resolution resolvedBy]
    obtain detail updated where
      1: "fst (resolveDiscrepancy now db reportId discrepancyId resolution resolvedBy) = Inr detail"
      and 2: "rdb_reports (snd (resolveDiscrepancy now db reportId discrepancyId resolution resolvedBy))
            = map (\<lambda>r. if rp_id r = reportId then updated else r) (rdb_reports db)"
      and 3: "rp_id updated = reportId"
      and 4: "rd_discrepancies detail = (rp_discrepancies report)
          [k := (rp_discrepancies report ! k)\<lparr> d_resolution := Some resolution,
                  d_resolvedAt := Some now, d_resolvedBy := resolvedBy \<rparr>]"
      and 5: "rp_discrepancies updated = rd_discrepancies detail"
      and 6: "rd_status detail = rp_status updated"
      and 7: "rp_status updated = (if list_all resolved (rd_discrepancies detail)
                             then R_COMPLETED else R_REQUIRES_REVIEW)"
      and 8: "rp_reviewedAt updated = (if list_all resolved (rd_discrepancies detail)
                                 then Some now else rp_reviewedAt report)"
      and 9: "rp_reviewedBy updated = (if list_all resolved (rd_discrepancies detail) \<and> resolvedBy \<noteq> None
                                 then resolvedBy else rp_reviewedBy report)"
      by blast
    have k: "k < length (rp_discrepancies report)" using findIndex_Some[OF i] by simp
    have res: "resolved ((rp_discrepancies report ! k)\<lparr> d_resolution := Some resolution,
                  d_resolvedAt := Some now, d_resolvedBy := resolvedBy \<rparr>)"
      by (simp add: resolved_def)
    have o: "list_all resolved (rd_discrepancies detail) = ?others"
      unfolding 4 using k res by (rule list_all_update_others)
    have fnd: "find (\<lambda>r. rp_id r = reportId)
                (rdb_reports (snd (resolveDiscrepancy now db reportId discrepancyId resolution resolvedBy)))
               = Some updated"
      unfolding 2 using f 3 by (rule find_map_updated)
    have g1: "\<And>P s. s = (if P then R_COMPLETED else R_REQUIRES_REVIEW) \<Longrightarrow> (s = R_COMPLETED) = P"
      by simp
    have g2: "\<And>P s. s = (if P then R_COMPLETED else R_REQUIRES_REVIEW) \<Longrightarrow> (s = R_REQUIRES_REVIEW) = (\<not> P)"
      by simp
    have s1: "(rp_status updated = R_COMPLETED) = ?others" using g1[OF 7] unfolding o .
    have s2: "(rp_status updated = R_REQUIRES_REVIEW) = (\<not> ?others)" using g2[OF 7] unfolding o .
    have s3: "rp_reviewedAt updated = (if ?others then Some now else rp_reviewedAt report)"
      using 8 unfolding o .
    have s4: "rp_reviewedBy updated = (if ?others \<and> resolvedBy \<noteq> None then resolvedBy else rp_reviewedBy report)"
      using 9 unfolding o .
    from 1 2 fnd 4 5 6 s1 s2 s3 s4 show ?thesis by blast
  qed
  from a0 a1 a2 u a3 b c show ?thesis unfolding Let_def by blast
qed

lemma review_run:
  "length (rd_discrepancies (fst (reconcile id 1 ''r1'' exampleReconDb (exampleRequest duplicateSettlement)))) = 2"
  "rdb_reports exampleReconDb = []"
  "case find (\<lambda>r. rp_id r = ''r1'') (rdb_reports createdDb) of
     None \<Rightarrow> False
   | Some report \<Rightarrow>
       findIndex (\<lambda>d. d_id d = ''disc_0'') (rp_discrepancies report) = Some 0
       \<and> map resolved (rp_discrepancies report) = [False, False]
       \<and> rp_reviewedAt report = None"
  "case find (\<lambda>r. rp_id r = ''r1'') (rdb_reports firstResolvedDb) of
     None \<Rightarrow> False
   | Some report \<Rightarrow>
       findIndex (\<lambda>d. d_id d = ''disc_1'') (rp_discrepancies report) = Some 1
       \<and> map resolved (rp_discrepancies report) = [True, False]"
  by code_simp+

lemma others_of_map:
  assumes "map resolved ds = bs"
  shows "(\<forall>j < length ds. j \<noteq> k \<longrightarrow> resolved (ds ! j)) = (\<forall>j < length bs. j \<noteq> k \<longrightarrow> bs ! j)"
proof -
  have l: "length bs = length ds" using assms by auto
  have n: "\<And>j. j < length ds \<Longrightarrow> bs ! j = resolved (ds ! j)" using assms by auto
  show ?thesis unfolding l using n by auto
qed

theorem report_completed_iff_all_resolved_witness:
  "rd_status (fst (reconcile id 1 ''r1'' exampleReconDb (exampleRequest duplicateSettlement)))
     = R_REQUIRES_REVIEW
   \<and> list_all reportInvariant (rdb_reports createdDb)
   \<and> (\<exists>updated. find (\<lambda>r. rp_id r = ''r1'') (rdb_reports firstResolvedDb) = Some updated
         \<and> rp_status updated = R_REQUIRES_REVIEW \<and> rp_reviewedAt updated = None)
   \<and> (\<exists>updated. find (\<lambda>r. rp_id r = ''r1'') (rdb_reports allResolvedDb) = Some updated
         \<and> rp_status updated = R_COMPLETED \<and> rp_reviewedAt updated = Some 3
         \<and> rp_reviewedBy updated = Some ''ann'')
   \<and> list_all reportInvariant (rdb_reports allResolvedDb)"
proof -
  note created = report_completed_iff_all_resolved[of id 1 "''r1''" exampleReconDb
      "exampleRequest duplicateSettlement" "''r1''" "''disc_0''" ignore "Some ''ann''"]
  note first = report_completed_iff_all_resolved[of id 2 "''r2''" createdDb
      "exampleRequest duplicateSettlement" "''r1''" "''disc_0''" ignore "Some ''ann''"]
  note second = report_completed_iff_all_resolved[of id 3 "''r2''" firstResolvedDb
      "exampleRequest duplicateSettlement" "''r1''" "''disc_1''" ignore "Some ''ann''"]
  have ne: "rd_discrepancies (fst (reconcile id 1 ''r1'' exampleReconDb (exampleRequest duplicateSettlement))) \<noteq> []"
    using review_run(1) by auto
  from created ne have a: "rd_status (fst (reconcile id 1 ''r1'' exampleReconDb (exampleRequest duplicateSettlement)))
     = R_REQUIRES_REVIEW"
    unfolding Let_def by blast
  have "list_all reportInvariant (rdb_reports exampleReconDb)" by (simp add: review_run(2))
  with created have i1: "list_all reportInvariant (rdb_reports createdDb)"
    unfolding Let_def createdDb_def by blast
  with first have i2: "list_all reportInvariant (rdb_reports firstResolvedDb)"
    unfolding firstResolvedDb_def by blast
  with second have i3: "list_all reportInvariant (rdb_reports allResolvedDb)"
    unfolding allResolvedDb_def by blast
  from review_run(3) obtain r1 where r1: "find (\<lambda>r. rp_id r = ''r1'') (rdb_reports createdDb) = Some r1"
    "findIndex (\<lambda>d. d_id d = ''disc_0'') (rp_discrepancies r1) = Some 0"
    "map resolved (rp_discrepancies r1) = [False, False]" "rp_reviewedAt r1 = None"
    by (auto split: option.splits)
  have o1: "\<not> (\<forall>j < length (rp_discrepancies r1). j \<noteq> 0 \<longrightarrow> resolved (rp_discrepancies r1 ! j))"
    unfolding others_of_map[OF r1(3)] by (auto intro: exI[of _ 1])
  from first r1(1,2) obtain u1 where u1:
    "find (\<lambda>r. rp_id r = ''r1'') (rdb_reports firstResolvedDb) = Some u1"
    "(rp_status u1 = R_REQUIRES_REVIEW)
       = (\<not> (\<forall>j < length (rp_discrepancies r1). j \<noteq> 0 \<longrightarrow> resolved (rp_discrepancies r1 ! j)))"
    "rp_reviewedAt u1
       = (if (\<forall>j < length (rp_discrepancies r1). j \<noteq> 0 \<longrightarrow> resolved (rp_discrepancies r1 ! j))
          then Some 2 else rp_reviewedAt r1)"
    unfolding Let_def firstResolvedDb_def by blast
  have b: "\<exists>updated. find (\<lambda>r. rp_id r = ''r1'') (rdb_reports firstResolvedDb) = Some updated
         \<and> rp_status updated = R_REQUIRES_REVIEW \<and> rp_reviewedAt updated = None"
    using u1 o1 r1(4) by simp
  from review_run(4) obtain r2 where r2: "find (\<lambda>r. rp_id r = ''r1'') (rdb_reports firstResolvedDb) = Some r2"
    "findIndex (\<lambda>d. d_id d = ''disc_1'') (rp_discrepancies r2) = Some 1"
    "map resolved (rp_discrepancies r2) = [True, False]"
    by (auto split: option.splits)
  have o2: "\<forall>j < length (rp_discrepancies r2). j \<noteq> 1 \<longrightarrow> resolved (rp_discrepancies r2 ! j)"
    unfolding others_of_map[OF r2(3)] by (auto simp: less_Suc_eq)
  from second r2(1,2) obtain u2 where u2:
    "find (\<lambda>r. rp_id r = ''r1'') (rdb_reports allResolvedDb) = Some u2"
    "(rp_status u2 = R_COMPLETED)
       = (\<forall>j < length (rp_discrepancies r2). j \<noteq> 1 \<longrightarrow> resolved (rp_discrepancies r2 ! j))"
    "rp_reviewedAt u2
       = (if (\<forall>j < length (rp_discrepancies r2). j \<noteq> 1 \<longrightarrow> resolved (rp_discrepancies r2 ! j))
          then Some 3 else rp_reviewedAt r2)"
    "rp_reviewedBy u2
       = (if (\<forall>j < length (rp_discrepancies r2). j \<noteq> 1 \<longrightarrow> resolved (rp_discrepancies r2 ! j))
             \<and> Some ''ann'' \<noteq> None
          then Some ''ann'' else rp_reviewedBy r2)"
    unfolding Let_def allResolvedDb_def by blast
  have c: "\<exists>updated. find (\<lambda>r. rp_id r = ''r1'') (rdb_reports allResolvedDb) = Some updated
         \<and> rp_status updated = R_COMPLETED \<and> rp_reviewedAt updated = Some 3
         \<and> rp_reviewedBy updated = Some ''ann''"
    using u2 o2 by simp
  from a i1 b c i3 show ?thesis by blast
qed

section \<open>Routing: rule evaluation and provider selection\<close>

lemma getFieldValue_amount: "getFieldValue ''amount'' context = JBigInt (rc_amount context)"
  by (simp add: getFieldValue_def)

lemma isEqual_fraction: "isEqual js (JBigInt i) (JNum (21 / 2)) = Inl RangeError"
proof -
  have "(21 / 2 :: rat) \<noteq> of_int \<lfloor>21 / 2 :: rat\<rfloor>"
  proof
    assume "(21 / 2 :: rat) = of_int \<lfloor>21 / 2 :: rat\<rfloor>"
    then have "(21 :: rat) = 2 * of_int \<lfloor>21 / 2 :: rat\<rfloor>" by simp
    then have "(21 :: int) = 2 * \<lfloor>21 / 2 :: rat\<rfloor>"
      by (metis of_int_eq_iff of_int_mult of_int_numeral)
    then show False by presburger
  qed
  then show ?thesis by (simp add: isEqual_def)
qed

text \<open>
  C8. Rule evaluation is meant to be total: an error while a condition is evaluated is
  a non-match. \<open>evaluateCondition\<close> does that with its \<open>try\<close>/\<open>catch\<close>, but the legacy
  simple-value path of \<open>evaluateFieldCondition\<close> calls \<open>isEqual\<close> outside it. For a legacy
  rule whose \<open>amount\<close> is the value \<open>10.5\<close>, \<open>BigInt(10.5)\<close> throws a \<open>RangeError\<close> that
  leaves \<open>evaluate\<close>, whatever the context; the same comparison written as a full
  condition is caught and is a non-match.
\<close>

theorem evaluate_legacy_amount_throws:
  "evaluate js fractionalAmountRule context = Inl RangeError
   \<and> evaluateCondition js \<lparr> cond_field = ''amount'', cond_operator = ''equals'',
         cond_value = JNum (21 / 2) \<rparr> context = False"
proof -
  have f: "checkField js ''amount'' (Some (JNum (21 / 2))) context = Inl RangeError"
    by (simp add: checkField_def evaluateFieldCondition_def legacyCompare_def
        getFieldValue_amount isEqual_fraction)
  have e: "evaluate js fractionalAmountRule context = Inl RangeError"
    using f by (simp add: evaluate_def fractionalAmountRule_def noConditions_def andThen_def checkField_def)
  have c: "evaluateCondition js \<lparr> cond_field = ''amount'', cond_operator = ''equals'',
         cond_value = JNum (21 / 2) \<rparr> context = False"
    by (simp add: evaluateCondition_def compareValues_def getFieldValue_amount isEqual_fraction)
  from e c show ?thesis by simp
qed

lemma seeded_rule_matches:
  "evaluate exampleRuntime seededUsdRule (exampleContext 5000 ''USD'') = Inr True"
  by (simp add: evaluate_def seededUsdRule_def noConditions_def andThen_def checkField_def
      evaluateFieldCondition_def legacyCompare_def getFieldValue_def isEqual_def legacyRange_def
      exampleRuntime_def exampleContext_def)

lemma evaluate_without_named_fields:
  assumes "rcs_currency conditions = None" "rcs_amount conditions = None"
    "rcs_paymentMethodType conditions = None" "rcs_cardBrand conditions = None"
    "rcs_country conditions = None" "rcs_region conditions = None"
  shows "\<exists>b. evaluate js conditions context = Inr b"
  using assms by (auto simp: evaluate_def andThen_def checkField_def)

lemma evaluateProvider_eligible:
  "ps_eligible (evaluateProvider weights metrics p context) = fst (checkEligibility p context)"
  "ps_providerId (evaluateProvider weights metrics p context) = pi_id p"
  by (simp_all add: evaluateProvider_def Let_def)

lemma selectByScore_eligible:
  assumes "selectByScore weights metrics now providers context = Inr decision"
  shows "\<exists>p \<in> set providers. pi_id p = dec_selectedProviderId decision
           \<and> fst (checkEligibility p context)"
proof -
  let ?scores = "evaluateProviders weights metrics providers context"
  obtain selected rest where f: "filter ps_eligible ?scores = selected # rest"
    and d: "dec_selectedProviderId decision = ps_providerId selected"
    using assms by (auto simp: selectByScore_def Let_def split: list.splits)
  have "selected \<in> set (filter ps_eligible ?scores)" unfolding f by simp
  then have "selected \<in> set ?scores" "ps_eligible selected" by auto
  then obtain p where "p \<in> set providers" "selected = evaluateProvider weights metrics p context"
    by (auto simp: evaluateProviders_def)
  then show ?thesis
    using d \<open>ps_eligible selected\<close> by (auto simp: evaluateProvider_eligible)
qed

lemma euro_rule_matches:
  "findMatchedRule exampleRuntime [euroRule] (exampleContext 1000 ''EUR'') = Inr (Some euroRule)"
  by (simp add: euroRule_def noConditions_def evaluate_def andThen_def checkField_def
      evaluateFieldCondition_def legacyCompare_def getFieldValue_def isEqual_def legacyRange_def
      exampleContext_def)

lemma example_scores:
  "map (\<lambda>s. (ps_providerId s, ps_eligible s))
     (evaluateProviders DEFAULT_SCORING_WEIGHTS noMetrics exampleProviders (exampleContext 1000 ''EUR''))
   = [(''pB'', True), (''pA'', False)]"
  by (simp add: evaluateProviders_def exampleProviders_def exampleProvider_def evaluateProvider_def
      checkEligibility_def exampleContext_def noMetrics_def DEFAULT_SCORING_WEIGHTS_def Let_def
      calculateSuccessRateScore_def calculateLatencyScore_def calculateCostScore_def
      calculatePriorityScore_def)


lemma example_eligibility:
  "checkEligibility (exampleProvider ''pA'' [''USD''] 1) (exampleContext 1000 ''EUR'')
     = (False, Some ''Currency EUR not supported'')"
  "checkEligibility (exampleProvider ''pB'' [''USD'', ''EUR''] 2) (exampleContext 1000 ''EUR'')
     = (True, None)"
  by (simp_all add: checkEligibility_def exampleProvider_def exampleContext_def)

lemma example_provider_fields:
  "pi_id (exampleProvider i cs p) = i" "pi_code (exampleProvider i cs p) = i"
  "pi_status (exampleProvider i cs p) = ACTIVE" "pi_priority (exampleProvider i cs p) = p"
  "pi_successRate (exampleProvider i cs p) = None" "pi_averageLatency (exampleProvider i cs p) = None"
  "pi_costPerTransaction (exampleProvider i cs p) = None"
  by (simp_all add: exampleProvider_def)

lemma example_score_order:
  "evaluateProviders DEFAULT_SCORING_WEIGHTS noMetrics exampleProviders (exampleContext 1000 ''EUR'')
   = [evaluateProvider DEFAULT_SCORING_WEIGHTS noMetrics (exampleProvider ''pB'' [''USD'', ''EUR''] 2)
        (exampleContext 1000 ''EUR''),
      evaluateProvider DEFAULT_SCORING_WEIGHTS noMetrics (exampleProvider ''pA'' [''USD''] 1)
        (exampleContext 1000 ''EUR'')]"
proof -
  have a: "ps_totalScore (evaluateProvider DEFAULT_SCORING_WEIGHTS noMetrics
             (exampleProvider ''pA'' [''USD''] 1) (exampleContext 1000 ''EUR'')) = 0"
    by (simp add: evaluateProvider_def example_eligibility)
  have b: "ps_totalScore (evaluateProvider DEFAULT_SCORING_WEIGHTS noMetrics
             (exampleProvider ''pB'' [''USD'', ''EUR''] 2) (exampleContext 1000 ''EUR'')) = 761 / 8"
    by (simp add: evaluateProvider_def example_eligibility Let_def noMetrics_def
        DEFAULT_SCORING_WEIGHTS_def example_provider_fields calculateSuccessRateScore_def
        calculateLatencyScore_def calculateCostScore_def calculatePriorityScore_def)
  show ?thesis
    by (simp add: evaluateProviders_def exampleProviders_def a b)
qed

text \<open>
  C3. \<open>selectProvider\<close> is meant never to return a provider that fails the eligibility
  check. The scoring path filters on eligibility (\<open>selectByScore_eligible\<close>), but the
  rule-matched path returns the rule's provider as soon as it is among the merchant's
  providers, without the check. Here the rule sends euro payments to \<open>pA\<close>, which
  supports only USD: \<open>pA\<close> is selected, with the eligible \<open>pB\<close> as its fallback.
\<close>

theorem selectProvider_rule_provider_unchecked:
  "checkEligibility (exampleProvider ''pA'' [''USD''] 1) (exampleContext 1000 ''EUR'')
     = (False, Some ''Currency EUR not supported'')
   \<and> selectProvider exampleRuntime DEFAULT_SCORING_WEIGHTS noMetrics 0 [euroRule] exampleProviders
       (exampleContext 1000 ''EUR'')
     = Inr \<lparr> dec_selectedProviderId = ''pA'', dec_selectedProviderCode = ''pA'',
             dec_fallbackProviderIds = [''pB''], dec_matchedRuleId = Some ''rule_eur'',
             dec_score = 100, dec_reason = ''Matched routing rule: EUR to pA'',
             dec_evaluatedAt = 0 \<rparr>"
proof -
  have f: "find (\<lambda>p. pi_id p = rr_providerId euroRule) exampleProviders
             = Some (exampleProvider ''pA'' [''USD''] 1)"
    by (simp add: euroRule_def exampleProviders_def example_provider_fields)
  have n: "exampleProviders \<noteq> []" by (simp add: exampleProviders_def)
  have fb: "map ps_providerId (take 2 (filter (\<lambda>s. ps_eligible s \<and> ps_providerId s \<noteq> rr_providerId euroRule)
              (evaluateProviders DEFAULT_SCORING_WEIGHTS noMetrics exampleProviders
                 (exampleContext 1000 ''EUR'')))) = [''pB'']"
    unfolding example_score_order
    by (simp add: evaluateProvider_eligible example_eligibility euroRule_def example_provider_fields)
  have "selectProvider exampleRuntime DEFAULT_SCORING_WEIGHTS noMetrics 0 [euroRule] exampleProviders
       (exampleContext 1000 ''EUR'')
     = Inr \<lparr> dec_selectedProviderId = pi_id (exampleProvider ''pA'' [''USD''] 1),
             dec_selectedProviderCode = pi_code (exampleProvider ''pA'' [''USD''] 1),
             dec_fallbackProviderIds = [''pB''], dec_matchedRuleId = Some (rr_id euroRule),
             dec_score = 100, dec_reason = ''Matched routing rule: '' @ rr_name euroRule,
             dec_evaluatedAt = 0 \<rparr>"
    unfolding selectProvider_def euro_rule_matches
    using n by (simp add: f fb Let_def)
  then show ?thesis
    by (simp add: example_eligibility example_provider_fields euroRule_def)
qed

section \<open>Payment orchestration: idempotency, attempts and status transitions\<close>


lemma orKeep_simps [simp]: "orKeep (Some v) current = Some v" "orKeep None current = current"
  by (simp_all add: orKeep_def)

lemma find_map_preserving:
  assumes "\<And>t. tx_id (g t) = tx_id t"
  shows "find (\<lambda>t. tx_id t = i) (map g ts) = map_option g (find (\<lambda>t. tx_id t = i) ts)"
  by (induction ts) (simp_all add: assms)

lemma findTransaction_update:
  assumes "\<And>t. tx_id (f t) = tx_id t"
  shows "findTransaction (updateTransaction now db i f) j
     = (if j = i then map_option (\<lambda>t. (f t)\<lparr> tx_updatedAt := now \<rparr>) (findTransaction db i)
        else findTransaction db j)"
proof -
  define g where "g = (\<lambda>t. if tx_id t = i then (f t)\<lparr> tx_updatedAt := now \<rparr> else t)"
  have gid: "\<And>t. tx_id (g t) = tx_id t" by (simp add: g_def assms)
  have m: "findTransaction (updateTransaction now db i f) j
          = map_option g (find (\<lambda>t. tx_id t = j) (pdb_transactions db))"
    unfolding findTransaction_def updateTransaction_def g_def[symmetric]
    using find_map_preserving[of g j "pdb_transactions db", OF gid] by simp
  show ?thesis
  proof (cases "find (\<lambda>t. tx_id t = j) (pdb_transactions db)")
    case None
    then show ?thesis unfolding m by (auto simp: findTransaction_def)
  next
    case (Some t)
    then have tj: "tx_id t = j" by (auto simp: find_Some_iff)
    have "g t = (if j = i then (f t)\<lparr> tx_updatedAt := now \<rparr> else t)"
      using tj by (simp add: g_def)
    then show ?thesis unfolding m using Some by (auto simp: findTransaction_def)
  qed
qed

lemma findTransaction_record [simp]:
  "findTransaction (recordStatusChange db i a b r) j = findTransaction db j"
  by (simp add: findTransaction_def recordStatusChange_def)

lemma history_update [simp]:
  "pdb_history (updateTransaction now db i f) = pdb_history db"
  by (simp add: updateTransaction_def)

lemma history_record:
  "pdb_history (recordStatusChange db i a b r)
     = pdb_history db @ [\<lparr> sh_transactionId = i, sh_fromStatus = a, sh_toStatus = b, sh_reason = r \<rparr>]"
  by (simp add: recordStatusChange_def)

lemma providers_update [simp]:
  "pdb_providers (updateTransaction now db i f) = pdb_providers db"
  "pdb_providers (recordStatusChange db i a b r) = pdb_providers db"
  by (simp_all add: updateTransaction_def recordStatusChange_def)

lemma markProcessing_id [simp]: "tx_id (markProcessing p t) = tx_id t"
  by (simp add: markProcessing_def)

lemma applyAuthorizeResult_id [simp]: "tx_id (applyAuthorizeResult now r t) = tx_id t"
  by (simp add: applyAuthorizeResult_def)

lemma findExisting_Some:
  assumes "cp_idempotencyKey request = Some k" "k \<noteq> []"
    "\<exists>t \<in> set (pdb_transactions db). tx_idempotencyKey t = Some k"
  shows "\<exists>existing \<in> set (pdb_transactions db).
           tx_idempotencyKey existing = Some k \<and> findExisting db request = Some existing"
proof -
  from assms(3) obtain existing
    where f: "find (\<lambda>t. tx_idempotencyKey t = Some k) (pdb_transactions db) = Some existing"
    by (cases "find (\<lambda>t. tx_idempotencyKey t = Some k) (pdb_transactions db)")
       (auto simp: find_None_iff)
  then have "existing \<in> set (pdb_transactions db)" "tx_idempotencyKey existing = Some k"
    by (auto simp: find_Some_iff)
  with f assms(1,2) show ?thesis by (auto simp: findExisting_def)
qed

text \<open>
  C4, as the specification states it, fails for the empty idempotency key, which the
  request schema admits: \<open>if (request.idempotencyKey)\<close> is false for it, so the lookup is
  skipped. With an earlier payment stored under the key \<open>""\<close>, a second call converts
  the currency and asks for a routing decision before the store refuses the duplicate
  key, and the earlier payment is not returned.
\<close>

theorem createPayment_empty_key_reexecutes:
  "tx_idempotencyKey (earlierPayment (Some [])) = Some []
   \<and> createPayment flakyEnv 1 ''tx1'' (examplePaymentDb (Some []))
        (examplePaymentRequest (Some []) (Some ''EUR''))
     = (Inl (OtherError ''Unique constraint failed''), examplePaymentDb (Some []),
        [FxConvert 1000 ''USD'' ''EUR'',
         SelectProvider \<lparr> rc_merchantId = ''m1'', rc_amount = 1000, rc_currency = ''EUR'',
           rc_paymentMethodType = ''CARD'', rc_cardBrand = None, rc_country = None,
           rc_region = None, rc_customerId = None, rc_metadata = None \<rparr>])"
proof -
  have k: "tx_idempotencyKey (earlierPayment (Some [])) = Some []"
    by (simp add: earlierPayment_def)
  have e: "findExisting (examplePaymentDb (Some [])) (examplePaymentRequest (Some []) (Some ''EUR'')) = None"
    by (simp add: findExisting_def examplePaymentRequest_def)
  have c: "createTransaction 1 ''tx1'' (examplePaymentDb (Some []))
             (examplePaymentRequest (Some []) (Some ''EUR'')) (Some 1000) (Some ''EUR'') (Some ''rate_1'')
           = Inl (OtherError ''Unique constraint failed'')"
    by (simp add: createTransaction_def examplePaymentDb_def examplePaymentRequest_def k)
  have "createPayment flakyEnv 1 ''tx1'' (examplePaymentDb (Some []))
        (examplePaymentRequest (Some []) (Some ''EUR''))
     = (Inl (OtherError ''Unique constraint failed''), examplePaymentDb (Some []),
        [FxConvert 1000 ''USD'' ''EUR'',
         SelectProvider \<lparr> rc_merchantId = ''m1'', rc_amount = 1000, rc_currency = ''EUR'',
           rc_paymentMethodType = ''CARD'', rc_cardBrand = None, rc_country = None,
           rc_region = None, rc_customerId = None, rc_metadata = None \<rparr>])"
    unfolding createPayment_def e
    using c by (simp add: examplePaymentRequest_def flakyEnv_def runAttempts_def convertIfNeeded_def
        buildRoutingContext_def)
  with k show ?thesis by simp
qed

text \<open>
  C4, amended. If \<open>createPayment\<close> is called with a non-empty idempotency key for which a
  Transaction already exists, it returns that Transaction and nothing else happens: the
  store is unchanged (no new row, no status-history entry) and no collaborator is
  called (no FX conversion, no routing decision, no provider call). The id returned is
  the existing one.
\<close>

theorem createPayment_idempotent:
  assumes "cp_idempotencyKey request = Some k" and "k \<noteq> []"
    and "\<exists>t \<in> set (pdb_transactions db). tx_idempotencyKey t = Some k"
  shows "\<exists>existing \<in> set (pdb_transactions db).
           tx_idempotencyKey existing = Some k
         \<and> createPayment env now newId db request = (Inr (toPaymentResponse existing), db, [])
         \<and> resp_id (toPaymentResponse existing) = tx_id existing"
proof -
  from findExisting_Some[OF assms] obtain existing
    where "existing \<in> set (pdb_transactions db)" "tx_idempotencyKey existing = Some k"
      "findExisting db request = Some existing"
    by blast
  then show ?thesis
    by (auto simp: createPayment_def toPaymentResponse_def)
qed

theorem createPayment_idempotent_witness:
  "cp_idempotencyKey (examplePaymentRequest (Some ''key-1'') (Some ''EUR'')) = Some ''key-1''
   \<and> earlierPayment (Some ''key-1'') \<in> set (pdb_transactions (examplePaymentDb (Some ''key-1'')))
   \<and> tx_idempotencyKey (earlierPayment (Some ''key-1'')) = Some ''key-1''
   \<and> createPayment flakyEnv 1 ''tx1'' (examplePaymentDb (Some ''key-1''))
        (examplePaymentRequest (Some ''key-1'') (Some ''EUR''))
     = (Inr (toPaymentResponse (earlierPayment (Some ''key-1''))), examplePaymentDb (Some ''key-1''), [])
   \<and> resp_id (toPaymentResponse (earlierPayment (Some ''key-1''))) = ''tx0''"
proof -
  have a: "cp_idempotencyKey (examplePaymentRequest (Some ''key-1'') (Some ''EUR'')) = Some ''key-1''"
    by (simp add: examplePaymentRequest_def)
  have b: "''key-1'' \<noteq> []" by simp
  have m: "earlierPayment (Some ''key-1'') \<in> set (pdb_transactions (examplePaymentDb (Some ''key-1'')))"
    by (simp add: examplePaymentDb_def)
  have k: "tx_idempotencyKey (earlierPayment (Some ''key-1'')) = Some ''key-1''"
    by (simp add: earlierPayment_def)
  have c: "\<exists>t \<in> set (pdb_transactions (examplePaymentDb (Some ''key-1''))). tx_idempotencyKey t = Some ''key-1''"
    using m k by blast
  have s: "set (pdb_transactions (examplePaymentDb (Some ''key-1''))) = {earlierPayment (Some ''key-1'')}"
    by (simp add: examplePaymentDb_def)
  have i: "tx_id (earlierPayment (Some ''key-1'')) = ''tx0''"
    by (simp add: earlierPayment_def exampleTxn_def)
  from createPayment_idempotent[OF a b c, of flakyEnv 1 "''tx1''"]
  have "createPayment flakyEnv 1 ''tx1'' (examplePaymentDb (Some ''key-1''))
        (examplePaymentRequest (Some ''key-1'') (Some ''EUR''))
     = (Inr (toPaymentResponse (earlierPayment (Some ''key-1''))), examplePaymentDb (Some ''key-1''), [])
   \<and> resp_id (toPaymentResponse (earlierPayment (Some ''key-1''))) = tx_id (earlierPayment (Some ''key-1''))"
    unfolding s by simp
  with a m k i show ?thesis by simp
qed

lemma attempted_append: "attemptedProviders (xs @ ys) = attemptedProviders xs @ attemptedProviders ys"
  by (induction xs rule: attemptedProviders.induct) simp_all

lemma authorized_append: "authorizedProviders (xs @ ys) = authorizedProviders xs @ authorizedProviders ys"
  by (induction xs rule: authorizedProviders.induct) simp_all

lemma failed_append: "failedAttempts (xs @ ys) = failedAttempts xs @ failedAttempts ys"
  by (induction xs rule: failedAttempts.induct) simp_all

lemma processed_append: "processedEvents (xs @ ys) = processedEvents xs @ processedEvents ys"
  by (induction xs rule: processedEvents.induct) simp_all

lemma fatal_append:
  "noAttemptAfterFatal (xs @ ys)
     = (noAttemptAfterFatal xs \<and> noAttemptAfterFatal ys
        \<and> (attemptedProviders ys = [] \<and> authorizedProviders ys = []
            \<or> list_all (\<lambda>f. fst (snd f)) (failedAttempts xs)))"
  by (induction xs rule: noAttemptAfterFatal.induct)
     (auto simp: attempted_append authorized_append)

lemma fatal_split:
  assumes "noAttemptAfterFatal (xs @ AttemptFailed q n False m # ys)"
  shows "attemptedProviders ys = [] \<and> authorizedProviders ys = []"
  using assms by (simp add: fatal_append)

lemma EP_events:
  assumes "executePaymentWithProvider env now attempt db txid p request amount currency = (r, db', evs)"
  shows "case r of Inr resp \<Rightarrow> attemptOk p evs | Inl e \<Rightarrow> attemptThrew p evs"
  using assms
  unfolding executePaymentWithProvider_def rethrow_def Let_def attemptOk_def attemptThrew_def
  by (auto split: option.splits sum.splits)

lemma statusOf_processing:
  assumes "findTransaction db txid = Some t"
  shows "statusOf (recordStatusChange (updateTransaction now db txid (markProcessing p)) txid a b r) txid
           = Some PROCESSING"
  using assms by (simp add: statusOf_def findTransaction_update markProcessing_def)

lemma exists_after_update:
  assumes "\<And>t. tx_id (f t) = tx_id t" "findTransaction db j \<noteq> None"
  shows "findTransaction (updateTransaction now db i f) j \<noteq> None"
  using assms by (auto simp: findTransaction_update)

lemma extends_refl: "extends db db"
  by (simp add: extends_def)

lemma extends_trans: "extends a b \<Longrightarrow> extends b c \<Longrightarrow> extends a c"
  by (auto simp: extends_def)

lemma extends_update:
  assumes "\<And>t. tx_id (f t) = tx_id t"
  shows "extends db (updateTransaction now db i f)"
  using assms by (auto simp: extends_def findTransaction_update)

lemma extends_record: "extends db (recordStatusChange db i a b r)"
  by (simp add: extends_def)

lemma extends_processing:
  "extends db (recordStatusChange (updateTransaction now db txid (markProcessing p)) txid
                 (Some PENDING) PROCESSING None)"
  by (rule extends_trans[OF extends_update extends_record]) simp

lemma extends_authorized:
  "extends db (recordStatusChange (updateTransaction now db txid (applyAuthorizeResult now result)) txid
                 (Some PROCESSING) (newStatusOf s) None)"
  by (rule extends_trans[OF extends_update extends_record]) simp

lemma EP_store:
  assumes "executePaymentWithProvider env now attempt db txid p request amount currency = (r, db', evs)"
  shows "extends db db'"
  using assms unfolding executePaymentWithProvider_def rethrow_def Let_def
  by (auto split: option.splits sum.splits
      intro: extends_refl extends_processing extends_trans[OF extends_processing extends_authorized])

lemma loop_Inr:
  assumes "executePaymentWithProvider env now attempt db txid p request amount currency = (Inr resp, db1, evs1)"
  shows "attemptLoop env now txid request amount currency attempt (p # rest) le db events
           = (Some resp, le, db1, events @ evs1)"
  using assms by simp

lemma loop_stop:
  assumes "executePaymentWithProvider env now attempt db txid p request amount currency = (Inl e, db1, evs1)"
    and "\<not> isRetryableError e"
  shows "attemptLoop env now txid request amount currency attempt (p # rest) le db events
           = (None, Some e, db1, events @ evs1 @ [AttemptFailed p (attempt + 1) False (message e)])"
  using assms by simp

lemma loop_retry:
  assumes "executePaymentWithProvider env now attempt db txid p request amount currency = (Inl e, db1, evs1)"
    and "isRetryableError e"
  shows "attemptLoop env now txid request amount currency attempt (p # rest) le db events
           = attemptLoop env now txid request amount currency (attempt + 1) rest (Some e) db1
               (events @ evs1 @ [AttemptFailed p (attempt + 1) True (message e)])"
  using assms by simp

lemma loop_events_shift:
  "attemptLoop env now txid request amount currency attempt ps le db events
     = (case attemptLoop env now txid request amount currency attempt ps le db [] of
          (res, le', db', new) \<Rightarrow> (res, le', db', events @ new))"
proof (induction ps arbitrary: attempt le db events)
  case Nil
  show ?case by simp
next
  case (Cons p rest)
  obtain r db1 evs1 where ep:
    "executePaymentWithProvider env now attempt db txid p request amount currency = (r, db1, evs1)"
    by (cases "executePaymentWithProvider env now attempt db txid p request amount currency") auto
  show ?case
  proof (cases r)
    case (Inr resp)
    then show ?thesis using ep by (simp add: loop_Inr del: attemptLoop.simps)
  next
    case (Inl e)
    show ?thesis
    proof (cases "isRetryableError e")
      case False
      then show ?thesis using ep Inl by (simp add: loop_stop del: attemptLoop.simps)
    next
      case True
      have a: "attemptLoop env now txid request amount currency attempt (p # rest) le db events
           = attemptLoop env now txid request amount currency (attempt + 1) rest (Some e) db1
               (events @ evs1 @ [AttemptFailed p (attempt + 1) True (message e)])"
        using ep Inl True by (simp add: loop_retry del: attemptLoop.simps)
      have b: "attemptLoop env now txid request amount currency attempt (p # rest) le db []
           = attemptLoop env now txid request amount currency (attempt + 1) rest (Some e) db1
               ([] @ evs1 @ [AttemptFailed p (attempt + 1) True (message e)])"
        using ep Inl True by (simp add: loop_retry del: attemptLoop.simps)
      show ?thesis
        unfolding a b
        using Cons.IH[of "attempt + 1" "Some e" db1 "events @ evs1 @ [AttemptFailed p (attempt + 1) True (message e)]"]
          Cons.IH[of "attempt + 1" "Some e" db1 "evs1 @ [AttemptFailed p (attempt + 1) True (message e)]"]
        by (simp split: prod.splits)
    qed
  qed
qed

lemma loopSpec_Inr:
  assumes "attemptOk p evs1" "extends db db1"
  shows "loopSpec txid (p # rest) le db (Some resp, le, db1, evs1)"
proof -
  have "length (map fst (processedEvents evs1)) = 1" using assms(1) by (simp add: attemptOk_def)
  then have "length (processedEvents evs1) = 1" by simp
  then have "length (processedEvents evs1) \<le> 1" "processedEvents evs1 \<noteq> []" by auto
  then show ?thesis using assms by (simp add: loopSpec_def attemptOk_def)
qed

lemma loopSpec_stop:
  assumes "attemptThrew p evs1" "extends db db1"
  shows "loopSpec txid (p # rest) le db
           (None, Some e, db1, evs1 @ [AttemptFailed p n False (message e)])"
  using assms
  by (auto simp: loopSpec_def attemptThrew_def attempted_append authorized_append failed_append
      processed_append fatal_append)

lemma loopSpec_retry:
  assumes t: "attemptThrew p evs1" and e: "extends db db1"
    and ih: "loopSpec txid rest (Some e) db1 (res, le', db', new)"
  shows "loopSpec txid (p # rest) le db
           (res, le', db', (evs1 @ [AttemptFailed p n True (message e)]) @ new)"
proof -
  let ?xs = "evs1 @ [AttemptFailed p n True (message e)]"
  have att: "attemptedProviders (?xs @ new) = p # attemptedProviders new"
    using t by (simp add: attemptThrew_def attempted_append)
  have pre: "prefix (attemptedProviders (?xs @ new)) (p # rest)"
    using ih unfolding att by (simp add: loopSpec_def)
  have auth: "authorizedProviders (?xs @ new) = authorizedProviders evs1 @ authorizedProviders new"
    by (simp add: authorized_append)
  have "subseq (authorizedProviders evs1) [p]"
    using t by (auto simp: attemptThrew_def)
  moreover have "subseq (authorizedProviders new) (attemptedProviders new)"
    using ih by (simp add: loopSpec_def)
  ultimately have sub: "subseq (authorizedProviders (?xs @ new)) (attemptedProviders (?xs @ new))"
    unfolding att auth using list_emb_append_mono[of "(=)" "authorizedProviders evs1" "[p]"
        "authorizedProviders new" "attemptedProviders new"] by simp
  have fat: "noAttemptAfterFatal (?xs @ new)"
    using t ih by (simp add: fatal_append[of ?xs new] fatal_append[of evs1] attemptThrew_def
        failed_append loopSpec_def)
  have ext: "extends db db'"
    using e ih by (auto simp: loopSpec_def intro: extends_trans)
  have proc: "processedEvents (?xs @ new) = processedEvents new"
    using t by (simp add: attemptThrew_def processed_append)
  have fail: "failedAttempts (?xs @ new) = (p, True, message e) # failedAttempts new"
    using t by (simp add: attemptThrew_def failed_append)
  have both: "map fst (failedAttempts (?xs @ new)) @ map fst (processedEvents (?xs @ new))
                = attemptedProviders (?xs @ new)"
    "length (processedEvents (?xs @ new)) \<le> 1"
    unfolding fail att proc using ih by (simp_all add: loopSpec_def)
  show ?thesis
  proof (cases res)
    case (Some r)
    then show ?thesis
      using pre sub fat ext ih att both proc unfolding loopSpec_def prod.case by simp
  next
    case None
    have pe: "processedEvents new = []" using ih None by (simp add: loopSpec_def)
    have rest: "failedAttempts (?xs @ new) \<noteq> []
        \<and> map_option message le' = Some (snd (snd (last (failedAttempts (?xs @ new)))))
        \<and> (\<not> fst (snd (last (failedAttempts (?xs @ new)))) \<or> attemptedProviders (?xs @ new) = p # rest)"
    proof (cases "rest = []")
      case True
      then have "new = []" "le' = Some e" using ih None by (simp_all add: loopSpec_def)
      then show ?thesis using True t by (simp add: attemptThrew_def attempted_append failed_append)
    next
      case False
      then have f: "failedAttempts new \<noteq> []"
        and m: "map_option message le' = Some (snd (snd (last (failedAttempts new))))"
        and l: "\<not> fst (snd (last (failedAttempts new))) \<or> attemptedProviders new = rest"
        using ih None by (simp_all add: loopSpec_def)
      show ?thesis unfolding fail att using f m l by simp
    qed
    show ?thesis
      unfolding loopSpec_def prod.case proc
      using None pre sub fat ext pe rest att both[unfolded proc] by simp
  qed
qed

lemma attemptLoop_spec:
  "loopSpec txid ps le db (attemptLoop env now txid request amount currency attempt ps le db [])"
proof (induction ps arbitrary: attempt le db)
  case Nil
  show ?case by (simp add: loopSpec_def extends_refl)
next
  case (Cons p rest)
  obtain r db1 evs1 where ep:
    "executePaymentWithProvider env now attempt db txid p request amount currency = (r, db1, evs1)"
    by (cases "executePaymentWithProvider env now attempt db txid p request amount currency") auto
  note store = EP_store[OF ep]
  note events = EP_events[OF ep]
  show ?case
  proof (cases r)
    case (Inr resp)
    have "attemptOk p evs1" using events Inr by simp
    then show ?thesis
      using loop_Inr[OF ep[unfolded Inr], of rest le "[]"] store
      by (simp add: loopSpec_Inr del: attemptLoop.simps)
  next
    case (Inl e)
    have thr: "attemptThrew p evs1" using events Inl by simp
    have ext: "extends db db1" using store by simp
    show ?thesis
    proof (cases "isRetryableError e")
      case False
      show ?thesis
        using loop_stop[OF ep[unfolded Inl] False, of rest le "[]"] loopSpec_stop[OF thr ext]
        by (simp del: attemptLoop.simps)
    next
      case True
      obtain res le' db' new where l:
        "attemptLoop env now txid request amount currency (attempt + 1) rest (Some e) db1 []
           = (res, le', db', new)"
        by (cases "attemptLoop env now txid request amount currency (attempt + 1) rest (Some e) db1 []") auto
      have ih: "loopSpec txid rest (Some e) db1 (res, le', db', new)"
        using Cons.IH[of "Some e" db1 "attempt + 1"] l by simp
      have "attemptLoop env now txid request amount currency attempt (p # rest) le db []
              = (res, le', db', (evs1 @ [AttemptFailed p (attempt + 1) True (message e)]) @ new)"
        using loop_retry[OF ep[unfolded Inl] True, of rest le "[]"]
          loop_events_shift[of env now txid request amount currency "attempt + 1" rest "Some e" db1
            "evs1 @ [AttemptFailed p (attempt + 1) True (message e)]"] l
        by (simp del: attemptLoop.simps)
      then show ?thesis
        using loopSpec_retry[OF thr ext ih] by (simp del: attemptLoop.simps)
    qed
  qed
qed

lemma select_append: "selectCalls (xs @ ys) = selectCalls xs @ selectCalls ys"
  by (induction xs rule: selectCalls.induct) simp_all

lemma select_set: "SelectProvider c \<in> set es \<longleftrightarrow> c \<in> set (selectCalls es)"
  by (induction es rule: selectCalls.induct) auto

lemma EP_no_select:
  assumes "executePaymentWithProvider env now attempt db txid p request amount currency = (r, db', evs)"
  shows "selectCalls evs = []"
  using assms unfolding executePaymentWithProvider_def rethrow_def Let_def
  by (auto split: option.splits sum.splits)

lemma loop_no_select:
  "selectCalls (snd (snd (snd (attemptLoop env now txid request amount currency attempt ps le db [])))) = []"
proof (induction ps arbitrary: attempt le db)
  case Nil
  show ?case by simp
next
  case (Cons p rest)
  obtain r db1 evs1 where ep:
    "executePaymentWithProvider env now attempt db txid p request amount currency = (r, db1, evs1)"
    by (cases "executePaymentWithProvider env now attempt db txid p request amount currency") auto
  note ns = EP_no_select[OF ep]
  show ?case
  proof (cases r)
    case (Inr resp)
    show ?thesis
      using loop_Inr[OF ep[unfolded Inr], of rest le "[]"] ns by (simp del: attemptLoop.simps)
  next
    case (Inl e)
    show ?thesis
    proof (cases "isRetryableError e")
      case False
      show ?thesis
        using loop_stop[OF ep[unfolded Inl] False, of rest le "[]"] ns
        by (simp add: select_append del: attemptLoop.simps)
    next
      case True
      show ?thesis
        using loop_retry[OF ep[unfolded Inl] True, of rest le "[]"]
          loop_events_shift[of env now txid request amount currency "attempt + 1" rest "Some e" db1
            "evs1 @ [AttemptFailed p (attempt + 1) True (message e)]"]
          Cons.IH[of "attempt + 1" "Some e" db1] ns
        by (simp add: select_append split: prod.splits del: attemptLoop.simps)
    qed
  qed
qed

lemma find_appended:
  assumes "\<not> (\<exists>t \<in> set ts. tx_id t = i)" "tx_id x = i"
  shows "find (\<lambda>t. tx_id t = i) (ts @ [x]) = Some x"
  using assms by (induction ts) auto

lemma createTransaction_result:
  assumes "createTransaction now newId db request ca cc fx = Inr (transaction, db1)"
  shows "tx_id transaction = newId \<and> findTransaction db1 newId = Some transaction
       \<and> tx_status transaction = PENDING
       \<and> pdb_history db1 = pdb_history db \<and> pdb_providers db1 = pdb_providers db
       \<and> pdb_statusWrites db1 = pdb_statusWrites db
       \<and> (\<forall>j. findTransaction db j \<noteq> None \<longrightarrow> findTransaction db1 j \<noteq> None)
       \<and> insertAccepted db newId request"
proof -
  have n: "\<not> (\<exists>t \<in> set (pdb_transactions db). tx_id t = newId)"
    using assms by (auto simp: createTransaction_def split: if_splits)
  have d: "pdb_transactions db1 = pdb_transactions db @ [transaction]"
    "pdb_history db1 = pdb_history db" "pdb_providers db1 = pdb_providers db"
    "tx_id transaction = newId" "tx_status transaction = PENDING"
    "pdb_statusWrites db1 = pdb_statusWrites db"
    using assms by (auto simp: createTransaction_def Let_def split: if_splits)
  have acc: "insertAccepted db newId request"
    using assms unfolding createTransaction_def insertAccepted_def
    by (auto split: if_splits option.splits)
  have f: "findTransaction db1 newId = Some transaction"
    unfolding findTransaction_def d(1) using n d(4) by (rule find_appended)
  have "\<And>j. findTransaction db j \<noteq> None \<Longrightarrow> findTransaction db1 j \<noteq> None"
    unfolding findTransaction_def d(1) by (auto simp: find_None_iff)
  then show ?thesis using d f acc by blast
qed

lemma createTransaction_refused:
  assumes "createTransaction now newId db request ca cc fx = Inl e"
  shows "\<not> insertAccepted db newId request"
  using assms unfolding createTransaction_def insertAccepted_def
  by (auto simp: Let_def split: if_splits option.splits)

lemma attemptsSpec_none: "attemptsSpec newId candidates False db result db []"
  by (simp add: attemptsSpec_def extends_refl)

lemma updateTransactionStatus_failed:
  assumes f: "findTransaction db i = Some t"
  shows "extends db (updateTransactionStatus now db i FAILED (Some msg))
       \<and> (\<exists>u. findTransaction (updateTransactionStatus now db i FAILED (Some msg)) i = Some u
              \<and> tx_status u = FAILED \<and> tx_failureReason u = Some msg)"
proof -
  let ?f = "\<lambda>t. t\<lparr> tx_status := FAILED, tx_failureReason := Some msg \<rparr>"
  have id: "\<And>t. tx_id (?f t) = tx_id t" by simp
  have u: "updateTransactionStatus now db i FAILED (Some msg)
       = recordStatusChange (updateTransaction now db i ?f) i (Some (tx_status t)) FAILED (Some msg)"
    using f by (simp add: updateTransactionStatus_def Let_def)
  have e: "extends db (updateTransactionStatus now db i FAILED (Some msg))"
    unfolding u by (rule extends_trans[OF extends_update[of ?f, OF id] extends_record])
  have "findTransaction (updateTransactionStatus now db i FAILED (Some msg)) i
          = Some ((?f t)\<lparr> tx_updatedAt := now \<rparr>)"
    unfolding u using f by (simp add: findTransaction_update[of ?f, OF id])
  then show ?thesis using e by simp
qed

lemma take_min_length: "take (min (length xs) n) xs = take n xs"
  by (simp add: min_def)

lemma runAttempts_spec:
  assumes "runAttempts env now newId db request ca cc fx decision events = (result, db', events')"
  shows "\<exists>new. events' = events @ new
           \<and> attemptsSpec newId (dec_selectedProviderId decision # dec_fallbackProviderIds decision)
                (insertAccepted db newId request) db result db' new"
proof (cases "createTransaction now newId db request ca cc fx")
  case (Inl e)
  then have "events' = events @ []" "db' = db"
    using assms by (simp_all add: runAttempts_def)
  moreover have "\<not> insertAccepted db newId request" using Inl by (rule createTransaction_refused)
  ultimately show ?thesis using attemptsSpec_none by auto
next
  case (Inr created)
  obtain transaction db1 where c: "created = (transaction, db1)" by (cases created) auto
  note ct = createTransaction_result[OF Inr[unfolded c]]
  let ?cands = "dec_selectedProviderId decision # dec_fallbackProviderIds decision"
  let ?ps = "take 3 ?cands"
  let ?db2 = "recordStatusChange db1 newId None PENDING None"
  let ?amount = "case ca of Some a \<Rightarrow> a | None \<Rightarrow> cp_amount request"
  let ?currency = "case cc of Some c \<Rightarrow> c | None \<Rightarrow> cp_currency request"
  obtain res le' db3 new where l:
    "attemptLoop env now newId request ?amount ?currency 0 ?ps None ?db2 [] = (res, le', db3, new)"
    by (cases "attemptLoop env now newId request ?amount ?currency 0 ?ps None ?db2 []") auto
  have spec: "loopSpec newId ?ps None ?db2 (res, le', db3, new)"
    using attemptLoop_spec[of newId ?ps None ?db2 env now request ?amount ?currency 0] l by simp
  have ns: "selectCalls new = []"
    using loop_no_select[of env now newId request ?amount ?currency 0 ?ps None ?db2] l by simp
  have l': "attemptLoop env now newId request ?amount ?currency 0 ?ps None ?db2 events
              = (res, le', db3, events @ new)"
    using loop_events_shift[of env now newId request ?amount ?currency 0 ?ps None ?db2 events] l
    by simp
  have e1: "extends db db1"
    using ct by (simp add: extends_def)
  have e2: "extends db1 ?db2"
    by (rule extends_record)
  have e3: "extends ?db2 db3" using spec by (simp add: loopSpec_def)
  have e03: "extends db db3" using e1 e2 e3 by (blast intro: extends_trans)
  have f2: "findTransaction ?db2 newId \<noteq> None" using ct by simp
  have ne: "attemptedProviders new \<noteq> []"
    using spec by (simp add: loopSpec_def)
  have both: "map fst (failedAttempts new) @ map fst (processedEvents new) = attemptedProviders new"
    "length (processedEvents new) \<le> 1"
    using spec by (simp_all add: loopSpec_def)
  have pre: "prefix (attemptedProviders new) ?ps"
    and sub: "subseq (authorizedProviders new) (attemptedProviders new)"
    and fat: "noAttemptAfterFatal new"
    using spec by (simp_all add: loopSpec_def)
  have run: "runAttempts env now newId db request ca cc fx decision events
      = (case res of
           Some r \<Rightarrow> (Inr r, db3, events @ new)
         | None \<Rightarrow> (Inl (allProvidersFailed newId),
                     updateTransactionStatus now db3 newId FAILED
                       (Some (case le' of Some e \<Rightarrow> message e | None \<Rightarrow> ''All payment providers failed'')),
                     events @ new))"
  proof -
    have tid: "tx_id transaction = newId" using ct by simp
    show ?thesis
      unfolding runAttempts_def Inr c
      by (simp only: sum.case prod.case Let_def tid take_min_length MAX_PROVIDER_RETRIES_def l')
  qed
  show ?thesis
  proof (cases res)
    case (Some r)
    then have out: "result = Inr r" "db' = db3" "events' = events @ new"
      using assms run by simp_all
    have "processedEvents new \<noteq> []" using spec Some by (simp add: loopSpec_def)
    then have "attemptsSpec newId ?cands (insertAccepted db newId request) db result db' new"
      unfolding attemptsSpec_def using pre sub fat ns e03 out ne both by simp
    then show ?thesis using out by blast
  next
    case None
    let ?msg = "case le' of Some e \<Rightarrow> message e | None \<Rightarrow> ''All payment providers failed''"
    have out: "result = Inl (allProvidersFailed newId)"
      "db' = updateTransactionStatus now db3 newId FAILED (Some ?msg)" "events' = events @ new"
      using assms run None by simp_all
    have pe: "processedEvents new = []"
      and fa: "failedAttempts new \<noteq> []"
      and ms: "map_option message le' = Some (snd (snd (last (failedAttempts new))))"
      and la: "\<not> fst (snd (last (failedAttempts new))) \<or> attemptedProviders new = ?ps"
      using spec None by (simp_all add: loopSpec_def)
    obtain t3 where t3: "findTransaction db3 newId = Some t3"
      using f2 e3 by (auto simp: extends_def)
    have msg: "?msg = snd (snd (last (failedAttempts new)))"
      using ms by (cases le') simp_all
    note uf = updateTransactionStatus_failed[OF t3, of now ?msg]
    have e: "extends db db'" using e03 uf out(2) by (blast intro: extends_trans)
    have "attemptsSpec newId ?cands (insertAccepted db newId request) db result db' new"
      unfolding attemptsSpec_def using pre sub fat ns e out(1) pe la uf ne both
      unfolding out(2) msg by simp
    then show ?thesis using out by blast
  qed
qed

lemma convertIfNeeded_events:
  assumes "convertIfNeeded env request = (r, evs)"
  shows "attemptedProviders evs = [] \<and> authorizedProviders evs = [] \<and> failedAttempts evs = []
       \<and> processedEvents evs = [] \<and> noAttemptAfterFatal evs \<and> selectCalls evs = []"
  using assms unfolding convertIfNeeded_def
  by (auto split: option.splits if_splits sum.splits)

lemma createPayment_shape:
  assumes "createPayment env now newId db request = (result, db', events)"
  shows "stoppedEarly env db db' events \<or> ranAttempts env newId request db result db' events"
proof (cases "findExisting db request")
  case (Some existing)
  then have "db' = db" "events = []" using assms by (simp_all add: createPayment_def)
  then show ?thesis by (simp add: stoppedEarly_def)
next
  case None
  obtain r1 events1 where cv: "convertIfNeeded env request = (r1, events1)"
    by (cases "convertIfNeeded env request") auto
  note e1 = convertIfNeeded_events[OF cv]
  show ?thesis
  proof (cases r1)
    case (Inl e)
    then have "db' = db" "events = events1"
      using assms None cv by (simp_all add: createPayment_def)
    then show ?thesis using e1 by (simp add: stoppedEarly_def)
  next
    case (Inr conv)
    obtain ca cc fx where conv: "conv = (ca, cc, fx)" by (cases conv) auto
    let ?ctx = "buildRoutingContext request ca cc"
    let ?pre = "events1 @ [SelectProvider ?ctx]"
    have pre: "selectCalls ?pre = [?ctx]" "attemptedProviders ?pre = []" "authorizedProviders ?pre = []"
      "failedAttempts ?pre = []" "processedEvents ?pre = []" "noAttemptAfterFatal ?pre"
      using e1 by (simp_all add: select_append attempted_append authorized_append failed_append
          processed_append fatal_append)
    show ?thesis
    proof (cases "env_selectProvider env ?ctx")
      case (Inl e)
      then have "db' = db" "events = ?pre"
        using assms None cv Inr conv by (simp_all add: createPayment_def Let_def)
      then show ?thesis using pre Inl by (simp add: stoppedEarly_def)
    next
      case (Inr decision)
      have "runAttempts env now newId db request ca cc fx decision ?pre = (result, db', events)"
        using assms None cv \<open>r1 = Inr conv\<close> conv Inr by (simp add: createPayment_def Let_def)
      from runAttempts_spec[OF this] obtain new where
        "events = ?pre @ new"
        "attemptsSpec newId (dec_selectedProviderId decision # dec_fallbackProviderIds decision)
           (insertAccepted db newId request) db result db' new"
        by blast
      then have "ranAttempts env newId request db result db' events"
        unfolding ranAttempts_def using pre Inr by blast
      then show ?thesis by simp
    qed
  qed
qed

lemma prefix_take_length: "prefix xs (take n ys) \<Longrightarrow> length xs \<le> n \<and> prefix xs ys"
proof -
  assume a: "prefix xs (take n ys)"
  then have "length xs \<le> length (take n ys)" by (rule prefix_length_le)
  moreover have "prefix (take n ys) ys" by (rule take_is_prefix)
  ultimately show ?thesis using a by (auto intro: prefix_order.trans)
qed

lemma prefix_nonempty_hd: "prefix xs (y # ys) \<Longrightarrow> xs \<noteq> [] \<Longrightarrow> hd xs = y"
  by (cases xs) auto

text \<open>
  C5. In every run of \<open>createPayment\<close> the attempts are made one after another on the
  candidates \<open>[selected provider, then the fallbacks]\<close> in that order, at most three of
  them: once routing has decided and the store has accepted the new Transaction, the
  selected provider is attempted first. Every attempt ends as a failed attempt or as the
  one processed attempt, which is the last, and \<open>authorize\<close> is called only for providers
  attempted, in the same order. After a failed attempt that is not retryable nothing
  further is attempted. If attempts were made and all of them failed, the call fails with
  \<open>AllProvidersFailed\<close>, the Transaction is FAILED and its failure reason is the message
  of the last error; and then either that last error was not retryable or all (at most
  three) candidates were attempted.
\<close>

theorem createPayment_attempt_order:
  assumes "createPayment env now newId db request = (result, db', events)"
  shows "length (attemptedProviders events) \<le> 3
     \<and> subseq (authorizedProviders events) (attemptedProviders events)
     \<and> map fst (failedAttempts events) @ map fst (processedEvents events) = attemptedProviders events
     \<and> length (processedEvents events) \<le> 1
     \<and> (\<forall>context decision.
           SelectProvider context \<in> set events \<and> env_selectProvider env context = Inr decision
           \<longrightarrow> prefix (attemptedProviders events)
                 (dec_selectedProviderId decision # dec_fallbackProviderIds decision)
               \<and> (insertAccepted db newId request
                    \<longrightarrow> attemptedProviders events \<noteq> []
                        \<and> hd (attemptedProviders events) = dec_selectedProviderId decision)
               \<and> (failedAttempts events \<noteq> [] \<and> processedEvents events = []
                    \<longrightarrow> \<not> fst (snd (last (failedAttempts events)))
                        \<or> attemptedProviders events
                            = take 3 (dec_selectedProviderId decision # dec_fallbackProviderIds decision)))
     \<and> (\<forall>xs q n m ys. events = xs @ AttemptFailed q n False m # ys
           \<longrightarrow> attemptedProviders ys = [] \<and> authorizedProviders ys = [])
     \<and> (failedAttempts events \<noteq> [] \<and> processedEvents events = []
          \<longrightarrow> result = Inl (allProvidersFailed newId)
              \<and> (\<exists>t. findTransaction db' newId = Some t \<and> tx_status t = FAILED
                     \<and> tx_failureReason t = Some (snd (snd (last (failedAttempts events))))))
     \<and> (processedEvents events \<noteq> [] \<longrightarrow> (\<exists>r. result = Inr r))"
proof -
  from createPayment_shape[OF assms]
  show ?thesis
  proof
    assume s: "stoppedEarly env db db' events"
    then have r: "attemptedProviders events = []" "authorizedProviders events = []"
      "failedAttempts events = []" "processedEvents events = []" "noAttemptAfterFatal events"
      and undecided: "list_all (\<lambda>context. isl (env_selectProvider env context)) (selectCalls events)"
      by (simp_all add: stoppedEarly_def)
    have "\<forall>xs q n m ys. events = xs @ AttemptFailed q n False m # ys
           \<longrightarrow> attemptedProviders ys = [] \<and> authorizedProviders ys = []"
      using r(5) fatal_split by blast
    moreover have "\<And>c d. SelectProvider c \<in> set events \<Longrightarrow> env_selectProvider env c \<noteq> Inr d"
      using undecided unfolding select_set by (auto simp: list_all_iff)
    ultimately show ?thesis using r by auto
  next
    assume "ranAttempts env newId request db result db' events"
    then obtain pre new ctx decision where
      ev: "events = pre @ new" and sc: "selectCalls pre = [ctx]"
      and dec: "env_selectProvider env ctx = Inr decision"
      and pre: "attemptedProviders pre = []" "authorizedProviders pre = []" "failedAttempts pre = []"
        "processedEvents pre = []" "noAttemptAfterFatal pre"
      and spec: "attemptsSpec newId (dec_selectedProviderId decision # dec_fallbackProviderIds decision)
             (insertAccepted db newId request) db result db' new"
      unfolding ranAttempts_def by blast
    let ?cands = "dec_selectedProviderId decision # dec_fallbackProviderIds decision"
    have rd: "attemptedProviders events = attemptedProviders new"
      "authorizedProviders events = authorizedProviders new"
      "failedAttempts events = failedAttempts new"
      "processedEvents events = processedEvents new"
      unfolding ev using pre by (simp_all add: attempted_append authorized_append failed_append
          processed_append)
    have a: "prefix (attemptedProviders new) (take 3 ?cands)"
      and b: "subseq (authorizedProviders new) (attemptedProviders new)"
      and c: "noAttemptAfterFatal new"
      and d: "selectCalls new = []"
      and e: "processedEvents new \<noteq> [] \<longrightarrow> (\<exists>r. result = Inr r)"
      and f: "failedAttempts new \<noteq> [] \<and> processedEvents new = [] \<longrightarrow>
            result = Inl (allProvidersFailed newId)
            \<and> (\<exists>t. findTransaction db' newId = Some t \<and> tx_status t = FAILED
                   \<and> tx_failureReason t = Some (snd (snd (last (failedAttempts new)))))
            \<and> (\<not> fst (snd (last (failedAttempts new)))
                 \<or> attemptedProviders new = take 3 ?cands)"
      and g: "insertAccepted db newId request \<longrightarrow> attemptedProviders new \<noteq> []"
      and h: "map fst (failedAttempts new) @ map fst (processedEvents new) = attemptedProviders new"
      and i: "length (processedEvents new) \<le> 1"
      using spec by (simp_all add: attemptsSpec_def)
    have len: "length (attemptedProviders new) \<le> 3" and pf: "prefix (attemptedProviders new) ?cands"
      using prefix_take_length[OF a] by simp_all
    have first: "insertAccepted db newId request
        \<longrightarrow> attemptedProviders new \<noteq> [] \<and> hd (attemptedProviders new) = dec_selectedProviderId decision"
      using g prefix_nonempty_hd[OF pf] by blast
    have fatal: "noAttemptAfterFatal events"
      unfolding ev using pre c by (simp add: fatal_append)
    have split: "\<forall>xs q n m ys. events = xs @ AttemptFailed q n False m # ys
           \<longrightarrow> attemptedProviders ys = [] \<and> authorizedProviders ys = []"
      using fatal fatal_split by blast
    have only: "\<And>c. SelectProvider c \<in> set events \<Longrightarrow> c = ctx"
      unfolding ev select_set using sc d by (simp add: select_append)
    have sel: "\<forall>c dn. SelectProvider c \<in> set events \<and> env_selectProvider env c = Inr dn
           \<longrightarrow> prefix (attemptedProviders events) (dec_selectedProviderId dn # dec_fallbackProviderIds dn)
               \<and> (insertAccepted db newId request
                    \<longrightarrow> attemptedProviders events \<noteq> []
                        \<and> hd (attemptedProviders events) = dec_selectedProviderId dn)
               \<and> (failedAttempts events \<noteq> [] \<and> processedEvents events = []
                    \<longrightarrow> \<not> fst (snd (last (failedAttempts events)))
                        \<or> attemptedProviders events
                            = take 3 (dec_selectedProviderId dn # dec_fallbackProviderIds dn))"
    proof (intro allI impI)
      fix c dn
      assume h: "SelectProvider c \<in> set events \<and> env_selectProvider env c = Inr dn"
      then have "c = ctx" using only by blast
      then have "dn = decision" using h dec by simp
      then show "prefix (attemptedProviders events) (dec_selectedProviderId dn # dec_fallbackProviderIds dn)
               \<and> (insertAccepted db newId request
                    \<longrightarrow> attemptedProviders events \<noteq> []
                        \<and> hd (attemptedProviders events) = dec_selectedProviderId dn)
               \<and> (failedAttempts events \<noteq> [] \<and> processedEvents events = []
                    \<longrightarrow> \<not> fst (snd (last (failedAttempts events)))
                        \<or> attemptedProviders events
                            = take 3 (dec_selectedProviderId dn # dec_fallbackProviderIds dn))"
        unfolding rd using pf f first by blast
    qed
    show ?thesis
      unfolding rd(1,2)
      using len b sel[unfolded rd(1)] split e f h i
      unfolding rd(3,4) by blast
  qed
qed

lemma declined_run:
  "attemptedProviders (snd (snd (createPayment decliningEnv 1 ''tx1'' (examplePaymentDb None)
      (examplePaymentRequest None None)))) = [''pA'']"
  "authorizedProviders (snd (snd (createPayment decliningEnv 1 ''tx1'' (examplePaymentDb None)
      (examplePaymentRequest None None)))) = [''pA'']"
  "failedAttempts (snd (snd (createPayment decliningEnv 1 ''tx1'' (examplePaymentDb None)
      (examplePaymentRequest None None)))) = [(''pA'', False, ''Your card was declined'')]"
  "processedEvents (snd (snd (createPayment decliningEnv 1 ''tx1'' (examplePaymentDb None)
      (examplePaymentRequest None None)))) = []"
  by code_simp+

lemma flaky_run:
  "attemptedProviders (snd (snd (createPayment flakyEnv 1 ''tx1'' (examplePaymentDb None)
      (examplePaymentRequest None None)))) = [''pA'', ''pB'', ''pC'']"
  "authorizedProviders (snd (snd (createPayment flakyEnv 1 ''tx1'' (examplePaymentDb None)
      (examplePaymentRequest None None)))) = [''pA'', ''pB'', ''pC'']"
  "processedEvents (snd (snd (createPayment flakyEnv 1 ''tx1'' (examplePaymentDb None)
      (examplePaymentRequest None None)))) = [(''pC'', COMPLETED)]"
  "selectCalls (snd (snd (createPayment flakyEnv 1 ''tx1'' (examplePaymentDb None)
      (examplePaymentRequest None None))))
     = [buildRoutingContext (examplePaymentRequest None None) None None]"
  by code_simp+

lemma metricsDown_run:
  "authorizedProviders (snd (snd (createPayment metricsDownEnv 1 ''tx1'' (examplePaymentDb None)
      (examplePaymentRequest None None)))) = [''pA'']"
  "failedAttempts (snd (snd (createPayment metricsDownEnv 1 ''tx1'' (examplePaymentDb None)
      (examplePaymentRequest None None)))) = [(''pA'', False, ''Connection is closed.'')]"
  "processedEvents (snd (snd (createPayment metricsDownEnv 1 ''tx1'' (examplePaymentDb None)
      (examplePaymentRequest None None)))) = []"
  by code_simp+

lemma example_accepted: "insertAccepted (examplePaymentDb None) ''tx1'' (examplePaymentRequest None None)"
  by (simp add: insertAccepted_def examplePaymentDb_def examplePaymentRequest_def earlierPayment_def
      exampleTxn_def)

theorem createPayment_attempt_order_witness:
  "failedAttempts (snd (snd (createPayment decliningEnv 1 ''tx1'' (examplePaymentDb None)
      (examplePaymentRequest None None)))) = [(''pA'', False, ''Your card was declined'')]
   \<and> processedEvents (snd (snd (createPayment decliningEnv 1 ''tx1'' (examplePaymentDb None)
      (examplePaymentRequest None None)))) = []
   \<and> fst (createPayment decliningEnv 1 ''tx1'' (examplePaymentDb None)
      (examplePaymentRequest None None)) = Inl (allProvidersFailed ''tx1'')
   \<and> (\<exists>t. findTransaction (fst (snd (createPayment decliningEnv 1 ''tx1'' (examplePaymentDb None)
              (examplePaymentRequest None None)))) ''tx1'' = Some t
          \<and> tx_status t = FAILED \<and> tx_failureReason t = Some ''Your card was declined'')
   \<and> processedEvents (snd (snd (createPayment flakyEnv 1 ''tx1'' (examplePaymentDb None)
      (examplePaymentRequest None None)))) = [(''pC'', COMPLETED)]
   \<and> attemptedProviders (snd (snd (createPayment flakyEnv 1 ''tx1'' (examplePaymentDb None)
      (examplePaymentRequest None None)))) = [''pA'', ''pB'', ''pC'']
   \<and> hd (attemptedProviders (snd (snd (createPayment flakyEnv 1 ''tx1'' (examplePaymentDb None)
      (examplePaymentRequest None None))))) = dec_selectedProviderId exampleDecision
   \<and> (\<exists>r. fst (createPayment flakyEnv 1 ''tx1'' (examplePaymentDb None)
      (examplePaymentRequest None None)) = Inr r)
   \<and> authorizedProviders (snd (snd (createPayment metricsDownEnv 1 ''tx1'' (examplePaymentDb None)
      (examplePaymentRequest None None)))) = [''pA'']
   \<and> attemptedProviders (snd (snd (createPayment metricsDownEnv 1 ''tx1'' (examplePaymentDb None)
      (examplePaymentRequest None None)))) = [''pA'']
   \<and> fst (createPayment metricsDownEnv 1 ''tx1'' (examplePaymentDb None)
      (examplePaymentRequest None None)) = Inl (allProvidersFailed ''tx1'')
   \<and> (\<exists>t. findTransaction (fst (snd (createPayment metricsDownEnv 1 ''tx1'' (examplePaymentDb None)
              (examplePaymentRequest None None)))) ''tx1'' = Some t
          \<and> tx_status t = FAILED \<and> tx_failureReason t = Some ''Connection is closed.'')"
proof -
  let ?d = "createPayment decliningEnv 1 ''tx1'' (examplePaymentDb None) (examplePaymentRequest None None)"
  let ?f = "createPayment flakyEnv 1 ''tx1'' (examplePaymentDb None) (examplePaymentRequest None None)"
  let ?m = "createPayment metricsDownEnv 1 ''tx1'' (examplePaymentDb None) (examplePaymentRequest None None)"
  let ?ctx = "buildRoutingContext (examplePaymentRequest None None) None None"
  have d: "?d = (fst ?d, fst (snd ?d), snd (snd ?d))" by simp
  have f: "?f = (fst ?f, fst (snd ?f), snd (snd ?f))" by simp
  have m: "?m = (fst ?m, fst (snd ?m), snd (snd ?m))" by simp
  note td = createPayment_attempt_order[OF d]
  note tf = createPayment_attempt_order[OF f]
  note tm = createPayment_attempt_order[OF m]
  have "failedAttempts (snd (snd ?d)) \<noteq> [] \<and> processedEvents (snd (snd ?d)) = []"
    using declined_run by simp
  with td have "fst ?d = Inl (allProvidersFailed ''tx1'')
      \<and> (\<exists>t. findTransaction (fst (snd ?d)) ''tx1'' = Some t \<and> tx_status t = FAILED
             \<and> tx_failureReason t = Some (snd (snd (last (failedAttempts (snd (snd ?d)))))))"
    by blast
  then have 1: "fst ?d = Inl (allProvidersFailed ''tx1'')
      \<and> (\<exists>t. findTransaction (fst (snd ?d)) ''tx1'' = Some t \<and> tx_status t = FAILED
             \<and> tx_failureReason t = Some ''Your card was declined'')"
    using declined_run by simp
  have "processedEvents (snd (snd ?f)) \<noteq> []" using flaky_run by simp
  with tf have 2: "\<exists>r. fst ?f = Inr r" by blast
  have "SelectProvider ?ctx \<in> set (snd (snd ?f))"
    unfolding select_set using flaky_run(4) by simp
  moreover have "env_selectProvider flakyEnv ?ctx = Inr exampleDecision"
    by (simp add: flakyEnv_def)
  ultimately have 3: "hd (attemptedProviders (snd (snd ?f))) = dec_selectedProviderId exampleDecision"
    using tf example_accepted by blast
  have fm: "failedAttempts (snd (snd ?m)) \<noteq> [] \<and> processedEvents (snd (snd ?m)) = []"
    using metricsDown_run by simp
  with tm have "fst ?m = Inl (allProvidersFailed ''tx1'')
      \<and> (\<exists>t. findTransaction (fst (snd ?m)) ''tx1'' = Some t \<and> tx_status t = FAILED
             \<and> tx_failureReason t = Some (snd (snd (last (failedAttempts (snd (snd ?m)))))))"
    by blast
  then have 4: "fst ?m = Inl (allProvidersFailed ''tx1'')
      \<and> (\<exists>t. findTransaction (fst (snd ?m)) ''tx1'' = Some t \<and> tx_status t = FAILED
             \<and> tx_failureReason t = Some ''Connection is closed.'')"
    using metricsDown_run by simp
  from tm have "map fst (failedAttempts (snd (snd ?m))) @ map fst (processedEvents (snd (snd ?m)))
      = attemptedProviders (snd (snd ?m))"
    by blast
  then have 5: "attemptedProviders (snd (snd ?m)) = [''pA'']"
    using metricsDown_run by simp
  from 1 2 3 4 5 show ?thesis using declined_run flaky_run metricsDown_run by simp
qed


lemma writes_record [simp]:
  "pdb_statusWrites (recordStatusChange db i a b r) = pdb_statusWrites db"
  by (simp add: recordStatusChange_def)



lemma writesIn_mono: "writesIn G i a b \<Longrightarrow> set G \<subseteq> set H \<Longrightarrow> writesIn H i a b"
  by (auto simp: writesIn_def list_all_iff)





lemma status_markProcessing [simp]: "tx_status (markProcessing p t) = PROCESSING"
  by (simp add: markProcessing_def)

lemma status_applyAuthorizeResult [simp]:
  "tx_status (applyAuthorizeResult now r t) = newStatusOf (au_status r)"
  by (simp add: applyAuthorizeResult_def)
























end
